(* ===== verification/Prelude.thy ===== *)
theory Prelude
  imports Main "HOL-Library.Word"
begin

text \<open>
  Shared vocabulary of the development: the result type that stands for a C++ function
  that either returns or throws, its sequencing combinator, the byte constants the
  HTTP formatting code uses, the standard-library string operations the sources call,
  and the generic lemmas on association lists (the model of \<^verbatim>\<open>std::unordered_map\<close>)
  that the component theories share.
\<close>

named_theorems result_simps "evaluation rules of the result combinators"
named_theorems assoc_simps "rules on association lists that model unordered maps"

section \<open>Results: returning or throwing\<close>

text \<open>
  A C++ function of the sources either returns a value or throws. It is modelled as a
  function into \<open>'e + 'a\<close>: \<open>Inr\<close> is the normal return, \<open>Inl\<close> the exception.
  \<open>rbind\<close> is the sequential composition of two statements: the second runs only
  when the first returned.
\<close>

type_synonym ('e, 'a) result = "'e + 'a"

definition rbind :: "('e, 'a) result \<Rightarrow> ('a \<Rightarrow> ('e, 'b) result) \<Rightarrow> ('e, 'b) result" where
  "rbind m f = (case m of Inl e \<Rightarrow> Inl e | Inr a \<Rightarrow> f a)"

lemma rbind_Inl [simp, result_simps]: "rbind (Inl e) f = Inl e"
  by (simp add: rbind_def)

lemma rbind_Inr [simp, result_simps]: "rbind (Inr a) f = f a"
  by (simp add: rbind_def)

lemma rbind_eq_Inr_iff [result_simps]:
  "rbind m f = Inr b \<longleftrightarrow> (\<exists>a. m = Inr a \<and> f a = Inr b)"
  by (cases m) simp_all

lemma rbind_eq_Inl_iff [result_simps]:
  "rbind m f = Inl e \<longleftrightarrow> m = Inl e \<or> (\<exists>a. m = Inr a \<and> f a = Inl e)"
  by (cases m) simp_all

lemma rbind_ex_Inr [result_simps]: "(\<exists>b. rbind m f = Inr b) \<longleftrightarrow> (\<exists>a. m = Inr a \<and> (\<exists>b. f a = Inr b))"
  by (auto simp add: rbind_eq_Inr_iff)

lemma rbind_assoc [result_simps]: "rbind (rbind m f) g = rbind m (\<lambda>a. rbind (f a) g)"
  by (cases m) simp_all

text \<open>Two statements that can only throw the same exception may run in either order.\<close>

lemma rbind_commute_same_error:
  assumes "\<And>e. m1 = Inl e \<Longrightarrow> e = err" and "\<And>e. m2 = Inl e \<Longrightarrow> e = err"
  shows "rbind m1 (\<lambda>a. rbind m2 (\<lambda>b. f a b)) = rbind m2 (\<lambda>b. rbind m1 (\<lambda>a. f a b))"
  using assms by (cases m1; cases m2) simp_all

section \<open>Bytes and standard-library string operations\<close>

text \<open>
  Strings are byte strings (\<open>char list\<close>, one \<open>char\<close> per byte), as
  \<^verbatim>\<open>std::string\<close> and \<^verbatim>\<open>std::u8string\<close> are.
  The characters that a string literal cannot spell are named here.
\<close>

definition bslash :: char where "bslash = CHR 0x5C"
definition dquote :: char where "dquote = CHR 0x22"
definition crlf :: string where "crlf = [CHR 0x0D, CHR 0x0A]"

lemma bslash_neq_dquote [simp]: "bslash \<noteq> dquote" "dquote \<noteq> bslash"
  by (simp_all add: bslash_def dquote_def)

text \<open>\<^verbatim>\<open>std::string_view::starts_with\<close>.\<close>

definition starts_with :: "string \<Rightarrow> string \<Rightarrow> bool" where
  "starts_with s p \<longleftrightarrow> take (length p) s = p"

lemma starts_with_append [simp]: "starts_with (p @ r) p"
  by (simp add: starts_with_def)

text \<open>Decimal rendering of an integer, as \<^verbatim>\<open>snprintf(\"%\" PRId64)\<close> prints it.\<close>

fun show_nat :: "nat \<Rightarrow> string" where
  "show_nat n = (if n < 10 then [char_of (48 + n)] else show_nat (n div 10) @ [char_of (48 + n mod 10)])"

declare show_nat.simps [simp del]

lemma char_of_digit [simp]:
  "char_of (48::nat) = CHR ''0''" "char_of (49::nat) = CHR ''1''" "char_of (50::nat) = CHR ''2''"
  "char_of (51::nat) = CHR ''3''" "char_of (52::nat) = CHR ''4''" "char_of (53::nat) = CHR ''5''"
  "char_of (54::nat) = CHR ''6''" "char_of (55::nat) = CHR ''7''" "char_of (56::nat) = CHR ''8''"
  "char_of (57::nat) = CHR ''9''"
  by (simp_all add: char_of_def bit_0)

definition show_int :: "int \<Rightarrow> string" where
  "show_int i = (if i < 0 then CHR ''-'' # show_nat (nat (- i)) else show_nat (nat i))"

text \<open>The reference reading of a decimal string, as \<^verbatim>\<open>atoi\<close> reads the digits of a
  port, and the digit test.\<close>

definition read_nat :: "string \<Rightarrow> nat" where
  "read_nat s = foldl (\<lambda>n c. 10 * n + (of_char c - 48)) 0 s"

definition is_digit :: "char \<Rightarrow> bool" where
  "is_digit c \<longleftrightarrow> (48::nat) \<le> of_char c \<and> (of_char c :: nat) \<le> 57"

lemma show_nat_unfold: "show_nat n = (if n < 10 then [char_of (48 + n)] else show_nat (n div 10) @ [char_of (48 + n mod 10)])"
  by (rule show_nat.simps)

lemma of_char_digit: "(d::nat) < 10 \<Longrightarrow> of_char (char_of (48 + d) :: char) = 48 + d"
  by (simp add: of_char_of)

lemma show_nat_props:
  "read_nat (show_nat n) = n \<and> list_all is_digit (show_nat n) \<and> show_nat n \<noteq> [] \<and>
   (n < 10 ^ k \<longrightarrow> length (show_nat n) \<le> max 1 k)"
proof (induction n arbitrary: k rule: show_nat.induct)
  case (1 n)
  show ?case
  proof (cases "n < 10")
    case True
    then show ?thesis
      by (subst (1 2 3 4) show_nat_unfold) (simp add: read_nat_def is_digit_def of_char_digit)
  next
    case False
    have d: "n mod 10 < 10" by simp
    have IH: "read_nat (show_nat (n div 10)) = n div 10" "list_all is_digit (show_nat (n div 10))"
      "\<And>k. n div 10 < 10 ^ k \<longrightarrow> length (show_nat (n div 10)) \<le> max 1 k"
      using "1.IH" False by auto
    have len: "n < 10 ^ k \<longrightarrow> length (show_nat (n div 10)) + 1 \<le> max 1 k"
    proof
      assume n: "n < 10 ^ k"
      then obtain k' where k: "k = Suc k'" using False by (cases k) auto
      with n have "n div 10 < 10 ^ k'" by (simp add: div_less_iff_less_mult mult.commute)
      moreover have "0 < n div 10" using False by simp
      ultimately show "length (show_nat (n div 10)) + 1 \<le> max 1 k" using IH(3) [of k'] k by (cases k') auto
    qed
    from False IH len d show ?thesis
      by (subst (1 2 3 4) show_nat_unfold)
         (simp add: read_nat_def is_digit_def of_char_digit [OF d] foldl_append)
  qed
qed

section \<open>Association lists as unordered maps\<close>

text \<open>
  A \<^verbatim>\<open>std::unordered_map\<close> is an association list with distinct keys. Its iteration
  order is unspecified, so every property of code that iterates one is stated for all
  orders: for any list with the same entries.
\<close>

text \<open>
  A \<^verbatim>\<open>std::unordered_set\<close> is a list without duplicates; \<^verbatim>\<open>emplace\<close> adds an
  element that is not yet present.
\<close>

definition uset_emplace :: "'a \<Rightarrow> 'a list \<Rightarrow> 'a list" where
  "uset_emplace x xs = (if x \<in> set xs then xs else x # xs)"

lemma uset_emplace_distinct [simp, assoc_simps]: "distinct (uset_emplace x xs) \<longleftrightarrow> distinct xs"
  by (simp add: uset_emplace_def)

lemma set_uset_emplace [simp, assoc_simps]: "set (uset_emplace x xs) = insert x (set xs)"
  by (auto simp add: uset_emplace_def)

section \<open>64-bit words read signed and unsigned\<close>

text \<open>
  An \<^verbatim>\<open>int64_t\<close> converted to \<^verbatim>\<open>uint64_t\<close> keeps its bits; the two readings
  are \<open>sint\<close> and \<open>uint\<close>. Compared unsigned, non-negative values keep their order,
  and a negative value lies above every non-negative one.
\<close>

lemma uint_sint64: "uint (w::64 word) = (if sint w < 0 then sint w + 2 ^ 64 else sint w)"
proof -
  have lo: "- (2 ^ 63) \<le> sint w" using sint_ge [of w] by simp
  have hi: "sint w < 2 ^ 63" using sint_lt [of w] by simp
  have "uint w = sint w mod 2 ^ 64" by (simp add: uint_sint take_bit_eq_mod)
  also have "\<dots> = (if sint w < 0 then sint w + 2 ^ 64 else sint w)"
  proof (cases "sint w < 0")
    case True
    have "sint w mod 2 ^ 64 = (sint w + 2 ^ 64) mod 2 ^ 64" by simp
    also have "\<dots> = sint w + 2 ^ 64" using lo True by (intro mod_pos_pos_trivial) simp_all
    finally show ?thesis using True by simp
  next
    case False
    then show ?thesis using hi by (simp add: mod_pos_pos_trivial)
  qed
  finally show ?thesis .
qed

lemma word64_less_nonneg: "0 \<le> sint (a::64 word) \<Longrightarrow> 0 \<le> sint b \<Longrightarrow> a < b \<longleftrightarrow> sint a < sint b"
  by (simp add: word_less_def uint_sint64)

lemma word64_neg_not_less: "sint (a::64 word) < 0 \<Longrightarrow> 0 \<le> sint b \<Longrightarrow> \<not> a < b"
  using sint_lt [of b] sint_ge [of a] by (simp add: word_less_def uint_sint64)

end
