(* ===== verification/Json.thy ===== *)
theory Json
  imports Prelude
begin

text \<open>
  JSON values as the sources see them: configuration documents (read through the
  Xentara decoder) and token claims (picojson values inside jwt-cpp). With
  \<^verbatim>\<open>PICOJSON_USE_INT64\<close>, which jwt-cpp sets, an integral number is held as an
  \<^verbatim>\<open>int64_t\<close>; it is a \<open>64 word\<close> here, read signed with \<open>sint\<close>. Fractional
  numbers (picojson's \<^verbatim>\<open>double\<close>) are not modelled. Objects are association lists in
  document order.
\<close>

type_synonym int64 = "64 word"

datatype json =
    JNull
  | JBool bool
  | JNum int64
  | JStr string
  | JArr "json list"
  | JObj "(string \<times> json) list"

text \<open>
  \<^verbatim>\<open>picojson::value::to_str()\<close>: a string is returned as it is, a number is printed,
  and an array or an object is printed as the bare words \<open>array\<close> and \<open>object\<close>.
  The provider compares \<open>aud\<close> and \<open>iss\<close> through this rendering.
\<close>

fun to_str :: "json \<Rightarrow> string" where
  "to_str JNull = ''null''"
| "to_str (JBool b) = (if b then ''true'' else ''false'')"
| "to_str (JNum n) = show_int (sint n)"
| "to_str (JStr s) = s"
| "to_str (JArr _) = ''array''"
| "to_str (JObj _) = ''object''"

text \<open>
  jwt-cpp's \<^verbatim>\<open>basic_claim::as_integer()\<close> (\<^verbatim>\<open>as_int\<close>) and \<^verbatim>\<open>as_string()\<close>:
  \<open>None\<close> is the \<^verbatim>\<open>std::bad_cast\<close> they throw on a value of another type.
\<close>

fun as_int :: "json \<Rightarrow> int64 option" where
  "as_int (JNum n) = Some n"
| "as_int _ = None"

fun as_string :: "json \<Rightarrow> string option" where
  "as_string (JStr s) = Some s"
| "as_string _ = None"

fun as_array :: "json \<Rightarrow> json list option" where
  "as_array (JArr xs) = Some xs"
| "as_array _ = None"

fun as_object :: "json \<Rightarrow> (string \<times> json) list option" where
  "as_object (JObj m) = Some m"
| "as_object _ = None"


end
