(* ===== verification/Jwt.thy ===== *)
theory Jwt
  imports Json
begin

text \<open>
  The interface of the jwt-cpp library as the sources use it (\<^verbatim>\<open>src/src/JwtCpp.hpp\<close>
  names its types). The library is not part of the repository: its parser, its base64
  and PEM conversions and its cryptography are not modelled but passed to the model as
  the fields of a \<open>jwt_lib\<close> record, so every theorem holds for any library that
  behaves as the record's type says. What the repository's code does with the library's
  answers is modelled exactly.
\<close>

section \<open>Tokens\<close>

text \<open>
  \<^verbatim>\<open>JwtToken\<close> (\<^verbatim>\<open>jwt::decoded_jwt\<close>): header and payload claims, each a JSON object
  read into a map (distinct keys), and the signature bytes.
\<close>

record jwt_token =
  header_claims :: "(string \<times> json) list"
  payload_claims :: "(string \<times> json) list"
  signature :: string

definition wf_token :: "jwt_token \<Rightarrow> bool" where
  "wf_token t \<longleftrightarrow> distinct (map fst (header_claims t)) \<and> distinct (map fst (payload_claims t))"

text \<open>\<^verbatim>\<open>has_payload_claim\<close>, \<^verbatim>\<open>get_payload_claim\<close> and \<^verbatim>\<open>get_key_id\<close>
  (the header's \<open>kid\<close> as a string; \<open>None\<close> is the exception it throws when the claim is
  absent or not a string).\<close>

definition get_payload_claim :: "jwt_token \<Rightarrow> string \<Rightarrow> json option" where
  "get_payload_claim t c = map_of (payload_claims t) c"

definition has_payload_claim :: "jwt_token \<Rightarrow> string \<Rightarrow> bool" where
  "has_payload_claim t c \<longleftrightarrow> get_payload_claim t c \<noteq> None"

definition get_key_id :: "jwt_token \<Rightarrow> string option" where
  "get_key_id t = (case map_of (header_claims t) ''kid'' of None \<Rightarrow> None | Some v \<Rightarrow> as_string v)"

section \<open>Algorithms and verifiers\<close>

text \<open>The signature algorithm classes of \<^verbatim>\<open>jwt::algorithm\<close> that the factory table names.\<close>

datatype algorithm =
    rs256 | rs384 | rs512
  | hs256 | hs384 | hs512
  | es256 | es256k | es384 | es512
  | ps256 | ps384 | ps512
  | ed25519 | ed448

text \<open>
  \<^verbatim>\<open>JwtVerifier\<close> (\<^verbatim>\<open>jwt::verifier\<close>) built by
  \<^verbatim>\<open>jwt::verify().allow_algorithm(Algorithm(key))\<close>: it accepts one algorithm with
  one key.
\<close>

record jwt_verifier =
  allowed_algorithm :: algorithm
  verifier_key :: string

text \<open>
  The \<^verbatim>\<open>std::error_code\<close> that \<^verbatim>\<open>verifier::verify(token, ec)\<close> sets: the name
  of its \<^verbatim>\<open>std::error_category\<close> (jwt-cpp has one category per error enum:
  token verification, signature verification, RSA, ECDSA, ...), its integer
  \<^verbatim>\<open>value()\<close> and its \<^verbatim>\<open>message()\<close>. Values are only unique within a category.
\<close>

record error_code =
  ec_category :: string
  ec_value :: int
  ec_message :: string

section \<open>JSON Web Keys\<close>

text \<open>A \<^verbatim>\<open>jwt::jwk\<close>: the key's JSON members.\<close>

record jwk =
  jwk_claims :: "(string \<times> json) list"

definition jwk_string :: "jwk \<Rightarrow> string \<Rightarrow> string option" where
  "jwk_string k c = (case map_of (jwk_claims k) c of None \<Rightarrow> None | Some v \<Rightarrow> as_string v)"

text \<open>\<^verbatim>\<open>jwk::get_algorithm\<close>, \<^verbatim>\<open>jwk::get_key_id\<close>: \<open>None\<close> is the exception thrown
  when the member is missing or not a string.\<close>

definition jwk_get_algorithm :: "jwk \<Rightarrow> string option" where
  "jwk_get_algorithm k = jwk_string k ''alg''"

definition jwk_get_key_id :: "jwk \<Rightarrow> string option" where
  "jwk_get_key_id k = jwk_string k ''kid''"

text \<open>\<^verbatim>\<open>jwk::get_x5c_key_value\<close>: the first certificate of the \<open>x5c\<close> array; it throws
  when the member is missing, not an array, empty, or its first element is not a string.\<close>

definition jwk_get_x5c_key_value :: "jwk \<Rightarrow> string option" where
  "jwk_get_x5c_key_value k =
     (case map_of (jwk_claims k) ''x5c'' of
        Some (JArr (JStr c # _)) \<Rightarrow> Some c
      | _ \<Rightarrow> None)"

section \<open>The library as an interface\<close>

text \<open>
  \<^item> \<open>decode\<close>: \<^verbatim>\<open>jwt::decode\<close>, \<open>None\<close> when it throws on a malformed token;
  \<^item> \<open>key_accepted\<close>: whether the constructor \<^verbatim>\<open>Algorithm(key)\<close> accepts the key
    material (an RSA or EC constructor throws on a malformed PEM key);
  \<^item> \<open>verify_token\<close>: \<^verbatim>\<open>verifier::verify(token, ec)\<close>, the error code it sets;
  \<^item> \<open>parse_jwks\<close>: \<^verbatim>\<open>jwt::parse_jwks\<close>, \<open>None\<close> when it throws;
  \<^item> \<open>der_to_pem\<close>: \<^verbatim>\<open>jwt::helper::convert_base64_der_to_pem\<close>, \<open>None\<close> when it throws;
  \<^item> \<open>tve_ok\<close>, \<open>tve_token_expired\<close>: the integer values of the enumerators
    \<^verbatim>\<open>jwt::error::token_verification_error::ok\<close> and \<^verbatim>\<open>::token_expired\<close>
    (0 and 14 in jwt-cpp), which the verifiers compare \<^verbatim>\<open>value()\<close> against.
\<close>

record jwt_lib =
  decode :: "string \<Rightarrow> jwt_token option"
  key_accepted :: "algorithm \<Rightarrow> string \<Rightarrow> bool"
  verify_token :: "jwt_verifier \<Rightarrow> jwt_token \<Rightarrow> error_code"
  parse_jwks :: "string \<Rightarrow> jwk list option"
  der_to_pem :: "string \<Rightarrow> string option"
  tve_ok :: int
  tve_token_expired :: int

text \<open>The library's decoder reads JSON objects into maps: the decoded claims have distinct keys.\<close>

definition wf_lib :: "jwt_lib \<Rightarrow> bool" where
  "wf_lib lib \<longleftrightarrow> (\<forall>s t. decode lib s = Some t \<longrightarrow> wf_token t)"

lemma wf_lib_decode: "wf_lib lib \<Longrightarrow> decode lib s = Some t \<Longrightarrow> wf_token t"
  by (simp add: wf_lib_def)


text \<open>A concrete library for examples: it decodes nothing, accepts every key, accepts a
  signature that is \<open>sig-\<close> followed by the verifier's key (otherwise it reports
  jwt-cpp's \<open>invalid_signature\<close>, value 10 of the signature category), and converts a
  certificate to PEM by prefixing it.\<close>

definition jwt_success :: error_code where
  "jwt_success = \<lparr>ec_category = ''token_verification_error'', ec_value = 0, ec_message = ''no error''\<rparr>"

definition signature_failure :: error_code where
  "signature_failure =
     \<lparr>ec_category = ''signature_verification_error'', ec_value = 10, ec_message = ''invalid signature''\<rparr>"

definition demo_lib :: jwt_lib where
  "demo_lib =
     \<lparr>decode = (\<lambda>_. None),
      key_accepted = (\<lambda>_ _. True),
      verify_token = (\<lambda>v t. if signature t = ''sig-'' @ verifier_key v then jwt_success
                           else signature_failure),
      parse_jwks = (\<lambda>_. None),
      der_to_pem = (\<lambda>x. Some (''PEM '' @ x)),
      tve_ok = 0, tve_token_expired = 14\<rparr>"

end
