(* ===== verification/Registry.thy ===== *)
theory Registry
  imports Jwt
begin

text \<open>
  \<^verbatim>\<open>src/src/TokenVerifierFactory.hpp\<close> and \<^verbatim>\<open>.cpp\<close>: the algorithm registry. Each
  global \<^verbatim>\<open>ConcreteTokenVerifierFactory<Algorithm>\<close> object (\<^verbatim>\<open>kRS256\<close>, ...) is
  identified with its algorithm class; \<^verbatim>\<open>kFactories\<close> is the static table from
  algorithm names to these objects, and \<^verbatim>\<open>factory(name)\<close> looks a name up in it.
  The table is built from an initializer list; for a key that the list repeats, the
  map keeps the first element (what the C++ standard libraries do on
  \<^verbatim>\<open>insert(first, last)\<close>), so the lookup is \<open>map_of\<close>, which returns the first binding.
\<close>

type_synonym TokenVerifierFactory = algorithm

definition kFactories :: "(string \<times> TokenVerifierFactory) list" where
  "kFactories =
     [(''RS256'', rs256), (''RS256'', rs384), (''RS512'', rs512),
      (''HS256'', hs256), (''HS384'', hs384), (''HS512'', hs512),
      (''ES256'', es256), (''ES256K'', es256k), (''ES384'', es384), (''ES512'', es512),
      (''PS256'', ps256), (''PS384'', ps384), (''PS512'', ps512),
      (''ED25519'', ed25519), (''ED448'', ed448)]"

definition factory :: "string \<Rightarrow> TokenVerifierFactory option" where
  "factory algorithmName = map_of kFactories algorithmName"

text \<open>
  \<^verbatim>\<open>ConcreteTokenVerifierFactory<Algorithm>::create(key)\<close>:
  \<^verbatim>\<open>jwt::verify().allow_algorithm(Algorithm(key))\<close>. The algorithm's constructor
  throws when it rejects the key material; that is \<open>None\<close>.
\<close>

definition create :: "jwt_lib \<Rightarrow> TokenVerifierFactory \<Rightarrow> string \<Rightarrow> jwt_verifier option" where
  "create lib f key =
     (if key_accepted lib f key then Some \<lparr>allowed_algorithm = f, verifier_key = key\<rparr> else None)"

text \<open>
  The names the table is meant to hold: the JSON Web Algorithms name of each class
  (RFC 7518, and \<open>ES256K\<close>, \<open>ED25519\<close>, \<open>ED448\<close> as jwt-cpp names them).
\<close>

fun jwa_name :: "algorithm \<Rightarrow> string" where
  "jwa_name rs256 = ''RS256''" | "jwa_name rs384 = ''RS384''" | "jwa_name rs512 = ''RS512''"
| "jwa_name hs256 = ''HS256''" | "jwa_name hs384 = ''HS384''" | "jwa_name hs512 = ''HS512''"
| "jwa_name es256 = ''ES256''" | "jwa_name es256k = ''ES256K''" | "jwa_name es384 = ''ES384''"
| "jwa_name es512 = ''ES512''"
| "jwa_name ps256 = ''PS256''" | "jwa_name ps384 = ''PS384''" | "jwa_name ps512 = ''PS512''"
| "jwa_name ed25519 = ''ED25519''" | "jwa_name ed448 = ''ED448''"

lemma create_Some_iff:
  "create lib f key = Some v \<longleftrightarrow> key_accepted lib f key \<and> v = \<lparr>allowed_algorithm = f, verifier_key = key\<rparr>"
  by (auto simp add: create_def)


section \<open>Properties of the lookup\<close>

text \<open>
  C28. The lookup is sound: whatever algorithm \<open>factory\<close> returns for a name is the
  algorithm of that name. (The table's second \<open>RS256\<close> entry, bound to the RS384
  factory, is shadowed by the first and never returned.)
\<close>

theorem factory_sound: "factory n = Some a \<Longrightarrow> jwa_name a = n"
  by (auto simp add: factory_def kFactories_def split: if_splits)

theorem factory_sound_witness: "factory ''HS256'' = Some hs256 \<and> jwa_name hs256 = ''HS256''"
  using factory_sound [of "''HS256''" hs256] by (simp add: factory_def kFactories_def)

text \<open>
  Looked up by its own name, every algorithm of the table is found, except RS384:
  the table binds the name \<open>RS384\<close> to nothing, so an \<open>@RS384\<close> verification block
  and every RS384 key of a key set are rejected or skipped.
\<close>

theorem factory_by_name: "factory (jwa_name a) = (if a = rs384 then None else Some a)"
  by (cases a) (simp_all add: factory_def kFactories_def)

end
