(* ===== verification/Config.thy ===== *)
theory Config
  imports Json
begin

text \<open>
  What the sources use of the Xentara configuration layer and of the file system, at
  load and initialisation time. A JSON object is read member by member in document
  order (\<^verbatim>\<open>for (auto &&[key, value] : jsonObject)\<close>); the typed accessors
  (\<^verbatim>\<open>asString\<close>, \<^verbatim>\<open>asArray\<close>, \<^verbatim>\<open>asObject\<close>, \<^verbatim>\<open>asNumber\<close>) throw on a value of
  another type. Every exception of this phase is a \<open>config_error\<close>:
  \<^item> \<open>ConfigError msg\<close>: \<^verbatim>\<open>throwWithLocation(..., std::runtime_error(msg))\<close>, with the
    source's message;
  \<^item> \<open>UnknownParameter key\<close>: \<^verbatim>\<open>config::throwUnknownParameterError(key)\<close>;
  \<^item> \<open>WrongType ty\<close>: a typed accessor applied to a value of another type;
  \<^item> \<open>IoError path\<close>: a file that cannot be opened (\<^verbatim>\<open>utils::io::File\<close> throws);
  \<^item> \<open>LibraryException\<close>: an exception of jwt-cpp during initialisation;
  \<^item> \<open>FallbackError key\<close>: the host's fallback handler rejected a server member;
  \<^item> \<open>RuntimeError msg\<close>: a plain \<^verbatim>\<open>std::runtime_error(msg)\<close> of the start-up phase.
\<close>

datatype config_error =
    ConfigError string
  | UnknownParameter string
  | WrongType string
  | IoError string
  | LibraryException
  | FallbackError string
  | RuntimeError string

definition asString :: "json \<Rightarrow> (config_error, string) result" where
  "asString v = (case as_string v of Some s \<Rightarrow> Inr s | None \<Rightarrow> Inl (WrongType ''string''))"

definition asArray :: "json \<Rightarrow> (config_error, json list) result" where
  "asArray v = (case as_array v of Some xs \<Rightarrow> Inr xs | None \<Rightarrow> Inl (WrongType ''array''))"

definition asObject :: "json \<Rightarrow> (config_error, (string \<times> json) list) result" where
  "asObject v = (case as_object v of Some m \<Rightarrow> Inr m | None \<Rightarrow> Inl (WrongType ''object''))"

lemma asString_simps [simp]:
  "asString (JStr s) = Inr s"
  "asString v = Inr s \<longleftrightarrow> v = JStr s"
  by (cases v; simp add: asString_def)+

lemma asArray_simps [simp]:
  "asArray (JArr xs) = Inr xs"
  "asArray v = Inr xs \<longleftrightarrow> v = JArr xs"
  by (cases v; simp add: asArray_def)+

lemma asObject_simps [simp]:
  "asObject (JObj m) = Inr m"
  "asObject v = Inr m \<longleftrightarrow> v = JObj m"
  by (cases v; simp add: asObject_def)+

text \<open>
  \<^verbatim>\<open>value.asNumber<utils::network::PortNumber>()\<close>: a 16-bit unsigned port number;
  a number outside its range is rejected like a value of another type.
\<close>

definition asPortNumber :: "json \<Rightarrow> (config_error, 16 word) result" where
  "asPortNumber v =
     (case v of
        JNum n \<Rightarrow> (if 0 \<le> sint n \<and> sint n < 65536 then Inr (word_of_int (sint n)) else Inl (WrongType ''port number''))
      | _ \<Rightarrow> Inl (WrongType ''port number''))"

section \<open>Files\<close>

text \<open>
  The file system is a map from paths to file contents; \<open>None\<close> is a file that cannot
  be opened for reading. \<^verbatim>\<open>std::ifstream(path).is_open()\<close> tests it, and
  \<^verbatim>\<open>AbstractTokenVerification::readFile\<close> reads it whole or throws.
  \<^verbatim>\<open>std::filesystem::path::is_absolute\<close> on POSIX: the path starts with a slash.
\<close>

type_synonym filesystem = "string \<Rightarrow> string option"

definition is_absolute :: "string \<Rightarrow> bool" where
  "is_absolute p \<longleftrightarrow> p \<noteq> [] \<and> hd p = CHR ''/''"

definition is_open :: "filesystem \<Rightarrow> string \<Rightarrow> bool" where
  "is_open fs p \<longleftrightarrow> fs p \<noteq> None"

definition readFile :: "filesystem \<Rightarrow> string \<Rightarrow> (config_error, string) result" where
  "readFile fs p = (case fs p of None \<Rightarrow> Inl (IoError p) | Some c \<Rightarrow> Inr c)"

lemma readFile_eq_Inr_iff [simp]: "readFile fs p = Inr c \<longleftrightarrow> fs p = Some c"
  by (simp add: readFile_def split: option.splits)

end
