(* ===== verification/Verification.thy ===== *)
theory Verification
  imports Registry Config
begin

text \<open>
  The key verifiers: \<^verbatim>\<open>SimpleTokenVerification\<close> (one algorithm, one key file),
  \<^verbatim>\<open>JwksTokenVerification\<close> (a JSON Web Key Set, keys addressed by key id) and
  \<^verbatim>\<open>AbstractTokenVerification::load\<close>, which reads the \<open>verification\<close> block of the
  configuration and builds one of the two. The abstract base class is the tagged union
  \<open>token_verification\<close>; its virtual calls are a case distinction on the tag.
  Each class has the three phases of the sources: \<open>loadConfig\<close> (reads and checks the
  configuration), \<open>initialize\<close> (reads the key material, builds the verifiers) and
  \<open>verify\<close> (checks one token; an exception is \<open>Inl\<close> of its message).
\<close>

section \<open>The error code of a verification\<close>

text \<open>
  Both verifiers treat the error code of \<^verbatim>\<open>verifier::verify\<close> alike: they compare its
  \<^verbatim>\<open>value()\<close>, and only its value, with the values of \<open>ok\<close> and
  \<open>token_expired\<close>; any other value throws
  \<^verbatim>\<open>std::runtime_error(errorCode.message())\<close>.
\<close>

definition check_error_code :: "jwt_lib \<Rightarrow> error_code \<Rightarrow> (string, unit) result" where
  "check_error_code lib errorCode =
     (if ec_value errorCode \<noteq> tve_ok lib then
        (if ec_value errorCode \<noteq> tve_token_expired lib then Inl (ec_message errorCode)
         else Inr ())
      else Inr ())"

section \<open>SimpleTokenVerification\<close>

record simple_tv =
  keyFile :: string
  verifierFactory :: TokenVerifierFactory
  verifier :: "jwt_verifier option"

definition new_simple_tv :: "TokenVerifierFactory \<Rightarrow> simple_tv" where
  "new_simple_tv f = \<lparr>keyFile = [], verifierFactory = f, verifier = None\<rparr>"

fun Simple_loadConfig_members ::
  "filesystem \<Rightarrow> simple_tv \<Rightarrow> (string \<times> json) list \<Rightarrow> (config_error, simple_tv) result" where
  "Simple_loadConfig_members fs s [] = Inr s"
| "Simple_loadConfig_members fs s ((key, value) # ms) =
     (if key = ''keyFile'' then
        rbind (asString value) (\<lambda>kf.
          if kf = [] then
            Inl (ConfigError ''empty keyFile for verification in Authentication for Web Service Server'')
          else if \<not> is_absolute kf then
            Inl (ConfigError (''invalid keyFile path : set absolute path for the keyFile for verification in ''
                              @ ''Authentication for Web Service Server''))
          else if \<not> is_open fs kf then
            Inl (ConfigError ''invalid keyFile path : keyFile not found'')
          else Simple_loadConfig_members fs (s\<lparr>keyFile := kf\<rparr>) ms)
      else Inl (UnknownParameter key))"

definition Simple_loadConfig ::
  "filesystem \<Rightarrow> simple_tv \<Rightarrow> (string \<times> json) list \<Rightarrow> (config_error, simple_tv) result" where
  "Simple_loadConfig fs s obj =
     rbind (Simple_loadConfig_members fs s obj) (\<lambda>s'.
       if keyFile s' = [] then
         Inl (ConfigError ''missing keyFile path for verification in Authentication for Web Service Server'')
       else Inr s')"

definition Simple_initialize ::
  "jwt_lib \<Rightarrow> filesystem \<Rightarrow> simple_tv \<Rightarrow> (config_error, simple_tv) result" where
  "Simple_initialize lib fs s =
     rbind (readFile fs (keyFile s)) (\<lambda>key.
       case create lib (verifierFactory s) key of
         None \<Rightarrow> Inl LibraryException
       | Some v \<Rightarrow> Inr (s\<lparr>verifier := Some v\<rparr>))"

text \<open>
  \<^verbatim>\<open>SimpleTokenVerification::verify\<close> dereferences the optional verifier, which
  \<open>initialize\<close> has set; before that the dereference is undefined, and the model lets it
  throw (the lemma \<open>Simple_initialize_verifier\<close> shows the case does not arise after
  initialisation). The key id of the token is not looked at.
\<close>

definition Simple_verify :: "jwt_lib \<Rightarrow> simple_tv \<Rightarrow> jwt_token \<Rightarrow> (string, unit) result" where
  "Simple_verify lib s token =
     (case verifier s of
        None \<Rightarrow> Inl ''verifier used before initialize''
      | Some v \<Rightarrow> check_error_code lib (verify_token lib v token))"

section \<open>JwksTokenVerification\<close>

record jwks_tv =
  jwksFile :: string
  verifiers :: "(string \<times> jwt_verifier) list"

definition new_jwks_tv :: jwks_tv where
  "new_jwks_tv = \<lparr>jwksFile = [], verifiers = []\<rparr>"

fun Jwks_loadConfig_members ::
  "filesystem \<Rightarrow> jwks_tv \<Rightarrow> (string \<times> json) list \<Rightarrow> (config_error, jwks_tv) result" where
  "Jwks_loadConfig_members fs s [] = Inr s"
| "Jwks_loadConfig_members fs s ((key, value) # ms) =
     (if key = ''jwksFile'' then
        rbind (asString value) (\<lambda>kf.
          if kf = [] then
            Inl (ConfigError ''empty jwksFile for verification in Authentication for Web Service Server'')
          else if \<not> is_absolute kf then
            Inl (ConfigError (''invalid jwksFile path : set absolute path for the keyFile for verification in ''
                              @ ''Authentication for Web Service Server''))
          else if \<not> is_open fs kf then
            Inl (ConfigError ''invalid jwksFile path : keyFile not found'')
          else Jwks_loadConfig_members fs (s\<lparr>jwksFile := kf\<rparr>) ms)
      else Inl (UnknownParameter key))"

definition Jwks_loadConfig ::
  "filesystem \<Rightarrow> jwks_tv \<Rightarrow> (string \<times> json) list \<Rightarrow> (config_error, jwks_tv) result" where
  "Jwks_loadConfig fs s obj =
     rbind (Jwks_loadConfig_members fs s obj) (\<lambda>s'.
       if jwksFile s' = [] then
         Inl (ConfigError ''missing jwksFile path for verification in Authentication for Web Service Server'')
       else Inr s')"

text \<open>
  \<^verbatim>\<open>std::unordered_map::emplace\<close>: inserts only when the key is not yet present; an
  existing entry is kept.
\<close>

definition emplace :: "'k \<Rightarrow> 'v \<Rightarrow> ('k \<times> 'v) list \<Rightarrow> ('k \<times> 'v) list" where
  "emplace k v m = (if map_of m k = None then (k, v) # m else m)"

text \<open>
  The loop of \<^verbatim>\<open>JwksTokenVerification::initialize\<close> over the keys of the set. A key
  whose algorithm name the registry does not know is skipped; reading its \<open>alg\<close> member
  throws when it is absent. For a known algorithm the first \<open>x5c\<close> certificate is
  converted to PEM, a verifier is created, and it is stored under the key's \<open>kid\<close>. The
  arguments of \<^verbatim>\<open>emplace\<close> are evaluated in an unspecified order, but each of them
  throws the same \<open>LibraryException\<close> here, so the order does not matter.
\<close>

fun Jwks_add_keys :: "jwt_lib \<Rightarrow> jwks_tv \<Rightarrow> jwk list \<Rightarrow> (config_error, jwks_tv) result" where
  "Jwks_add_keys lib s [] = Inr s"
| "Jwks_add_keys lib s (k # ks) =
     (case jwk_get_algorithm k of
        None \<Rightarrow> Inl LibraryException
      | Some alg \<Rightarrow>
          (case factory alg of
             None \<Rightarrow> Jwks_add_keys lib s ks
           | Some f \<Rightarrow>
               (case jwk_get_x5c_key_value k of
                  None \<Rightarrow> Inl LibraryException
                | Some x5c \<Rightarrow>
                    (case (jwk_get_key_id k, der_to_pem lib x5c) of
                       (Some kid, Some pem) \<Rightarrow>
                         (case create lib f pem of
                            None \<Rightarrow> Inl LibraryException
                          | Some v \<Rightarrow> Jwks_add_keys lib (s\<lparr>verifiers := emplace kid v (verifiers s)\<rparr>) ks)
                     | _ \<Rightarrow> Inl LibraryException))))"

definition Jwks_initialize :: "jwt_lib \<Rightarrow> filesystem \<Rightarrow> jwks_tv \<Rightarrow> (config_error, jwks_tv) result" where
  "Jwks_initialize lib fs s =
     rbind (readFile fs (jwksFile s)) (\<lambda>text.
       case parse_jwks lib text of
         None \<Rightarrow> Inl LibraryException
       | Some jwks \<Rightarrow> Jwks_add_keys lib s jwks)"

text \<open>
  \<^verbatim>\<open>JwksTokenVerification::verify\<close>: \<^verbatim>\<open>token.get_key_id()\<close> throws when the token
  has no string \<open>kid\<close>; a key id with no verifier throws \<open>unknown key ID in token\<close>; no
  other key is tried.
\<close>

definition Jwks_verify :: "jwt_lib \<Rightarrow> jwks_tv \<Rightarrow> jwt_token \<Rightarrow> (string, unit) result" where
  "Jwks_verify lib s token =
     (case get_key_id token of
        None \<Rightarrow> Inl ''claim not present''
      | Some kid \<Rightarrow>
          (case map_of (verifiers s) kid of
             None \<Rightarrow> Inl ''unknown key ID in token''
           | Some v \<Rightarrow> check_error_code lib (verify_token lib v token)))"

section \<open>AbstractTokenVerification\<close>

datatype token_verification = Simple simple_tv | Jwks jwks_tv

definition tv_initialize ::
  "jwt_lib \<Rightarrow> filesystem \<Rightarrow> token_verification \<Rightarrow> (config_error, token_verification) result" where
  "tv_initialize lib fs tv =
     (case tv of
        Simple s \<Rightarrow> rbind (Simple_initialize lib fs s) (\<lambda>s'. Inr (Simple s'))
      | Jwks j \<Rightarrow> rbind (Jwks_initialize lib fs j) (\<lambda>j'. Inr (Jwks j')))"

definition tv_verify :: "jwt_lib \<Rightarrow> token_verification \<Rightarrow> jwt_token \<Rightarrow> (string, unit) result" where
  "tv_verify lib tv token =
     (case tv of Simple s \<Rightarrow> Simple_verify lib s token | Jwks j \<Rightarrow> Jwks_verify lib j token)"

text \<open>A verification whose key material is in place: a static-key verification has its
  verifier (a key set may be empty).\<close>

definition tv_ready :: "token_verification \<Rightarrow> bool" where
  "tv_ready tv \<longleftrightarrow> (case tv of Simple s \<Rightarrow> verifier s \<noteq> None | Jwks j \<Rightarrow> True)"

text \<open>
  \<^verbatim>\<open>AbstractTokenVerification::load\<close>: the block must hold exactly one member. A
  second member is rejected before its key is looked at. \<open>@JWKS\<close> selects the key set;
  any other key that starts with \<open>@\<close> names an algorithm of the registry (its value is
  read as an object first); any other key is an unknown parameter.
\<close>

fun load_members ::
  "filesystem \<Rightarrow> token_verification option \<Rightarrow> (string \<times> json) list
     \<Rightarrow> (config_error, token_verification option) result" where
  "load_members fs auth [] = Inr auth"
| "load_members fs auth ((key, value) # ms) =
     (if auth \<noteq> None then
        Inl (ConfigError ''extra members in verification block of web service server authentication'')
      else if key = ''@JWKS'' then
        rbind (asObject value) (\<lambda>jwks.
          rbind (Jwks_loadConfig fs new_jwks_tv jwks) (\<lambda>j. load_members fs (Some (Jwks j)) ms))
      else if starts_with key ''@'' then
        rbind (asObject value) (\<lambda>openId.
          case factory (drop 1 key) of
            None \<Rightarrow> Inl (ConfigError (''unkown verification method '' @ key @ '' in web service server authentication''))
          | Some f \<Rightarrow> rbind (Simple_loadConfig fs (new_simple_tv f) openId) (\<lambda>s. load_members fs (Some (Simple s)) ms))
      else Inl (UnknownParameter key))"

definition AbstractTokenVerification_load ::
  "filesystem \<Rightarrow> (string \<times> json) list \<Rightarrow> (config_error, token_verification) result" where
  "AbstractTokenVerification_load fs obj =
     rbind (load_members fs None obj) (\<lambda>a.
       case a of
         None \<Rightarrow> Inl (ConfigError ''missing authentication provider for authentication in web service server'')
       | Some tv \<Rightarrow> Inr tv)"


section \<open>Properties of the verifiers\<close>

lemma map_of_emplace:
  "map_of (emplace k v m) x = (if x = k \<and> map_of m k = None then Some v else map_of m x)"
  by (simp add: emplace_def)

lemma load_members_Some: "load_members fs (Some tv) ms = Inr r \<Longrightarrow> ms = [] \<and> r = Some tv"
  by (cases ms) auto

lemma Simple_initialize_verifier:
  "Simple_initialize lib fs s = Inr s' \<Longrightarrow>
   \<exists>key. fs (keyFile s) = Some key \<and> key_accepted lib (verifierFactory s) key \<and>
     s' = s\<lparr>verifier := Some \<lparr>allowed_algorithm = verifierFactory s, verifier_key = key\<rparr>\<rparr>"
  by (auto simp add: Simple_initialize_def rbind_eq_Inr_iff create_Some_iff split: option.splits)

lemma tv_initialize_ready: "tv_initialize lib fs tv = Inr tv' \<Longrightarrow> tv_ready tv'"
  by (cases tv) (auto simp add: tv_initialize_def tv_ready_def rbind_eq_Inr_iff dest!: Simple_initialize_verifier)

text \<open>
  C11. A token whose key id has no verifier in the key set is rejected with
  \<open>unknown key ID in token\<close>, whatever its signature and whatever the library: no
  other key is tried.
\<close>

theorem Jwks_verify_unknown_kid:
  "get_key_id token = Some kid \<Longrightarrow> map_of (verifiers s) kid = None \<Longrightarrow>
   Jwks_verify lib s token = Inl ''unknown key ID in token''"
  by (simp add: Jwks_verify_def)

theorem Jwks_verify_unknown_kid_witness:
  "Jwks_verify demo_lib new_jwks_tv
     \<lparr>header_claims = [(''kid'', JStr ''b'')], payload_claims = [], signature = ''sig-k''\<rparr>
   = Inl ''unknown key ID in token''"
  by (rule Jwks_verify_unknown_kid) (simp_all add: get_key_id_def new_jwks_tv_def)

text \<open>
  C29. Every verifier that \<open>JwksTokenVerification::initialize\<close> stores under a key id
  comes from a key of the set with that \<open>kid\<close> whose \<open>alg\<close> the registry resolves
  to the verifier's algorithm (or was there before the loop).
\<close>

theorem Jwks_add_keys_sound:
  "Jwks_add_keys lib s ks = Inr s' \<Longrightarrow> map_of (verifiers s') kid = Some v \<Longrightarrow>
   map_of (verifiers s) kid = Some v \<or>
   (\<exists>k \<in> set ks. \<exists>alg. jwk_get_key_id k = Some kid \<and> jwk_get_algorithm k = Some alg \<and>
      factory alg = Some (allowed_algorithm v))"
proof (induction ks arbitrary: s)
  case Nil
  then show ?case by simp
next
  case (Cons k ks)
  show ?case
  proof (cases "\<exists>alg f. jwk_get_algorithm k = Some alg \<and> factory alg = Some f")
    case False
    with Cons.prems have "Jwks_add_keys lib s ks = Inr s'"
      by (auto split: option.splits)
    with Cons.IH Cons.prems(2) show ?thesis by auto
  next
    case True
    then obtain alg f where alg: "jwk_get_algorithm k = Some alg" and f: "factory alg = Some f"
      by blast
    with Cons.prems(1) obtain kid' pem where
        kid': "jwk_get_key_id k = Some kid'" and
        rest: "Jwks_add_keys lib (s\<lparr>verifiers := emplace kid'
                  \<lparr>allowed_algorithm = f, verifier_key = pem\<rparr> (verifiers s)\<rparr>) ks = Inr s'"
      by (auto split: option.splits prod.splits simp add: create_Some_iff)
    from Cons.IH [OF rest Cons.prems(2)] kid' alg f show ?thesis
      by (auto simp add: map_of_emplace split: if_splits)
  qed
qed

theorem Jwks_add_keys_sound_witness:
  "Jwks_add_keys demo_lib new_jwks_tv
     [\<lparr>jwk_claims = [(''alg'', JStr ''RS256''), (''kid'', JStr ''a''), (''x5c'', JArr [JStr ''MIIB''])]\<rparr>]
   = Inr (new_jwks_tv\<lparr>verifiers := [(''a'', \<lparr>allowed_algorithm = rs256, verifier_key = ''PEM MIIB''\<rparr>)]\<rparr>)
   \<and> factory ''RS256'' = Some rs256"
proof -
  let ?k = "\<lparr>jwk_claims = [(''alg'', JStr ''RS256''), (''kid'', JStr ''a''), (''x5c'', JArr [JStr ''MIIB''])]\<rparr>"
  let ?v = "\<lparr>allowed_algorithm = rs256, verifier_key = ''PEM MIIB''\<rparr>"
  have run: "Jwks_add_keys demo_lib new_jwks_tv [?k] = Inr (new_jwks_tv\<lparr>verifiers := [(''a'', ?v)]\<rparr>)"
    by (simp add: demo_lib_def jwk_get_algorithm_def jwk_get_key_id_def jwk_string_def
        jwk_get_x5c_key_value_def factory_def kFactories_def create_def emplace_def new_jwks_tv_def)
  have "map_of (verifiers (new_jwks_tv\<lparr>verifiers := [(''a'', ?v)]\<rparr>)) ''a'' = Some ?v"
    by simp
  from Jwks_add_keys_sound [OF run this] have "factory ''RS256'' = Some rs256"
    by (auto simp add: new_jwks_tv_def jwk_get_key_id_def jwk_get_algorithm_def jwk_string_def)
  with run show ?thesis by simp
qed

text \<open>
  C30. Keys whose \<open>alg\<close> the registry does not know are skipped without error and add
  no verifier.
\<close>

theorem Jwks_add_keys_skips_unknown:
  "(\<forall>k \<in> set ks. \<exists>alg. jwk_get_algorithm k = Some alg \<and> factory alg = None) \<Longrightarrow>
   Jwks_add_keys lib s ks = Inr s"
  by (induction lib s ks rule: Jwks_add_keys.induct) auto

theorem Jwks_add_keys_skips_unknown_witness:
  "Jwks_add_keys demo_lib new_jwks_tv
     [\<lparr>jwk_claims = [(''alg'', JStr ''RS384''), (''kid'', JStr ''r''), (''x5c'', JArr [JStr ''MIIB''])]\<rparr>]
   = Inr new_jwks_tv"
  by (rule Jwks_add_keys_skips_unknown)
     (simp add: jwk_get_algorithm_def jwk_string_def factory_def kFactories_def)

text \<open>
  C31. A verification block that loads holds exactly one member: the configuration always
  resolves to one strategy.
\<close>

theorem AbstractTokenVerification_load_one_member:
  "AbstractTokenVerification_load fs obj = Inr tv \<Longrightarrow> length obj = 1"
proof -
  assume ok: "AbstractTokenVerification_load fs obj = Inr tv"
  then obtain key v ms where obj: "obj = (key, v) # ms"
    by (cases obj) (auto simp add: AbstractTokenVerification_load_def)
  from ok obj have "ms = []"
    by (auto simp add: AbstractTokenVerification_load_def rbind_eq_Inr_iff split: if_splits option.splits
        dest: load_members_Some)
  with obj show ?thesis by simp
qed

theorem AbstractTokenVerification_load_one_member_witness:
  "AbstractTokenVerification_load (\<lambda>p. if p = ''/keys.json'' then Some ''{}'' else None)
     [(''@JWKS'', JObj [(''jwksFile'', JStr ''/keys.json'')])]
   = Inr (Jwks \<lparr>jwksFile = ''/keys.json'', verifiers = []\<rparr>)
   \<and> length [(''@JWKS'', JObj [(''jwksFile'', JStr ''/keys.json'')])] = 1"
proof -
  have ok: "AbstractTokenVerification_load (\<lambda>p. if p = ''/keys.json'' then Some ''{}'' else None)
     [(''@JWKS'', JObj [(''jwksFile'', JStr ''/keys.json'')])]
   = Inr (Jwks \<lparr>jwksFile = ''/keys.json'', verifiers = []\<rparr>)"
    by (simp add: AbstractTokenVerification_load_def Jwks_loadConfig_def new_jwks_tv_def
        is_absolute_def is_open_def)
  from ok AbstractTokenVerification_load_one_member [OF ok] show ?thesis by simp
qed

text \<open>
  After \<^verbatim>\<open>SimpleTokenVerification::initialize\<close> succeeds, \<^verbatim>\<open>verify\<close> checks
  every token with the configured algorithm and the key read from the key file, and
  passes exactly when the value of the error code the library reports is that of
  \<open>ok\<close> or of \<open>token_expired\<close>.
\<close>

theorem Simple_initialize_verify:
  "Simple_initialize lib fs s = Inr s' \<Longrightarrow>
   \<exists>key. fs (keyFile s) = Some key \<and>
     Simple_verify lib s' t = check_error_code lib (verify_token lib \<lparr>allowed_algorithm = verifierFactory s, verifier_key = key\<rparr> t)"
  by (auto simp add: Simple_verify_def dest!: Simple_initialize_verifier)

theorem Simple_initialize_verify_witness:
  "Simple_initialize demo_lib (\<lambda>p. if p = ''/k'' then Some ''k'' else None) ((new_simple_tv hs256)\<lparr>keyFile := ''/k''\<rparr>)
     = Inr ((new_simple_tv hs256)\<lparr>keyFile := ''/k'', verifier := Some \<lparr>allowed_algorithm = hs256, verifier_key = ''k''\<rparr>\<rparr>) \<and>
   Simple_verify demo_lib ((new_simple_tv hs256)\<lparr>keyFile := ''/k'', verifier := Some \<lparr>allowed_algorithm = hs256, verifier_key = ''k''\<rparr>\<rparr>)
     \<lparr>header_claims = [], payload_claims = [], signature = ''sig-k''\<rparr> = Inr ()"
proof -
  have init: "Simple_initialize demo_lib (\<lambda>p. if p = ''/k'' then Some ''k'' else None) ((new_simple_tv hs256)\<lparr>keyFile := ''/k''\<rparr>)
     = Inr ((new_simple_tv hs256)\<lparr>keyFile := ''/k'', verifier := Some \<lparr>allowed_algorithm = hs256, verifier_key = ''k''\<rparr>\<rparr>)"
    by (simp add: Simple_initialize_def new_simple_tv_def create_def demo_lib_def readFile_def)
  from Simple_initialize_verify [OF init, of "\<lparr>header_claims = [], payload_claims = [], signature = ''sig-k''\<rparr>"]
  show ?thesis using init by (auto simp add: new_simple_tv_def demo_lib_def check_error_code_def jwt_success_def)
qed


text \<open>
  The error code is judged by its value alone: two codes with the same value pass or
  throw alike, whatever their categories. With jwt-cpp's numbering, the signature
  category's \<open>verifyfinal_failed\<close> has the value 14 of \<open>token_expired\<close>, so a
  failed signature check reported with it passes as an expired token.
\<close>

lemma check_error_code_value_only:
  "ec_value ec = ec_value ec' \<Longrightarrow> (check_error_code lib ec = Inr ()) = (check_error_code lib ec' = Inr ())"
  by (simp add: check_error_code_def)

lemma check_error_code_signature_failure_accepted:
  "check_error_code demo_lib
     \<lparr>ec_category = ''signature_verification_error'', ec_value = 14,
      ec_message = ''failed to verify signature: VerifyFinal failed''\<rparr> = Inr ()"
  by (simp add: check_error_code_def demo_lib_def)

end
