(* ===== verification/HttpError.thy ===== *)
theory HttpError
  imports Prelude
begin

text \<open>
  \<^verbatim>\<open>src/src/HttpError.hpp\<close>: the exception that carries an HTTP response. Its
  constructor fixes the response code, and builds the response data from the message and
  the extra header fields. Request handling can also fail with any other
  \<^verbatim>\<open>std::exception\<close>; \<open>request_error\<close> is the type of everything the request path
  can throw.
\<close>

record http_error =
  responseCode :: string
  responseData :: string
  extraHeaderFiels :: string

text \<open>The constructor \<^verbatim>\<open>HttpError(responseCode, message, extraHeaderFiels = {})\<close>.\<close>

definition HttpError :: "string \<Rightarrow> string \<Rightarrow> string \<Rightarrow> http_error" where
  "HttpError code message extra =
     \<lparr>responseCode = code,
      responseData = message @ '' '' @ crlf @ extra @ crlf,
      extraHeaderFiels = extra\<rparr>"

lemma HttpError_sel [simp]:
  "responseCode (HttpError c m x) = c"
  "responseData (HttpError c m x) = m @ '' '' @ crlf @ x @ crlf"
  "extraHeaderFiels (HttpError c m x) = x"
  by (simp_all add: HttpError_def)

lemma HttpError_inject [simp]:
  "HttpError c m x = HttpError c' m' x' \<longleftrightarrow> c = c' \<and> m = m' \<and> x = x'"
  by (auto simp add: HttpError_def)

datatype request_error =
    Http http_error
  | StdException string

end
