(* ===== verification/OpenId.thy ===== *)
theory OpenId
  imports Verification HttpError
begin

text \<open>
  The state of an \<^verbatim>\<open>OpenIdAuthenticationProvider\<close>
  (\<^verbatim>\<open>src/src/OpenIdAuthenticationProvider.hpp\<close>): its private members, one record
  field each. The \<^verbatim>\<open>std::unordered_set\<close> of scopes is a list without duplicates; the
  \<^verbatim>\<open>std::unordered_map\<close> of claims is an association list with distinct keys, each
  allowed-value set a list. Their iteration order is unspecified, and no property below
  depends on it. The \<^verbatim>\<open>std::unique_ptr\<close> to the verification is an option.
\<close>

record openid =
  realm :: "string option"
  issuer :: string
  audience :: string
  scopes :: "string list"
  claims :: "(string \<times> string list) list"
  wwwAuthernicateHeader :: string
  verification :: "token_verification option"

text \<open>A freshly constructed provider: every member default-initialised.\<close>

definition new_openid :: openid where
  "new_openid =
     \<lparr>realm = None, issuer = [], audience = [], scopes = [], claims = [],
      wwwAuthernicateHeader = [], verification = None\<rparr>"

text \<open>The exception every check of a request throws: an \<^verbatim>\<open>HttpError\<close> whose extra
  header fields are the stored challenge header.\<close>

definition reject :: "openid \<Rightarrow> string \<Rightarrow> string \<Rightarrow> (request_error, 'a) result" where
  "reject st code message = Inl (Http (HttpError code message (wwwAuthernicateHeader st)))"

end
