(* ===== verification/Challenge.thy ===== *)
theory Challenge
  imports OpenId
begin

text \<open>
  The challenge header of \<^verbatim>\<open>OpenIdAuthenticationProvider\<close>: the checks of realm and
  scope strings at load time (\<^verbatim>\<open>getScopeError\<close>, \<^verbatim>\<open>getRealmError\<close>), the escaping
  of the realm (\<^verbatim>\<open>makeRealm\<close>, an index loop that inserts into the string it walks)
  and the \<^verbatim>\<open>WWW-Authenticate\<close> line built once at initialisation
  (\<^verbatim>\<open>buildAuthenticationHeader\<close>). Characters are bytes: the sources read a
  \<^verbatim>\<open>char8_t\<close> as \<^verbatim>\<open>int(character)\<close>, which is \<open>of_char\<close>, 0 to 255.
\<close>

section \<open>Scope and realm checks\<close>

text \<open>The loop of \<^verbatim>\<open>getScopeError\<close> over the characters: the first offending
  character decides the message.\<close>

fun scope_chars_error :: "string \<Rightarrow> string option" where
  "scope_chars_error [] = None"
| \<open>scope_chars_error (c # cs) =
     (if of_char c < (0x20::nat) then Some ''non visible characters not allowed''
      else if of_char c = (0x7E::nat) then Some ''non visible characters not allowed''
      else if of_char c = (0x20::nat) then Some ''space charracter (" ") is not allowed''
      else if of_char c = (0x22::nat) then Some ''quote charracter (""") is not allowed''
      else if of_char c = (0x5C::nat) then Some (''backshlash character ("'' @ [bslash] @ ''") is not allowed'')
      else scope_chars_error cs)\<close>

definition getScopeError :: "string \<Rightarrow> string option" where
  "getScopeError string =
     (if string = [] then Some ''can not be empty string'' else scope_chars_error string)"

fun getRealmError :: "string \<Rightarrow> string option" where
  "getRealmError [] = None"
| "getRealmError (c # cs) =
     (if of_char c < (0x20::nat) \<and> of_char c \<noteq> (0x9::nat) then Some ''non visible characters are not allowed''
      else if of_char c = (0x7E::nat) then Some ''non visible characters are not allowed''
      else getRealmError cs)"

text \<open>What the checks accept, character by character.\<close>

definition scope_char_ok :: "char \<Rightarrow> bool" where
  "scope_char_ok c \<longleftrightarrow> (0x20::nat) < of_char c \<and> of_char c \<notin> {0x22, 0x5C, 0x7E::nat}"

definition realm_char_ok :: "char \<Rightarrow> bool" where
  "realm_char_ok c \<longleftrightarrow> ((0x20::nat) \<le> of_char c \<or> of_char c = (0x9::nat)) \<and> of_char c \<noteq> (0x7E::nat)"

lemma scope_chars_error_None_iff: "scope_chars_error s = None \<longleftrightarrow> (\<forall>c \<in> set s. scope_char_ok c)"
  by (induction s) (auto simp add: scope_char_ok_def)

lemma getRealmError_None_iff: "getRealmError s = None \<longleftrightarrow> (\<forall>c \<in> set s. realm_char_ok c)"
  by (induction s) (auto simp add: realm_char_ok_def)

section \<open>Escaping the realm\<close>

text \<open>
  \<^verbatim>\<open>makeRealm\<close>: for \<open>i\<close> from 0 while \<open>i < size\<close>, a backslash or a double quote at
  \<open>i\<close> gets a backslash inserted before it, and \<open>i\<close> moves past both. The string grows
  while it is walked; the distance \<open>length s - i\<close> still falls by one per round.
\<close>

function makeRealm_loop :: "string \<Rightarrow> nat \<Rightarrow> string" where
  "makeRealm_loop s i =
     (if i < length s then
        (if s ! i = bslash \<or> s ! i = dquote
         then makeRealm_loop (take i s @ bslash # drop i s) (i + 2)
         else makeRealm_loop s (i + 1))
      else s)"
  by pat_completeness auto
termination
  by (relation "measure (\<lambda>(s, i). length s - i)") auto

declare makeRealm_loop.simps [simp del]

definition makeRealm :: "string \<Rightarrow> string" where
  "makeRealm string = makeRealm_loop string 0"

text \<open>The reference: HTTP quoted-string escaping, one character at a time, and the
  parser a client applies to a quoted string's content.\<close>

definition escape_char :: "char \<Rightarrow> string" where
  "escape_char c = (if c = bslash \<or> c = dquote then [bslash, c] else [c])"

definition quote_escape :: "string \<Rightarrow> string" where
  "quote_escape s = concat (map escape_char s)"

fun unquote :: "string \<Rightarrow> string option" where
  "unquote [] = Some []"
| "unquote (c # cs) =
     (if c = bslash then (case cs of [] \<Rightarrow> None | d # ds \<Rightarrow> map_option (Cons d) (unquote ds))
      else if c = dquote then None
      else map_option (Cons c) (unquote cs))"

lemma quote_escape_simps [simp]:
  "quote_escape [] = []"
  "quote_escape (c # cs) = escape_char c @ quote_escape cs"
  by (simp_all add: quote_escape_def)

text \<open>The loop invariant: the part before \<open>i\<close> is finished, the rest is untouched.\<close>

lemma makeRealm_loop_escape: "makeRealm_loop (e @ r) (length e) = e @ quote_escape r"
proof (induction r arbitrary: e)
  case Nil
  then show ?case by (simp add: makeRealm_loop.simps)
next
  case (Cons c r)
  show ?case
  proof (cases "c = bslash \<or> c = dquote")
    case True
    have "makeRealm_loop (e @ c # r) (length e) = makeRealm_loop ((e @ [bslash, c]) @ r) (length (e @ [bslash, c]))"
      using True by (simp add: makeRealm_loop.simps [of "e @ c # r"] nth_append)
    also have "\<dots> = e @ escape_char c @ quote_escape r"
      using True Cons.IH [of "e @ [bslash, c]"] by (simp add: escape_char_def)
    finally show ?thesis by simp
  next
    case False
    have "makeRealm_loop (e @ c # r) (length e) = makeRealm_loop ((e @ [c]) @ r) (length (e @ [c]))"
      using False by (simp add: makeRealm_loop.simps [of "e @ c # r"] nth_append)
    also have "\<dots> = e @ escape_char c @ quote_escape r"
      using False Cons.IH [of "e @ [c]"] by (simp add: escape_char_def)
    finally show ?thesis by simp
  qed
qed

lemma unquote_quote_escape: "unquote (quote_escape s) = Some s"
  by (induction s) (auto simp add: escape_char_def)

lemma set_quote_escape: "set (quote_escape s) \<subseteq> set s \<union> {bslash}"
  by (induction s) (auto simp add: escape_char_def)

section \<open>The challenge header\<close>

text \<open>
  \<^verbatim>\<open>buildAuthenticationHeader\<close>: \<open>WWW-Authenticate: Bearer\<close>, the escaped realm in
  quotes when there is one, \<open>scope="openid"\<close>, then each configured scope after a space,
  and CRLF. \<^verbatim>\<open>utils::ios::toLocal\<close> is taken as the identity (a UTF-8 locale).
\<close>

definition buildAuthenticationHeader :: "openid \<Rightarrow> openid" where
  "buildAuthenticationHeader st =
     st\<lparr>wwwAuthernicateHeader :=
          ''WWW-Authenticate: Bearer''
          @ (case realm st of None \<Rightarrow> [] | Some r \<Rightarrow> '' realm='' @ [dquote] @ r @ [dquote])
          @ '' scope='' @ [dquote] @ ''openid'' @ [dquote]
          @ concat (map (\<lambda>scope. CHR '' '' # scope) (scopes st))
          @ crlf\<rparr>"


section \<open>Properties of the challenge\<close>

text \<open>
  C26. The index loop of \<^verbatim>\<open>makeRealm\<close>, which inserts into the string it walks, computes
  HTTP quoted-string escaping: a backslash before every backslash and double quote, and
  nothing else changed.
\<close>

theorem makeRealm_escapes: "makeRealm s = quote_escape s"
  using makeRealm_loop_escape [of "[]" s] by (simp add: makeRealm_def)

text \<open>
  C27. Round trip: a client that unescapes the quoted realm gets the configured realm back.
\<close>

theorem makeRealm_roundtrip: "unquote (makeRealm s) = Some s"
  using makeRealm_loop_escape [of "[]" s] unquote_quote_escape [of s] by (simp add: makeRealm_def)

text \<open>
  The check the source's comment calls the DEL check compares with \<open>0x7E\<close>, the
  tilde: a scope with a tilde is rejected as non-visible, and the DEL byte \<open>0x7F\<close>
  is accepted.
\<close>

theorem getScopeError_tilde_DEL:
  "getScopeError ''read~write'' = Some ''non visible characters not allowed'' \<and> getScopeError [CHR 0x7F] = None"
  by (simp add: getScopeError_def)

lemma no_crlf_realm: "getRealmError raw = None \<Longrightarrow> CHR 0x0D \<notin> set (makeRealm raw) \<and> CHR 0x0A \<notin> set (makeRealm raw)"
proof -
  assume "getRealmError raw = None"
  then have ok: "\<forall>c \<in> set raw. realm_char_ok c" by (simp add: getRealmError_None_iff)
  have "set (makeRealm raw) \<subseteq> set raw \<union> {bslash}"
    using makeRealm_loop_escape [of "[]" raw] set_quote_escape [of raw] by (simp add: makeRealm_def)
  moreover have "CHR 0x0D \<notin> set raw" "CHR 0x0A \<notin> set raw"
    using ok by (auto simp add: realm_char_ok_def)
  ultimately show ?thesis by (auto simp add: bslash_def)
qed

lemma no_crlf_scope: "getScopeError sc = None \<Longrightarrow> CHR 0x0D \<notin> set sc \<and> CHR 0x0A \<notin> set sc"
  by (auto simp add: getScopeError_def scope_chars_error_None_iff scope_char_ok_def split: if_splits)

text \<open>
  C33. For a realm and scopes that passed their load-time checks, the challenge header is
  one line: the text before its final CRLF holds no CR and no LF, so configuration
  cannot inject a header line.
\<close>

theorem buildAuthenticationHeader_one_line:
  assumes "\<forall>r. realm st = Some r \<longrightarrow> (\<exists>raw. r = makeRealm raw \<and> getRealmError raw = None)"
    and "\<forall>sc \<in> set (scopes st). getScopeError sc = None"
  shows "\<exists>line. wwwAuthernicateHeader (buildAuthenticationHeader st) = line @ crlf \<and>
           CHR 0x0D \<notin> set line \<and> CHR 0x0A \<notin> set line"
proof -
  let ?line = "''WWW-Authenticate: Bearer''
          @ (case realm st of None \<Rightarrow> [] | Some r \<Rightarrow> '' realm='' @ [dquote] @ r @ [dquote])
          @ '' scope='' @ [dquote] @ ''openid'' @ [dquote]
          @ concat (map (\<lambda>scope. CHR '' '' # scope) (scopes st))"
  have r: "CHR 0x0D \<notin> set (case realm st of None \<Rightarrow> [] | Some r \<Rightarrow> '' realm='' @ [dquote] @ r @ [dquote]) \<and>
           CHR 0x0A \<notin> set (case realm st of None \<Rightarrow> [] | Some r \<Rightarrow> '' realm='' @ [dquote] @ r @ [dquote])"
    using assms(1) no_crlf_realm by (cases "realm st") (auto simp add: dquote_def)
  have s: "CHR 0x0D \<notin> set (concat (map (\<lambda>scope. CHR '' '' # scope) (scopes st))) \<and>
           CHR 0x0A \<notin> set (concat (map (\<lambda>scope. CHR '' '' # scope) (scopes st)))"
    using assms(2) no_crlf_scope by auto
  have "wwwAuthernicateHeader (buildAuthenticationHeader st) = ?line @ crlf"
    by (simp add: buildAuthenticationHeader_def)
  moreover have "CHR 0x0D \<notin> set ?line \<and> CHR 0x0A \<notin> set ?line"
    using r s by (simp add: dquote_def)
  ultimately show ?thesis by blast
qed

theorem buildAuthenticationHeader_one_line_witness:
  \<open>wwwAuthernicateHeader (buildAuthenticationHeader (new_openid\<lparr>realm := Some (makeRealm ''my realm''), scopes := [''read'']\<rparr>))
     = ''WWW-Authenticate: Bearer realm="my realm" scope="openid" read'' @ crlf\<close>
proof -
  have "\<exists>line. wwwAuthernicateHeader (buildAuthenticationHeader (new_openid\<lparr>realm := Some (makeRealm ''my realm''), scopes := [''read'']\<rparr>)) = line @ crlf \<and>
           CHR 0x0D \<notin> set line \<and> CHR 0x0A \<notin> set line"
    by (rule buildAuthenticationHeader_one_line) (auto simp add: getScopeError_def intro!: exI [of _ "''my realm''"])
  then show ?thesis
    by (simp add: buildAuthenticationHeader_def makeRealm_def makeRealm_loop.simps dquote_def bslash_def)
qed

lemma length_quote_escape:
  "length (quote_escape s) = length s + length (filter (\<lambda>c. c = bslash \<or> c = dquote) s)"
  by (induction s) (simp_all add: escape_char_def)

text \<open>
  C24. The escaping loop terminates from every index (its domain is everything), and from
  an index inside the string it escapes exactly the rest: the prefix before the index is
  kept, an index past the end returns the string unchanged.
\<close>

theorem makeRealm_loop_total:
  "makeRealm_loop_dom (s, i) \<and>
   makeRealm_loop s i = (if i \<le> length s then take i s @ quote_escape (drop i s) else s)"
proof
  have "wf {(x, y). makeRealm_loop_rel x y}"
    by (rule wf_subset [OF wf_measure [of "\<lambda>(s, i). length s - i"]])
       (auto elim!: makeRealm_loop_rel.cases)
  then have "wfp makeRealm_loop_rel" by (simp add: wfp_def)
  then show "makeRealm_loop_dom (s, i)" by (simp add: wfp_iff_accp)
next
  show "makeRealm_loop s i = (if i \<le> length s then take i s @ quote_escape (drop i s) else s)"
  proof (cases "i \<le> length s")
    case True
    then show ?thesis using makeRealm_loop_escape [of "take i s" "drop i s"] by simp
  next
    case False
    then show ?thesis by (simp add: makeRealm_loop.simps)
  qed
qed

text \<open>
  C25. The escaped realm is one byte longer per backslash or double quote of the
  configured realm, so at most twice as long.
\<close>

theorem makeRealm_length:
  "length (makeRealm s) = length s + length (filter (\<lambda>c. c = bslash \<or> c = dquote) s) \<and>
   length (makeRealm s) \<le> 2 * length s"
  using makeRealm_loop_escape [of "[]" s] length_quote_escape [of s] length_filter_le [of _ s]
  by (simp add: makeRealm_def)

end
