(* ===== verification/Claims.thy ===== *)
theory Claims
  imports OpenId
begin

text \<open>
  The claims matcher of \<^verbatim>\<open>OpenIdAuthenticationProvider\<close>: \<^verbatim>\<open>checkClaimValue\<close>
  (a JSON value matches when it is a string in the allowed set), \<^verbatim>\<open>checkClaim\<close> (one
  configured claim: absent does not match, an array matches when one element does, any
  other value matches as a scalar) and \<^verbatim>\<open>checkClaims\<close> (no configured claim accepts
  every token; otherwise one matching configured claim is enough). The two loops return
  at the first match, as the sources do.
\<close>

definition checkClaimValue :: "json \<Rightarrow> string list \<Rightarrow> bool" where
  "checkClaimValue value allowedValues \<longleftrightarrow>
     (case value of JStr s \<Rightarrow> s \<in> set allowedValues | _ \<Rightarrow> False)"

fun checkClaim_elements :: "json list \<Rightarrow> string list \<Rightarrow> bool" where
  "checkClaim_elements [] allowedValues = False"
| "checkClaim_elements (element # es) allowedValues =
     (if checkClaimValue element allowedValues then True else checkClaim_elements es allowedValues)"

definition checkClaim :: "jwt_token \<Rightarrow> string \<Rightarrow> string list \<Rightarrow> bool" where
  "checkClaim token claim allowedValues \<longleftrightarrow>
     (case get_payload_claim token claim of
        None \<Rightarrow> False
      | Some value \<Rightarrow>
          (case value of
             JArr elements \<Rightarrow> checkClaim_elements elements allowedValues
           | _ \<Rightarrow> checkClaimValue value allowedValues))"

fun checkClaims_loop :: "jwt_token \<Rightarrow> (string \<times> string list) list \<Rightarrow> bool" where
  "checkClaims_loop token [] = False"
| "checkClaims_loop token ((claim, allowed) # cs) =
     (if checkClaim token claim allowed then True else checkClaims_loop token cs)"

definition checkClaims :: "openid \<Rightarrow> jwt_token \<Rightarrow> (request_error, unit) result" where
  "checkClaims st token =
     (if claims st = [] then Inr ()
      else if checkClaims_loop token (claims st) then Inr ()
      else reject st ''403 invalid scope'' ''access denied'')"

section \<open>The contract of the matcher\<close>

text \<open>
  The values a claim offers for matching: the elements of an array, or the value
  itself; and the contract of the whole matcher (no constraint configured, or some
  constraint with some offered value that is a string in its allowed set). The matcher
  is meant to be the disjunction over configured claims of the disjunction over offered
  values.
\<close>

fun offered_values :: "json \<Rightarrow> json list" where
  "offered_values (JArr xs) = xs"
| "offered_values v = [v]"

definition claims_accept :: "(string \<times> string list) list \<Rightarrow> jwt_token \<Rightarrow> bool" where
  "claims_accept cs token \<longleftrightarrow>
     cs = [] \<or>
     (\<exists>(c, allowed) \<in> set cs. \<exists>v. get_payload_claim token c = Some v \<and>
        (\<exists>s. JStr s \<in> set (offered_values v) \<and> s \<in> set allowed))"

lemma checkClaimValue_iff: "checkClaimValue v allowed \<longleftrightarrow> (\<exists>s. v = JStr s \<and> s \<in> set allowed)"
  by (cases v) (simp_all add: checkClaimValue_def)

lemma checkClaim_elements_iff:
  "checkClaim_elements es allowed \<longleftrightarrow> (\<exists>s. JStr s \<in> set es \<and> s \<in> set allowed)"
  by (induction es) (auto simp add: checkClaimValue_iff)

lemma checkClaim_iff:
  "checkClaim token c allowed \<longleftrightarrow>
     (\<exists>v. get_payload_claim token c = Some v \<and> (\<exists>s. JStr s \<in> set (offered_values v) \<and> s \<in> set allowed))"
proof (cases "get_payload_claim token c")
  case None
  then show ?thesis by (simp add: checkClaim_def)
next
  case (Some v)
  then show ?thesis
    by (cases v) (auto simp add: checkClaim_def checkClaimValue_iff checkClaim_elements_iff)
qed

lemma checkClaims_loop_iff:
  "checkClaims_loop token cs \<longleftrightarrow> (\<exists>(c, allowed) \<in> set cs. checkClaim token c allowed)"
  by (induction cs) auto

lemma checkClaims_eq_Inr_iff:
  "checkClaims st token = Inr () \<longleftrightarrow> claims_accept (claims st) token"
  by (auto simp add: checkClaims_def claims_accept_def checkClaims_loop_iff checkClaim_iff reject_def)


text \<open>
  C10. The matcher meets its contract: \<^verbatim>\<open>checkClaims\<close> returns when no claim is
  configured or some configured claim offers (as a scalar or as an array element) a
  string in its allowed set, and otherwise throws \<open>403 invalid scope\<close> /
  \<open>access denied\<close>.
\<close>

theorem checkClaims_contract:
  "checkClaims st token =
     (if claims_accept (claims st) token then Inr () else reject st ''403 invalid scope'' ''access denied'')"
  by (simp add: checkClaims_eq_Inr_iff [symmetric] checkClaims_def)

text \<open>
  The outcome does not depend on the order in which the \<^verbatim>\<open>std::unordered_map\<close>
  of claims is iterated: any list with the same entries gives the same result.
\<close>

theorem checkClaims_order_independent:
  "set (claims st) = set cs \<Longrightarrow> checkClaims st token = checkClaims (st\<lparr>claims := cs\<rparr>) token"
proof -
  assume eq: "set (claims st) = set cs"
  then have "claims st = [] \<longleftrightarrow> cs = []" by auto
  with eq show ?thesis by (simp add: checkClaims_def checkClaims_loop_iff reject_def)
qed

theorem checkClaims_order_independent_witness:
  "checkClaims (new_openid\<lparr>claims := [(''role'', [''admin'']), (''group'', [''ops''])]\<rparr>)
      \<lparr>header_claims = [], payload_claims = [(''group'', JArr [JStr ''dev'', JStr ''ops''])], signature = []\<rparr>
   = checkClaims (new_openid\<lparr>claims := [(''group'', [''ops'']), (''role'', [''admin''])]\<rparr>)
      \<lparr>header_claims = [], payload_claims = [(''group'', JArr [JStr ''dev'', JStr ''ops''])], signature = []\<rparr>"
  using checkClaims_order_independent
          [of "new_openid\<lparr>claims := [(''role'', [''admin'']), (''group'', [''ops''])]\<rparr>"
              "[(''group'', [''ops'']), (''role'', [''admin''])]"]
  by auto

end
