(* ===== verification/Provider.thy ===== *)
theory Provider
  imports Challenge Claims
begin

text \<open>
  The request path of \<^verbatim>\<open>OpenIdAuthenticationProvider\<close>
  (\<^verbatim>\<open>src/src/OpenIdAuthenticationProvider.cpp\<close>): \<^verbatim>\<open>checkAuthentication\<close> finds
  the one \<open>Authorization\<close> header and its bearer token, and \<^verbatim>\<open>checkJwt\<close> runs the
  checks in the order of the source, each a function that returns or throws:
  \<^verbatim>\<open>decodeJwt\<close>, \<^verbatim>\<open>checkDate\<close>, \<^verbatim>\<open>checkAudience\<close>, \<^verbatim>\<open>checkIssuer\<close>,
  \<^verbatim>\<open>checkSignature\<close>, \<^verbatim>\<open>checkClaims\<close>. The first exception ends the request.
  The clock (\<^verbatim>\<open>system_clock::now()\<close> in seconds, an \<^verbatim>\<open>int64\<close>) is a parameter
  \<open>now\<close>; the library is the parameter \<open>lib\<close>.
\<close>

section \<open>Decoding\<close>

definition decodeJwt :: "jwt_lib \<Rightarrow> openid \<Rightarrow> string \<Rightarrow> (request_error, jwt_token) result" where
  "decodeJwt lib st encodedToken =
     (case decode lib encodedToken of
        None \<Rightarrow> reject st ''400 invalid token'' ''access denied''
      | Some token \<Rightarrow> Inr token)"

section \<open>Dates\<close>

text \<open>
  \<^verbatim>\<open>value.as_int()\<close> throws \<^verbatim>\<open>std::bad_cast\<close> on a value that is not an integer;
  that exception is not an \<^verbatim>\<open>HttpError\<close>.
\<close>

definition claim_as_int :: "json \<Rightarrow> (request_error, int64) result" where
  "claim_as_int value =
     (case as_int value of None \<Rightarrow> Inl (StdException ''std::bad_cast'') | Some n \<Rightarrow> Inr n)"

text \<open>
  The loop of \<^verbatim>\<open>checkDate\<close> over the payload claims, collecting \<open>nbf\<close> and \<open>exp\<close>
  into two \<^verbatim>\<open>std::optional<std::uint64_t>\<close>. The \<^verbatim>\<open>int64\<close> read by \<open>as_int\<close>
  is stored as \<^verbatim>\<open>uint64_t\<close>: the same 64 bits, now read unsigned.
\<close>

fun checkDate_scan ::
  "(string \<times> json) list \<Rightarrow> int64 option \<Rightarrow> int64 option
     \<Rightarrow> (request_error, int64 option \<times> int64 option) result" where
  "checkDate_scan [] notBefore expirationTime = Inr (notBefore, expirationTime)"
| "checkDate_scan ((key, value) # cs) notBefore expirationTime =
     rbind (if key = ''nbf'' then rbind (claim_as_int value) (\<lambda>n. Inr (Some n)) else Inr notBefore) (\<lambda>nb.
     rbind (if key = ''exp'' then rbind (claim_as_int value) (\<lambda>n. Inr (Some n)) else Inr expirationTime) (\<lambda>ex.
       checkDate_scan cs nb ex))"

text \<open>
  The comparisons \<^verbatim>\<open>now < notBefore\<close> and \<^verbatim>\<open>now > expirationTime\<close> compare a
  \<^verbatim>\<open>long\<close> with a \<^verbatim>\<open>uint64_t\<close>: the usual arithmetic conversions make both
  unsigned, which is \<open><\<close> on \<open>64 word\<close>.
\<close>

definition checkDate :: "openid \<Rightarrow> int64 \<Rightarrow> jwt_token \<Rightarrow> (request_error, unit) result" where
  "checkDate st now token =
     rbind (checkDate_scan (payload_claims token) None None) (\<lambda>(notBefore, expirationTime).
       if (case notBefore of Some nb \<Rightarrow> now < nb | None \<Rightarrow> False) then
         reject st ''401 invalid token'' ''token not valid yet''
       else if (case expirationTime of Some ex \<Rightarrow> now > ex | None \<Rightarrow> False) then
         reject st ''401 invalid token'' ''token expired''
       else Inr ())"

section \<open>Audience and issuer\<close>

text \<open>
  Both loops stop at the first claim with the name they look for and compare the
  claim's \<^verbatim>\<open>to_json().to_str()\<close> with the configured string.
\<close>

fun checkAudience_loop :: "openid \<Rightarrow> (string \<times> json) list \<Rightarrow> (request_error, unit) result" where
  "checkAudience_loop st [] = reject st ''400 invalid scope'' ''incorrect audience''"
| "checkAudience_loop st ((key, value) # cs) =
     (if key = ''aud'' then
        (if to_str value = audience st then Inr ()
         else reject st ''403 invalid token'' ''incorrect audience'')
      else checkAudience_loop st cs)"

definition checkAudience :: "openid \<Rightarrow> jwt_token \<Rightarrow> (request_error, unit) result" where
  "checkAudience st token = checkAudience_loop st (payload_claims token)"

fun checkIssuer_loop :: "openid \<Rightarrow> (string \<times> json) list \<Rightarrow> (request_error, unit) result" where
  "checkIssuer_loop st [] = reject st ''403 invalid scope'' ''access denied''"
| "checkIssuer_loop st ((key, value) # cs) =
     (if key = ''iss'' then
        (if to_str value = issuer st then Inr ()
         else reject st ''403 invalid scope'' ''access denied'')
      else checkIssuer_loop st cs)"

definition checkIssuer :: "openid \<Rightarrow> jwt_token \<Rightarrow> (request_error, unit) result" where
  "checkIssuer st token = checkIssuer_loop st (payload_claims token)"

section \<open>Signature\<close>

text \<open>
  \<^verbatim>\<open>checkSignature\<close> catches every exception of the verifier. The verification pointer
  is set by every successful \<open>loadConfig\<close>; a null pointer would be undefined
  behaviour, which the model maps to the same rejection.
\<close>

definition checkSignature :: "jwt_lib \<Rightarrow> openid \<Rightarrow> jwt_token \<Rightarrow> (request_error, unit) result" where
  "checkSignature lib st token =
     (case verification st of
        None \<Rightarrow> reject st ''401 invalid token'' ''Jwt verification failed''
      | Some tv \<Rightarrow>
          (case tv_verify lib tv token of
             Inl _ \<Rightarrow> reject st ''401 invalid token'' ''Jwt verification failed''
           | Inr _ \<Rightarrow> Inr ()))"

section \<open>The pipeline\<close>

definition checkJwt :: "jwt_lib \<Rightarrow> int64 \<Rightarrow> openid \<Rightarrow> string \<Rightarrow> (request_error, unit) result" where
  "checkJwt lib now st encodedToken =
     rbind (decodeJwt lib st encodedToken) (\<lambda>token.
     rbind (checkDate st now token) (\<lambda>_.
     rbind (checkAudience st token) (\<lambda>_.
     rbind (checkIssuer st token) (\<lambda>_.
     rbind (checkSignature lib st token) (\<lambda>_.
       checkClaims st token)))))"

text \<open>The part of libhttp's \<^verbatim>\<open>lh_rqi_t\<close> the server reads: the method and the
  headers in the order received.\<close>

record request =
  request_method :: string
  http_headers :: "(string \<times> string) list"

definition invalid_request :: "openid \<Rightarrow> string \<Rightarrow> (request_error, 'a) result" where
  \<open>invalid_request st msg =
     Inl (Http (HttpError ''400 Bad Request'' []
       (wwwAuthernicateHeader st @ '' error_code="invalid_request" error_message="'' @ msg @ ''"'')))\<close>

text \<open>The header loop: a second \<open>Authorization\<close> header throws at once. Header names
  are compared byte for byte.\<close>

fun find_authorization ::
  "openid \<Rightarrow> (string \<times> string) list \<Rightarrow> string option \<Rightarrow> (request_error, string option) result" where
  "find_authorization st [] authorization = Inr authorization"
| "find_authorization st ((name, value) # hs) authorization =
     (if name = ''Authorization'' then
        (if authorization \<noteq> None then invalid_request st ''Duplicate Authorization header''
         else find_authorization st hs (Some value))
      else find_authorization st hs authorization)"

definition checkAuthentication :: "jwt_lib \<Rightarrow> int64 \<Rightarrow> openid \<Rightarrow> request \<Rightarrow> (request_error, unit) result" where
  "checkAuthentication lib now st req =
     rbind (find_authorization st (http_headers req) None) (\<lambda>authorization.
       case authorization of
         None \<Rightarrow> reject st ''401 Unauthorized'' ''Authentication required''
       | Some a \<Rightarrow>
           if a = [] then invalid_request st ''Empty authentication field''
           else if \<not> starts_with a ''Bearer '' then invalid_request st ''Unsupported authentication method''
           else checkJwt lib now st (drop (length ''Bearer '') a))"

text \<open>The values of all \<open>Authorization\<close> headers of a request, in order: what
  the header loop is meant to inspect.\<close>

definition authorization_values :: "(string \<times> string) list \<Rightarrow> string list" where
  "authorization_values hs = map snd (filter (\<lambda>(n, v). n = ''Authorization'') hs)"

section \<open>The stages read as lookups\<close>

text \<open>
  The loops above walk the claim list; the contract speaks of lookups. For audience
  and issuer the first match is the lookup (\<open>map_of\<close>); for the dates, which keep the
  last match, the keys must be distinct, as the decoder's maps make them.
\<close>

lemma checkAudience_lookup:
  "checkAudience st token =
     (case get_payload_claim token ''aud'' of
        None \<Rightarrow> reject st ''400 invalid scope'' ''incorrect audience''
      | Some v \<Rightarrow> if to_str v = audience st then Inr () else reject st ''403 invalid token'' ''incorrect audience'')"
proof -
  have "checkAudience_loop st cs =
     (case map_of cs ''aud'' of
        None \<Rightarrow> reject st ''400 invalid scope'' ''incorrect audience''
      | Some v \<Rightarrow> if to_str v = audience st then Inr () else reject st ''403 invalid token'' ''incorrect audience'')"
    for cs by (induction st cs rule: checkAudience_loop.induct) auto
  then show ?thesis by (simp add: checkAudience_def get_payload_claim_def)
qed

lemma checkIssuer_lookup:
  "checkIssuer st token =
     (case get_payload_claim token ''iss'' of
        None \<Rightarrow> reject st ''403 invalid scope'' ''access denied''
      | Some v \<Rightarrow> if to_str v = issuer st then Inr () else reject st ''403 invalid scope'' ''access denied'')"
proof -
  have "checkIssuer_loop st cs =
     (case map_of cs ''iss'' of
        None \<Rightarrow> reject st ''403 invalid scope'' ''access denied''
      | Some v \<Rightarrow> if to_str v = issuer st then Inr () else reject st ''403 invalid scope'' ''access denied'')"
    for cs by (induction st cs rule: checkIssuer_loop.induct) auto
  then show ?thesis by (simp add: checkIssuer_def get_payload_claim_def)
qed

text \<open>Reading an optional integer claim.\<close>

definition lookup_int :: "json option \<Rightarrow> int64 option \<Rightarrow> (request_error, int64 option) result" where
  "lookup_int v d = (case v of None \<Rightarrow> Inr d | Some value \<Rightarrow> rbind (claim_as_int value) (\<lambda>n. Inr (Some n)))"

lemma lookup_int_error: "lookup_int v d = Inl e \<Longrightarrow> e = StdException ''std::bad_cast''"
  by (auto simp add: lookup_int_def claim_as_int_def rbind_eq_Inl_iff split: option.splits)

lemma claim_as_int_error: "rbind (claim_as_int v) (\<lambda>n. Inr (Some n)) = Inl e \<Longrightarrow> e = StdException ''std::bad_cast''"
  by (auto simp add: claim_as_int_def split: option.splits)

lemma checkDate_scan_lookup:
  "distinct (map fst cs) \<Longrightarrow>
   checkDate_scan cs nb ex =
     rbind (lookup_int (map_of cs ''nbf'') nb) (\<lambda>nb'.
     rbind (lookup_int (map_of cs ''exp'') ex) (\<lambda>ex'. Inr (nb', ex')))"
proof (induction cs arbitrary: nb ex)
  case Nil
  then show ?case by (simp add: lookup_int_def)
next
  case (Cons kv cs)
  obtain k v where kv: "kv = (k, v)" by fastforce
  from Cons.prems kv have k_new: "map_of cs k = None" and dist: "distinct (map fst cs)"
    by (auto simp add: map_of_eq_None_iff)
  show ?case
  proof (cases "k = ''nbf''")
    case True
    then show ?thesis
      using Cons.IH [OF dist] k_new kv by (simp add: lookup_int_def rbind_def split: sum.splits)
  next
    case nbf: False
    show ?thesis
    proof (cases "k = ''exp''")
      case True
      have IH': "checkDate_scan cs nb = (\<lambda>ex'. rbind (lookup_int (map_of cs ''nbf'') nb) (\<lambda>nb'. Inr (nb', ex')))"
        using Cons.IH [OF dist] k_new kv True by (simp add: lookup_int_def fun_eq_iff)
      have "checkDate_scan (kv # cs) nb ex =
              rbind (rbind (claim_as_int v) (\<lambda>n. Inr (Some n))) (checkDate_scan cs nb)"
        using kv True by simp
      also have "\<dots> = rbind (rbind (claim_as_int v) (\<lambda>n. Inr (Some n))) (\<lambda>ex'.
                        rbind (lookup_int (map_of cs ''nbf'') nb) (\<lambda>nb'. Inr (nb', ex')))"
        by (simp only: IH')
      also have "\<dots> = rbind (lookup_int (map_of cs ''nbf'') nb) (\<lambda>nb'.
                        rbind (rbind (claim_as_int v) (\<lambda>n. Inr (Some n))) (\<lambda>ex'. Inr (nb', ex')))"
        by (rule rbind_commute_same_error [OF claim_as_int_error lookup_int_error])
      finally show ?thesis
        using kv True nbf by (simp add: lookup_int_def)
    next
      case False
      then show ?thesis using Cons.IH [OF dist] kv nbf by simp
    qed
  qed
qed


text \<open>When each stage returns: the stage lemmas the pipeline theorems are built from.\<close>

lemma checkDate_lookup:
  assumes "wf_token token"
  shows "checkDate st now token =
     rbind (lookup_int (get_payload_claim token ''nbf'') None) (\<lambda>nb.
     rbind (lookup_int (get_payload_claim token ''exp'') None) (\<lambda>ex.
       if (case nb of Some n \<Rightarrow> now < n | None \<Rightarrow> False) then reject st ''401 invalid token'' ''token not valid yet''
       else if (case ex of Some n \<Rightarrow> now > n | None \<Rightarrow> False) then reject st ''401 invalid token'' ''token expired''
       else Inr ()))"
  using assms by (simp add: checkDate_def checkDate_scan_lookup wf_token_def get_payload_claim_def rbind_assoc)

lemma checkDate_eq_Inr_iff:
  assumes "wf_token token"
  shows "checkDate st now token = Inr () \<longleftrightarrow>
     (\<forall>v. get_payload_claim token ''nbf'' = Some v \<longrightarrow> (\<exists>n. as_int v = Some n \<and> \<not> now < n)) \<and>
     (\<forall>v. get_payload_claim token ''exp'' = Some v \<longrightarrow> (\<exists>n. as_int v = Some n \<and> \<not> n < now))"
  using assms
  by (cases "get_payload_claim token ''nbf''"; cases "get_payload_claim token ''exp''")
     (auto simp add: checkDate_lookup lookup_int_def claim_as_int_def reject_def split: option.splits)

lemma checkAudience_eq_Inr_iff:
  "checkAudience st token = Inr () \<longleftrightarrow> (\<exists>v. get_payload_claim token ''aud'' = Some v \<and> to_str v = audience st)"
  by (auto simp add: checkAudience_lookup reject_def split: option.splits)

lemma checkIssuer_eq_Inr_iff:
  "checkIssuer st token = Inr () \<longleftrightarrow> (\<exists>v. get_payload_claim token ''iss'' = Some v \<and> to_str v = issuer st)"
  by (auto simp add: checkIssuer_lookup reject_def split: option.splits)

lemma checkSignature_eq_Inr_iff:
  "checkSignature lib st token = Inr () \<longleftrightarrow> (\<exists>tv. verification st = Some tv \<and> tv_verify lib tv token = Inr ())"
proof (cases "verification st")
  case None
  then show ?thesis by (simp add: checkSignature_def reject_def)
next
  case (Some tv)
  then show ?thesis by (cases "tv_verify lib tv token") (simp_all add: checkSignature_def reject_def)
qed


section \<open>Properties of the request path\<close>

lemma checkDate_exp_only:
  assumes "wf_token t" "get_payload_claim t ''nbf'' = None" "get_payload_claim t ''exp'' = Some (JNum ex)"
  shows "checkDate st now t = (if ex < now then reject st ''401 invalid token'' ''token expired'' else Inr ())"
  using assms by (simp add: checkDate_lookup lookup_int_def claim_as_int_def)

lemma checkDate_not_yet_valid:
  assumes "wf_token t" "get_payload_claim t ''nbf'' = Some (JNum nb)" "now < nb"
    and "\<forall>v. get_payload_claim t ''exp'' = Some v \<longrightarrow> as_int v \<noteq> None"
  shows "checkDate st now t = reject st ''401 invalid token'' ''token not valid yet''"
  using assms
  by (cases "get_payload_claim t ''exp''")
     (auto simp add: checkDate_lookup lookup_int_def claim_as_int_def split: option.splits)

lemma checkDate_expired:
  assumes "wf_token t" "get_payload_claim t ''exp'' = Some (JNum ex)" "ex < now"
    and "\<forall>v. get_payload_claim t ''nbf'' = Some v \<longrightarrow> (\<exists>n. as_int v = Some n \<and> \<not> now < n)"
  shows "checkDate st now t = reject st ''401 invalid token'' ''token expired''"
  using assms
  by (cases "get_payload_claim t ''nbf''")
     (auto simp add: checkDate_lookup lookup_int_def claim_as_int_def split: option.splits)

text \<open>
  The \<open>exp\<close> claim is compared as \<^verbatim>\<open>uint64_t\<close>: a token whose \<open>exp\<close> is
  negative (a time before 1970) is never reported as expired, for any clock reading
  after 1970, because the negative \<^verbatim>\<open>int64\<close> turns into a value above every
  non-negative one.
\<close>

theorem checkDate_negative_exp_accepted:
  assumes "wf_token t" "get_payload_claim t ''nbf'' = None" "get_payload_claim t ''exp'' = Some (JNum ex)"
    and "sint ex < 0" "0 \<le> sint now"
  shows "checkDate st now t = Inr ()"
  using checkDate_exp_only [OF assms(1-3)] word64_neg_not_less [OF assms(4,5)] by simp

theorem checkDate_negative_exp_accepted_witness:
  "checkDate new_openid 1700000000 \<lparr>header_claims = [], payload_claims = [(''exp'', JNum (- 1))], signature = []\<rparr> = Inr ()"
  by (rule checkDate_negative_exp_accepted [where ex = "- 1"])
     (simp_all add: wf_token_def get_payload_claim_def)

text \<open>
  For non-negative \<open>exp\<close> and clock, the unsigned comparison agrees with the
  signed one: the token is reported expired exactly when \<open>exp\<close> is before now.
\<close>

theorem checkDate_exp_signed:
  assumes "wf_token t" "get_payload_claim t ''nbf'' = None" "get_payload_claim t ''exp'' = Some (JNum ex)"
    and "0 \<le> sint ex" "0 \<le> sint now"
  shows "checkDate st now t = (if sint ex < sint now then reject st ''401 invalid token'' ''token expired'' else Inr ())"
  using checkDate_exp_only [OF assms(1-3)] word64_less_nonneg [OF assms(4,5)] by simp

theorem checkDate_exp_signed_witness:
  "checkDate new_openid 1700000000 \<lparr>header_claims = [], payload_claims = [(''exp'', JNum 1600000000)], signature = []\<rparr>
     = reject new_openid ''401 invalid token'' ''token expired''"
  using checkDate_exp_signed [where ex = 1600000000 and now = 1700000000 and st = new_openid
          and t = "\<lparr>header_claims = [], payload_claims = [(''exp'', JNum 1600000000)], signature = []\<rparr>"]
  by (simp add: wf_token_def get_payload_claim_def)

text \<open>
  C32. The audience is compared through \<^verbatim>\<open>to_str()\<close>, which renders an array as the
  word \<open>array\<close>: a token whose \<open>aud\<close> is an array (which RFC 7519 allows) is
  rejected with \<open>403\<close> even when the array holds the configured audience, unless that
  audience is the string \<open>array\<close>.
\<close>

theorem checkAudience_array_rejected:
  "get_payload_claim t ''aud'' = Some (JArr xs) \<Longrightarrow> audience st \<noteq> ''array'' \<Longrightarrow>
   checkAudience st t = reject st ''403 invalid token'' ''incorrect audience''"
  by (simp add: checkAudience_lookup)

theorem checkAudience_array_rejected_witness:
  "checkAudience (new_openid\<lparr>audience := ''api''\<rparr>) \<lparr>header_claims = [], payload_claims = [(''aud'', JArr [JStr ''api''])], signature = []\<rparr>
     = reject (new_openid\<lparr>audience := ''api''\<rparr>) ''403 invalid token'' ''incorrect audience''"
  by (rule checkAudience_array_rejected) (simp_all add: get_payload_claim_def)

lemma find_authorization_values:
  "find_authorization st hs acc =
     (case (acc, authorization_values hs) of
        (None, []) \<Rightarrow> Inr None
      | (None, [a]) \<Rightarrow> Inr (Some a)
      | (Some a, []) \<Rightarrow> Inr (Some a)
      | _ \<Rightarrow> invalid_request st ''Duplicate Authorization header'')"
proof (induction st hs acc rule: find_authorization.induct)
  case (1 st authorization)
  then show ?case by (cases authorization) (simp_all add: authorization_values_def)
next
  case (2 st name v hs authorization)
  then show ?case
    by (cases authorization; cases "authorization_values hs" rule: list.exhaust; auto simp add: authorization_values_def split: list.splits)
qed

text \<open>
  C9. The header loop of \<^verbatim>\<open>checkAuthentication\<close> refines its contract over the
  list of \<open>Authorization\<close> values: none gives \<open>401\<close> / \<open>Authentication
  required\<close>; more than one gives \<open>400\<close> / duplicate header; one empty value, or one
  that does not start with \<open>Bearer \<close> (case-sensitive, one space), gives \<open>400\<close>;
  otherwise the rest of the value is checked as a token.
\<close>

theorem checkAuthentication_cases:
  "checkAuthentication lib now st req =
     (case authorization_values (http_headers req) of
        [] \<Rightarrow> reject st ''401 Unauthorized'' ''Authentication required''
      | [a] \<Rightarrow>
          if a = [] then invalid_request st ''Empty authentication field''
          else if \<not> starts_with a ''Bearer '' then invalid_request st ''Unsupported authentication method''
          else checkJwt lib now st (drop (length ''Bearer '') a)
      | _ \<Rightarrow> invalid_request st ''Duplicate Authorization header'')"
  by (simp add: checkAuthentication_def find_authorization_values invalid_request_def split: list.splits)

end
