(* ===== verification/OpenIdConfig.thy ===== *)
theory OpenIdConfig
  imports Challenge Claims
begin

text \<open>
  The configuration phase of \<^verbatim>\<open>OpenIdAuthenticationProvider\<close>
  (\<^verbatim>\<open>src/src/OpenIdAuthenticationProvider.cpp\<close>, \<^verbatim>\<open>.hpp\<close>): \<^verbatim>\<open>loadConfig\<close>
  reads the \<open>@OpenID\<close> block member by member, \<^verbatim>\<open>loadClaims\<close> reads the
  \<open>claims\<close> object, and \<^verbatim>\<open>initialize\<close> initialises the verification and builds
  the challenge header. The invariant \<open>wf_openid\<close> is what a loaded provider
  satisfies; the lemmas show that loading establishes it and initialisation keeps it.
  An exception leaves the C++ object half-updated, but it aborts the whole load; the
  model returns only the error.
\<close>

section \<open>Claims\<close>

text \<open>The loop over the title array of one claim: each title is read as a string
  and added to the claim's \<^verbatim>\<open>std::unordered_set\<close>.\<close>

fun loadClaims_titles :: "json list \<Rightarrow> string list \<Rightarrow> (config_error, string list) result" where
  "loadClaims_titles [] claim = Inr claim"
| "loadClaims_titles (title # ts) claim =
     rbind (asString title) (\<lambda>titleString. loadClaims_titles ts (uset_emplace titleString claim))"

text \<open>\<^verbatim>\<open>loadClaims\<close>: a claim name already present throws (also one loaded by an
  earlier \<open>claims\<close> member); the value must be an array of strings.\<close>

fun loadClaims ::
  "(string \<times> string list) list \<Rightarrow> (string \<times> json) list \<Rightarrow> (config_error, (string \<times> string list) list) result" where
  "loadClaims cs [] = Inr cs"
| "loadClaims cs ((key, value) # ms) =
     (if map_of cs key \<noteq> None then
        Inl (ConfigError (''dublicated items in claims not allowed : item '' @ [dquote] @ key @ [dquote]
                          @ '' is dublicated''))
      else
        rbind (asArray value) (\<lambda>titleArray.
        rbind (loadClaims_titles titleArray []) (\<lambda>claim.
          loadClaims (emplace key claim cs) ms)))"

section \<open>Scopes\<close>

text \<open>The loop over the \<open>scopes\<close> array: each scope is read as a string, checked
  by \<^verbatim>\<open>getScopeError\<close>, and added to the set of scopes.\<close>

fun loadScopes :: "json list \<Rightarrow> string list \<Rightarrow> (config_error, string list) result" where
  "loadScopes [] sc = Inr sc"
| "loadScopes (scope # vs) sc =
     rbind (asString scope) (\<lambda>scopeName.
       case getScopeError scopeName of
         Some errorMessage \<Rightarrow> Inl (ConfigError (''error found in a scope : '' @ errorMessage))
       | None \<Rightarrow> loadScopes vs (uset_emplace scopeName sc))"

section \<open>Loading and initialising the provider\<close>

fun OpenId_loadConfig_members ::
  "filesystem \<Rightarrow> openid \<Rightarrow> (string \<times> json) list \<Rightarrow> (config_error, openid) result" where
  "OpenId_loadConfig_members fs st [] = Inr st"
| "OpenId_loadConfig_members fs st ((key, value) # ms) =
     (if key = ''realm'' then
        rbind (asString value) (\<lambda>r.
          case getRealmError r of
            Some errorMessage \<Rightarrow> Inl (ConfigError (''error found in the realm : '' @ errorMessage))
          | None \<Rightarrow> OpenId_loadConfig_members fs (st\<lparr>realm := Some (makeRealm r)\<rparr>) ms)
      else if key = ''scopes'' then
        rbind (asArray value) (\<lambda>vs.
        rbind (loadScopes vs (scopes st)) (\<lambda>sc.
          OpenId_loadConfig_members fs (st\<lparr>scopes := sc\<rparr>) ms))
      else if key = ''issuer'' then
        rbind (asString value) (\<lambda>i.
          if i = [] then Inl (ConfigError ''empty issuer , issuer can not be empty '')
          else OpenId_loadConfig_members fs (st\<lparr>issuer := i\<rparr>) ms)
      else if key = ''audience'' then
        rbind (asString value) (\<lambda>a.
          if a = [] then Inl (ConfigError ''empty audience , audience can not be empty'')
          else OpenId_loadConfig_members fs (st\<lparr>audience := a\<rparr>) ms)
      else if key = ''claims'' then
        rbind (asObject value) (\<lambda>obj.
        rbind (loadClaims (claims st) obj) (\<lambda>cs.
          OpenId_loadConfig_members fs (st\<lparr>claims := cs\<rparr>) ms))
      else if key = ''verification'' then
        rbind (asObject value) (\<lambda>obj.
        rbind (AbstractTokenVerification_load fs obj) (\<lambda>tv.
          OpenId_loadConfig_members fs (st\<lparr>verification := Some tv\<rparr>) ms))
      else Inl (UnknownParameter key))"

definition OpenId_loadConfig :: "filesystem \<Rightarrow> openid \<Rightarrow> (string \<times> json) list \<Rightarrow> (config_error, openid) result" where
  "OpenId_loadConfig fs st jsonObject =
     rbind (OpenId_loadConfig_members fs st jsonObject) (\<lambda>st'.
       if issuer st' = [] then Inl (ConfigError ''missing issuer'')
       else if audience st' = [] then Inl (ConfigError ''missing audience'')
       else if verification st' = None then Inl (ConfigError ''missing verification'')
       else Inr st')"

text \<open>
  \<^verbatim>\<open>initialize\<close> (inline in the header): \<^verbatim>\<open>_verification->initialize()\<close>, then
  \<^verbatim>\<open>buildAuthenticationHeader()\<close>. A provider whose \<open>loadConfig\<close> did not run has a
  null verification pointer; the model throws there instead of dereferencing it.
\<close>

definition OpenId_initialize :: "jwt_lib \<Rightarrow> filesystem \<Rightarrow> openid \<Rightarrow> (config_error, openid) result" where
  "OpenId_initialize lib fs st =
     (case verification st of
        None \<Rightarrow> Inl (ConfigError ''verification used before loadConfig'')
      | Some tv \<Rightarrow> rbind (tv_initialize lib fs tv) (\<lambda>tv'.
          Inr (buildAuthenticationHeader (st\<lparr>verification := Some tv'\<rparr>))))"

section \<open>The invariant of a loaded provider\<close>

text \<open>
  A stored realm is the escaped form of a string that passed \<^verbatim>\<open>getRealmError\<close>
  (decided through the unescaping parser, so the test is executable); every scope passed
  \<^verbatim>\<open>getScopeError\<close>; the sets and the map have no duplicates. A loaded provider also
  has an issuer, an audience and a verification.
\<close>

definition realm_ok :: "string \<Rightarrow> bool" where
  "realm_ok r \<longleftrightarrow> (case unquote r of None \<Rightarrow> False | Some raw \<Rightarrow> makeRealm raw = r \<and> getRealmError raw = None)"

definition config_ok :: "openid \<Rightarrow> bool" where
  "config_ok st \<longleftrightarrow>
     (case realm st of None \<Rightarrow> True | Some r \<Rightarrow> realm_ok r) \<and>
     list_all (\<lambda>sc. getScopeError sc = None) (scopes st) \<and> distinct (scopes st) \<and>
     distinct (map fst (claims st)) \<and> list_all (\<lambda>(c, vs). distinct vs) (claims st)"

definition wf_openid :: "openid \<Rightarrow> bool" where
  "wf_openid st \<longleftrightarrow> config_ok st \<and> issuer st \<noteq> [] \<and> audience st \<noteq> [] \<and> verification st \<noteq> None"

text \<open>A configuration for the examples: a key file \<open>/k\<close>, a certificate
  \<open>/cert.pem\<close>, and an \<open>@OpenID\<close> block with every member.\<close>

definition demo_fs :: filesystem where
  "demo_fs = (\<lambda>p. if p = ''/k'' then Some ''k'' else if p = ''/cert.pem'' then Some ''CERT'' else None)"
definition demo_openid_config :: "(string \<times> json) list" where
  "demo_openid_config =
     [(''realm'', JStr ''my realm''), (''scopes'', JArr [JStr ''read'', JStr ''write'']),
      (''issuer'', JStr ''acme''), (''audience'', JStr ''api''),
      (''claims'', JObj [(''groups'', JArr [JStr ''admin'', JStr ''ops''])]),
      (''verification'', JObj [(''@HS256'', JObj [(''keyFile'', JStr ''/k'')])])]"

section \<open>Properties of loading and initialisation\<close>

lemma realm_ok_makeRealm: "getRealmError raw = None \<Longrightarrow> realm_ok (makeRealm raw)"
  using makeRealm_loop_escape [of "[]" raw] unquote_quote_escape [of raw]
  by (simp add: realm_ok_def makeRealm_def)

lemma realm_ok_iff: "realm_ok r \<longleftrightarrow> (\<exists>raw. r = makeRealm raw \<and> getRealmError raw = None)"
  by (auto simp add: realm_ok_makeRealm) (auto simp add: realm_ok_def split: option.splits)

lemma loadScopes_ok:
  "loadScopes vs sc = Inr sc' \<Longrightarrow> distinct sc \<Longrightarrow> list_all (\<lambda>s. getScopeError s = None) sc \<Longrightarrow>
   distinct sc' \<and> list_all (\<lambda>s. getScopeError s = None) sc'"
proof (induction vs arbitrary: sc)
  case (Cons v vs)
  then show ?case
    by (auto simp add: rbind_eq_Inr_iff uset_emplace_def split: option.splits if_splits)
qed simp

lemma loadClaims_titles_Inr:
  "loadClaims_titles ts acc = Inr r \<Longrightarrow>
   set r = set acc \<union> {s. JStr s \<in> set ts} \<and> (distinct acc \<longrightarrow> distinct r)"
proof (induction ts arbitrary: acc)
  case (Cons t ts)
  then show ?case by (auto simp add: rbind_eq_Inr_iff)
qed simp

lemma loadClaims_Inr:
  "loadClaims cs ms = Inr cs' \<Longrightarrow>
   distinct (map fst ms) \<and> (\<forall>k \<in> set (map fst ms). map_of cs k = None) \<and>
   (distinct (map fst cs) \<longrightarrow> distinct (map fst cs')) \<and>
   (list_all (\<lambda>(c, vs). distinct vs) cs \<longrightarrow> list_all (\<lambda>(c, vs). distinct vs) cs') \<and>
   (\<forall>c. map_option set (map_of cs' c) =
          (case map_of cs c of Some vs \<Rightarrow> Some (set vs)
           | None \<Rightarrow> map_option (\<lambda>v. {s. JStr s \<in> set (offered_values v)}) (map_of ms c)))"
proof (induction cs ms rule: loadClaims.induct)
  case (2 cs key v ms)
  from "2.prems" obtain ts claim where
    nk: "map_of cs key = None" and vj: "v = JArr ts" and
    t: "loadClaims_titles ts [] = Inr claim" and
    r: "loadClaims ((key, claim) # cs) ms = Inr cs'"
    by (auto simp add: rbind_eq_Inr_iff emplace_def split: if_splits)
  from loadClaims_titles_Inr [OF t] have ct: "set claim = {s. JStr s \<in> set ts}" "distinct claim" by auto
  have r': "loadClaims (emplace key claim cs) ms = Inr cs'" using r nk by (simp add: emplace_def)
  note ih = "2.IH" [OF _ r']
  from ih [simplified nk, simplified] nk vj ct show ?case
    by (auto simp add: emplace_def split: option.splits if_splits)
qed (simp split: option.splits)

lemma loadConfig_members_config_ok:
  "OpenId_loadConfig_members fs st ms = Inr st' \<Longrightarrow> config_ok st \<Longrightarrow> config_ok st'"
proof (induction fs st ms rule: OpenId_loadConfig_members.induct)
  case (2 fs st key v ms)
  show ?case
  proof (cases "key = ''realm'' \<or> key = ''scopes'' \<or> key = ''claims''")
    case True
    then show ?thesis
    proof (elim disjE)
      assume k: "key = ''realm''"
      with "2.prems" obtain r where "getRealmError r = None"
        "OpenId_loadConfig_members fs (st\<lparr>realm := Some (makeRealm r)\<rparr>) ms = Inr st'"
        by (auto simp add: rbind_eq_Inr_iff split: option.splits)
      with "2.IH"(1) [OF k] "2.prems"(2) show ?thesis
        by (auto simp add: config_ok_def realm_ok_makeRealm)
    next
      assume k: "key = ''scopes''"
      with "2.prems" obtain vs sc where sc: "loadScopes vs (scopes st) = Inr sc" and
        rest: "OpenId_loadConfig_members fs (st\<lparr>scopes := sc\<rparr>) ms = Inr st'"
        by (auto simp add: rbind_eq_Inr_iff)
      have "config_ok (st\<lparr>scopes := sc\<rparr>)"
        using loadScopes_ok [OF sc] "2.prems"(2) by (simp add: config_ok_def)
      with "2.IH"(2) [OF _ k] k rest show ?thesis by simp
    next
      assume k: "key = ''claims''"
      with "2.prems" obtain obj cs where cs: "loadClaims (claims st) obj = Inr cs" and
        rest: "OpenId_loadConfig_members fs (st\<lparr>claims := cs\<rparr>) ms = Inr st'"
        by (auto simp add: rbind_eq_Inr_iff)
      have "config_ok (st\<lparr>claims := cs\<rparr>)"
        using loadClaims_Inr [OF cs] "2.prems"(2) by (simp add: config_ok_def)
      with "2.IH"(5) k rest show ?thesis by simp
    qed
  next
    case False
    with "2.prems" "2.IH" show ?thesis
      by (auto simp add: rbind_eq_Inr_iff config_ok_def split: if_splits)
  qed
qed simp

lemma OpenId_loadConfig_Inr: "OpenId_loadConfig fs st obj = Inr st' \<Longrightarrow> config_ok st \<Longrightarrow> wf_openid st'"
proof -
  assume ok: "OpenId_loadConfig fs st obj = Inr st'" and st: "config_ok st"
  then obtain st0 where m: "OpenId_loadConfig_members fs st obj = Inr st0" and
    st0: "st' = st0" "issuer st0 \<noteq> []" "audience st0 \<noteq> []" "verification st0 \<noteq> None"
    by (auto simp add: OpenId_loadConfig_def rbind_eq_Inr_iff split: if_splits)
  with loadConfig_members_config_ok [OF m st] show ?thesis by (simp add: wf_openid_def)
qed

lemma config_ok_new_openid [simp]: "config_ok new_openid"
  by (simp add: config_ok_def new_openid_def)

lemma wf_openid_buildAuthenticationHeader [simp]:
  "wf_openid (buildAuthenticationHeader st) \<longleftrightarrow> wf_openid st"
  by (simp add: buildAuthenticationHeader_def wf_openid_def config_ok_def)

lemma OpenId_initialize_Inr:
  "OpenId_initialize lib fs st = Inr st' \<Longrightarrow>
   \<exists>tv tv'. verification st = Some tv \<and> tv_initialize lib fs tv = Inr tv' \<and> tv_ready tv' \<and>
     st' = buildAuthenticationHeader (st\<lparr>verification := Some tv'\<rparr>)"
  by (auto simp add: OpenId_initialize_def rbind_eq_Inr_iff split: option.splits dest: tv_initialize_ready)

lemmas load_demo_defs = demo_fs_def demo_openid_config_def OpenId_loadConfig_def new_openid_def
  makeRealm_def makeRealm_loop.simps getScopeError_def uset_emplace_def emplace_def
  AbstractTokenVerification_load_def factory_def kFactories_def Simple_loadConfig_def new_simple_tv_def
  is_absolute_def is_open_def bslash_def dquote_def starts_with_def

lemma demo_load:
  "OpenId_loadConfig demo_fs new_openid demo_openid_config =
     Inr \<lparr>realm = Some ''my realm'', issuer = ''acme'', audience = ''api'', scopes = [''write'', ''read''],
          claims = [(''groups'', [''ops'', ''admin''])], wwwAuthernicateHeader = [],
          verification = Some (Simple \<lparr>keyFile = ''/k'', verifierFactory = hs256, verifier = None\<rparr>)\<rparr>"
  by (simp add: load_demo_defs)

text \<open>
  C18. A provider that \<^verbatim>\<open>loadConfig\<close> accepts satisfies the invariant: it has an
  issuer, an audience and a verification, its realm is the escaped form of a string that
  passed the realm check, every scope passed the scope check, and neither the scopes nor
  the claim names repeat.
\<close>

theorem OpenId_loadConfig_wf: "OpenId_loadConfig fs new_openid obj = Inr st \<Longrightarrow> wf_openid st"
  using OpenId_loadConfig_Inr [of fs new_openid obj st] by simp

theorem OpenId_loadConfig_wf_witness:
  "OpenId_loadConfig demo_fs new_openid demo_openid_config =
     Inr \<lparr>realm = Some ''my realm'', issuer = ''acme'', audience = ''api'', scopes = [''write'', ''read''],
          claims = [(''groups'', [''ops'', ''admin''])], wwwAuthernicateHeader = [],
          verification = Some (Simple \<lparr>keyFile = ''/k'', verifierFactory = hs256, verifier = None\<rparr>)\<rparr> \<and>
   wf_openid \<lparr>realm = Some ''my realm'', issuer = ''acme'', audience = ''api'', scopes = [''write'', ''read''],
          claims = [(''groups'', [''ops'', ''admin''])], wwwAuthernicateHeader = [],
          verification = Some (Simple \<lparr>keyFile = ''/k'', verifierFactory = hs256, verifier = None\<rparr>)\<rparr>"
  using OpenId_loadConfig_wf [OF demo_load] demo_load by simp

text \<open>
  C21. \<^verbatim>\<open>loadClaims\<close> accepts only a claims object whose names do not repeat, and
  stores for each claim exactly the set of strings of its array.
\<close>

theorem loadClaims_loaded:
  "loadClaims [] ms = Inr cs \<Longrightarrow>
   distinct (map fst ms) \<and>
   (\<forall>c. map_option set (map_of cs c) = map_option (\<lambda>v. {s. JStr s \<in> set (offered_values v)}) (map_of ms c))"
  using loadClaims_Inr [of "[]" ms cs] by simp

theorem loadClaims_loaded_witness:
  "loadClaims [] [(''groups'', JArr [JStr ''admin'', JStr ''ops''])] = Inr [(''groups'', [''ops'', ''admin''])] \<and>
   distinct (map fst [(''groups'', JArr [JStr ''admin'', JStr ''ops''])])"
proof -
  have ok: "loadClaims [] [(''groups'', JArr [JStr ''admin'', JStr ''ops''])] = Inr [(''groups'', [''ops'', ''admin''])]"
    by (simp add: uset_emplace_def emplace_def)
  from loadClaims_loaded [OF ok] ok show ?thesis by simp
qed

text \<open>
  C19. \<^verbatim>\<open>initialize\<close> keeps the invariant and leaves the verification ready: a
  static-key verification has its verifier, so no request can reach an uninitialised one.
\<close>

theorem OpenId_initialize_wf:
  "wf_openid st \<Longrightarrow> OpenId_initialize lib fs st = Inr st' \<Longrightarrow>
   wf_openid st' \<and> (\<exists>tv. verification st' = Some tv \<and> tv_ready tv)"
  by (auto simp add: wf_openid_def config_ok_def buildAuthenticationHeader_def dest!: OpenId_initialize_Inr)

theorem OpenId_initialize_wf_witness:
  "wf_openid \<lparr>realm = Some ''my realm'', issuer = ''acme'', audience = ''api'', scopes = [''write'', ''read''],
          claims = [(''groups'', [''ops'', ''admin''])], wwwAuthernicateHeader = [],
          verification = Some (Simple \<lparr>keyFile = ''/k'', verifierFactory = hs256, verifier = None\<rparr>)\<rparr> \<and>
   OpenId_initialize demo_lib demo_fs
     \<lparr>realm = Some ''my realm'', issuer = ''acme'', audience = ''api'', scopes = [''write'', ''read''],
          claims = [(''groups'', [''ops'', ''admin''])], wwwAuthernicateHeader = [],
          verification = Some (Simple \<lparr>keyFile = ''/k'', verifierFactory = hs256, verifier = None\<rparr>)\<rparr> =
   Inr (buildAuthenticationHeader
     \<lparr>realm = Some ''my realm'', issuer = ''acme'', audience = ''api'', scopes = [''write'', ''read''],
          claims = [(''groups'', [''ops'', ''admin''])], wwwAuthernicateHeader = [],
          verification = Some (Simple \<lparr>keyFile = ''/k'', verifierFactory = hs256,
             verifier = Some \<lparr>allowed_algorithm = hs256, verifier_key = ''k''\<rparr>\<rparr>)\<rparr>)"
proof -
  let ?st = "\<lparr>realm = Some ''my realm'', issuer = ''acme'', audience = ''api'', scopes = [''write'', ''read''],
          claims = [(''groups'', [''ops'', ''admin''])], wwwAuthernicateHeader = [],
          verification = Some (Simple \<lparr>keyFile = ''/k'', verifierFactory = hs256, verifier = None\<rparr>)\<rparr>"
  have wf: "wf_openid ?st"
    by (simp add: wf_openid_def config_ok_def realm_ok_def makeRealm_def makeRealm_loop.simps
        getScopeError_def bslash_def dquote_def)
  have init: "OpenId_initialize demo_lib demo_fs ?st =
     Inr (buildAuthenticationHeader (?st\<lparr>verification := Some (Simple \<lparr>keyFile = ''/k'', verifierFactory = hs256,
             verifier = Some \<lparr>allowed_algorithm = hs256, verifier_key = ''k''\<rparr>\<rparr>)\<rparr>))"
    by (simp add: OpenId_initialize_def tv_initialize_def Simple_initialize_def readFile_def create_def
        demo_lib_def demo_fs_def)
  from OpenId_initialize_wf [OF wf init] wf init show ?thesis by simp
qed

end
