(* ===== verification/Server.thy ===== *)
theory Server
  imports Provider OpenIdConfig
begin

text \<open>
  The web service microservice (\<^verbatim>\<open>src/src/Server.hpp\<close>, \<^verbatim>\<open>src/src/Server.cpp\<close>):
  its configuration (\<^verbatim>\<open>loadConfig\<close>, \<^verbatim>\<open>loadAuthenticationProvider\<close>), its start
  (\<^verbatim>\<open>prepare\<close>), the request handler (\<^verbatim>\<open>beginRequestHandler\<close>, \<^verbatim>\<open>sendResponse\<close>)
  and its stop (\<^verbatim>\<open>cleanup\<close>). The host calls these in a fixed order; the step relation
  \<open>server_step\<close> is that life cycle. libhttp is a parameter: \<open>httplib_start\<close> says
  whether the server starts with the given options, and a request handler's effect is
  the response it writes.
\<close>

section \<open>State\<close>

text \<open>The members of \<^verbatim>\<open>Server\<close>. The libhttp context pointer is the option list
  the server was started with, \<open>None\<close> for \<^verbatim>\<open>nullptr\<close>. The abstract
  \<^verbatim>\<open>AbstractAuthenticationProvider\<close> has one implementation, so the pointer to it is
  an \<open>openid option\<close>.\<close>

record server =
  portNumber :: "16 word"
  authentication :: "openid option"
  serverCertificatePath :: string
  lh_context :: "(string \<times> string) list option"

definition new_server :: server where
  "new_server = \<lparr>portNumber = 0, authentication = None, serverCertificatePath = [], lh_context = None\<rparr>"

section \<open>Configuration\<close>

text \<open>\<^verbatim>\<open>loadAuthenticationProvider\<close>: the \<open>authentication\<close> object names the
  provider. A provider already present, also one loaded by an earlier
  \<open>authentication\<close> member, is a duplicate. The flag is \<open>readAuthentication\<close>.\<close>

fun Server_loadAuthenticationProvider_members ::
  "filesystem \<Rightarrow> server \<Rightarrow> bool \<Rightarrow> (string \<times> json) list \<Rightarrow> (config_error, server \<times> bool) result" where
  "Server_loadAuthenticationProvider_members fs srv readAuthentication [] = Inr (srv, readAuthentication)"
| "Server_loadAuthenticationProvider_members fs srv readAuthentication ((key, value) # ms) =
     (if key = ''@OpenID'' then
        (if authentication srv \<noteq> None then
           Inl (ConfigError ''duplicate authentication provider for authentication in web service server'')
         else
           rbind (asObject value) (\<lambda>openId.
           rbind (OpenId_loadConfig fs new_openid openId) (\<lambda>a.
             Server_loadAuthenticationProvider_members fs (srv\<lparr>authentication := Some a\<rparr>) True ms)))
      else Inl (UnknownParameter key))"

definition Server_loadAuthenticationProvider ::
  "filesystem \<Rightarrow> server \<Rightarrow> (string \<times> json) list \<Rightarrow> (config_error, server) result" where
  "Server_loadAuthenticationProvider fs srv jsonObject =
     rbind (Server_loadAuthenticationProvider_members fs srv False jsonObject) (\<lambda>(srv', readAuthentication).
       if \<not> readAuthentication then
         Inl (ConfigError ''missing authentication provider for authentication in web service server'')
       else Inr srv')"

text \<open>\<^verbatim>\<open>Server::loadConfig\<close>. Members it does not know go to the host's
  \<open>fallbackHandler\<close>, a parameter that accepts a member or throws.\<close>

fun Server_loadConfig_members ::
  "filesystem \<Rightarrow> (string \<Rightarrow> json \<Rightarrow> bool) \<Rightarrow> server \<Rightarrow> bool \<Rightarrow> (string \<times> json) list
     \<Rightarrow> (config_error, server \<times> bool) result" where
  "Server_loadConfig_members fs fallbackHandler srv readAuthentication [] = Inr (srv, readAuthentication)"
| "Server_loadConfig_members fs fallbackHandler srv readAuthentication ((key, value) # ms) =
     (if key = ''portNumber'' then
        rbind (asPortNumber value) (\<lambda>p.
          if p = 0 then Inl (ConfigError ''empty portNumber for webService Server'')
          else Server_loadConfig_members fs fallbackHandler (srv\<lparr>portNumber := p\<rparr>) readAuthentication ms)
      else if key = ''authentication'' then
        rbind (asObject value) (\<lambda>a.
        rbind (Server_loadAuthenticationProvider fs srv a) (\<lambda>srv'.
          Server_loadConfig_members fs fallbackHandler srv' True ms))
      else if key = ''serverCertificate'' then
        rbind (asString value) (\<lambda>c.
          if c = [] then Inl (ConfigError ''empty serverCertificate for WebService Server'')
          else if \<not> is_absolute c then
            Inl (ConfigError ''invalid Certificate path : set absolute path for the Web Service Server Certificate'')
          else if \<not> is_open fs c then Inl (ConfigError ''missing serverCertificate'')
          else Server_loadConfig_members fs fallbackHandler (srv\<lparr>serverCertificatePath := c\<rparr>) readAuthentication ms)
      else if fallbackHandler key value then
        Server_loadConfig_members fs fallbackHandler srv readAuthentication ms
      else Inl (FallbackError key))"

definition Server_loadConfig ::
  "filesystem \<Rightarrow> (string \<Rightarrow> json \<Rightarrow> bool) \<Rightarrow> server \<Rightarrow> (string \<times> json) list \<Rightarrow> (config_error, server) result" where
  "Server_loadConfig fs fallbackHandler srv jsonObject =
     rbind (Server_loadConfig_members fs fallbackHandler srv False jsonObject) (\<lambda>(srv', readAuthentication).
       if portNumber srv' = 0 then Inl (ConfigError ''missing portNumber for webService Server'')
       else if \<not> readAuthentication then Inl (ConfigError ''missing Authentication for webService Server'')
       else if serverCertificatePath srv' = [] then
         Inl (ConfigError ''missing serverCertificate for webService Server'')
       else Inr srv')"

section \<open>Start and stop\<close>

text \<open>\<^verbatim>\<open>prepare\<close>: initialise the provider, then start libhttp with the port (its
  decimal \<^verbatim>\<open>std::to_string\<close> followed by \<open>s\<close> for TLS) and the certificate path. A
  null provider pointer is a dereference of \<^verbatim>\<open>nullptr\<close>; the model throws there.\<close>

definition server_options :: "server \<Rightarrow> (string \<times> string) list" where
  "server_options srv =
     [(''listening_ports'', show_nat (unat (portNumber srv)) @ ''s''),
      (''ssl_certificate'', serverCertificatePath srv)]"

definition Server_prepare ::
  "jwt_lib \<Rightarrow> filesystem \<Rightarrow> ((string \<times> string) list \<Rightarrow> bool) \<Rightarrow> server \<Rightarrow> (config_error, server) result" where
  "Server_prepare lib fs httplib_start srv =
     (case authentication srv of
        None \<Rightarrow> Inl (RuntimeError ''authentication used before loadConfig'')
      | Some a \<Rightarrow>
          rbind (OpenId_initialize lib fs a) (\<lambda>a'.
            if httplib_start (server_options srv) then
              Inr (srv\<lparr>authentication := Some a', lh_context := Some (server_options srv)\<rparr>)
            else Inl (RuntimeError ''Could not initialize the web Service Server'')))"

text \<open>\<^verbatim>\<open>cleanup\<close>: \<^verbatim>\<open>httplib_stop(_context)\<close>.\<close>

definition Server_cleanup :: "server \<Rightarrow> server" where
  "Server_cleanup srv = srv\<lparr>lh_context := None\<rparr>"

section \<open>Requests\<close>

text \<open>\<^verbatim>\<open>sendResponse\<close>: the bytes passed to \<^verbatim>\<open>httplib_write\<close>. The request handler
  calls it with two arguments, so the extra header fields are always empty.\<close>

definition sendResponse :: "string \<Rightarrow> string \<Rightarrow> string \<Rightarrow> string" where
  "sendResponse code data extra =
     ''HTTP/1.1 '' @ code @ crlf @ extra
     @ ''Content-Length: '' @ show_nat (length data) @ crlf
     @ ''Content-Type: text/plain'' @ crlf @ crlf
     @ (if data \<noteq> [] then data else [])"

text \<open>The \<^verbatim>\<open>try\<close> block of \<^verbatim>\<open>beginRequestHandler\<close>: authentication first, then the
  method.\<close>

definition handle_request :: "jwt_lib \<Rightarrow> int64 \<Rightarrow> openid \<Rightarrow> request \<Rightarrow> (request_error, unit) result" where
  \<open>handle_request lib now a request =
     rbind (checkAuthentication lib now a request) (\<lambda>_.
       if request_method request \<noteq> ''GET'' then
         Inl (Http (HttpError ''405 Method Not Allowed'' ''only "GET" method is accepted'' []))
       else Inr ())\<close>

text \<open>\<^verbatim>\<open>beginRequestHandler\<close>: the response written. An \<^verbatim>\<open>HttpError\<close> answers with
  its code and data, any other exception with \<open>507\<close> and its \<^verbatim>\<open>what()\<close>. \<open>None\<close> is
  the dereference of a null provider pointer.\<close>

definition beginRequestHandler :: "jwt_lib \<Rightarrow> int64 \<Rightarrow> server \<Rightarrow> request \<Rightarrow> string option" where
  "beginRequestHandler lib now srv request =
     (case authentication srv of
        None \<Rightarrow> None
      | Some a \<Rightarrow> Some
          (case handle_request lib now a request of
             Inr _ \<Rightarrow> sendResponse ''200 OK'' ''Hello from Xentara!'' []
           | Inl (Http e) \<Rightarrow> sendResponse (responseCode e) (responseData e) []
           | Inl (StdException w) \<Rightarrow> sendResponse ''507 Internal Server Error'' w []))"

text \<open>\<^verbatim>\<open>logMessageHandler\<close> (reached through \<^verbatim>\<open>staticLogMessageHandler\<close>): the
  message and \<^verbatim>\<open>std::endl\<close> appended to what \<^verbatim>\<open>std::cout\<close> has received, and the
  return value 1, by which libhttp takes the message as handled.\<close>

definition logMessageHandler :: "string \<Rightarrow> string \<Rightarrow> string \<times> int" where
  "logMessageHandler cout message = (cout @ message @ [CHR 0x0A], 1)"

section \<open>What the properties speak of\<close>

text \<open>A server under configuration: a provider, once present, is well-formed, and a
  certificate path, once set, is absolute and names a readable file.\<close>

definition auth_ok :: "server \<Rightarrow> bool" where
  "auth_ok srv \<longleftrightarrow> (case authentication srv of None \<Rightarrow> True | Some a \<Rightarrow> wf_openid a)"


definition cert_ok :: "filesystem \<Rightarrow> server \<Rightarrow> bool" where
  "cert_ok fs srv \<longleftrightarrow> serverCertificatePath srv = [] \<or>
     (is_absolute (serverCertificatePath srv) \<and> is_open fs (serverCertificatePath srv))"


text \<open>A configured server: what \<^verbatim>\<open>Server::loadConfig\<close> promises.\<close>

definition server_configured :: "filesystem \<Rightarrow> server \<Rightarrow> bool" where
  "server_configured fs srv \<longleftrightarrow>
     portNumber srv \<noteq> 0 \<and> is_absolute (serverCertificatePath srv) \<and> is_open fs (serverCertificatePath srv) \<and>
     (case authentication srv of None \<Rightarrow> False | Some a \<Rightarrow> wf_openid a)"


text \<open>The values of the \<open>authentication\<close> members of a server configuration, in order.\<close>

fun authentication_members :: "(string \<times> json) list \<Rightarrow> json list" where
  "authentication_members [] = []"
| "authentication_members ((k, v) # ms) =
     (if k = ''authentication'' then v # authentication_members ms else authentication_members ms)"


text \<open>The response codes a rejection of the request path carries, and the form of every
  rejection: \<^verbatim>\<open>std::bad_cast\<close> from a non-integer date, or an \<^verbatim>\<open>HttpError\<close>
  whose extra header fields start with the stored challenge.\<close>

definition challenge_codes :: "string set" where
  "challenge_codes = {''400 Bad Request'', ''401 Unauthorized'', ''400 invalid token'', ''401 invalid token'',
     ''400 invalid scope'', ''403 invalid token'', ''403 invalid scope''}"


definition jwt_rejection :: "openid \<Rightarrow> request_error \<Rightarrow> bool" where
  "jwt_rejection st r \<longleftrightarrow>
     r = StdException ''std::bad_cast'' \<or>
     (\<exists>c m x. r = Http (HttpError c m (wwwAuthernicateHeader st @ x)) \<and> c \<in> challenge_codes)"


text \<open>Every status line \<^verbatim>\<open>beginRequestHandler\<close> can write.\<close>

definition response_codes :: "string set" where
  "response_codes = {''200 OK'', ''405 Method Not Allowed'', ''507 Internal Server Error''} \<union> challenge_codes"


text \<open>A server configuration for the examples (the provider block of
  \<open>demo_openid_config\<close> under \<open>@OpenID\<close>), the provider it loads, and the server
  after \<^verbatim>\<open>prepare\<close> with \<open>demo_lib\<close>.\<close>

definition demo_server_config :: "(string \<times> json) list" where
  "demo_server_config =
     [(''portNumber'', JNum 8443), (''authentication'', JObj [(''@OpenID'', JObj demo_openid_config)]),
      (''serverCertificate'', JStr ''/cert.pem'')]"


definition demo_provider :: openid where
  "demo_provider =
     \<lparr>realm = Some ''my realm'', issuer = ''acme'', audience = ''api'', scopes = [''write'', ''read''],
      claims = [(''groups'', [''ops'', ''admin''])], wwwAuthernicateHeader = [],
      verification = Some (Simple \<lparr>keyFile = ''/k'', verifierFactory = hs256, verifier = None\<rparr>)\<rparr>"


definition demo_provider_ready :: openid where
  "demo_provider_ready =
     buildAuthenticationHeader (demo_provider\<lparr>verification := Some (Simple \<lparr>keyFile = ''/k'', verifierFactory = hs256,
       verifier = Some \<lparr>allowed_algorithm = hs256, verifier_key = ''k''\<rparr>\<rparr>)\<rparr>)"

definition demo_running :: server where
  "demo_running =
     \<lparr>portNumber = 8443, authentication = Some demo_provider_ready, serverCertificatePath = ''/cert.pem'',
      lh_context = Some [(''listening_ports'', ''8443s''), (''ssl_certificate'', ''/cert.pem'')]\<rparr>"

section \<open>Configuration establishes the invariant\<close>

lemma loadAuth_members_Inr:
  "Server_loadAuthenticationProvider_members fs srv r ms = Inr (srv', r') \<Longrightarrow> auth_ok srv \<Longrightarrow>
   auth_ok srv' \<and> (r' \<longrightarrow> r \<or> authentication srv' \<noteq> None) \<and>
   (authentication srv \<noteq> None \<longrightarrow> authentication srv' \<noteq> None) \<and>
   portNumber srv' = portNumber srv \<and> serverCertificatePath srv' = serverCertificatePath srv \<and>
   lh_context srv' = lh_context srv"
proof (induction fs srv r ms rule: Server_loadAuthenticationProvider_members.induct)
  case (2 fs srv r key v ms)
  then show ?case
    by (auto simp add: rbind_eq_Inr_iff auth_ok_def split: if_splits dest: OpenId_loadConfig_Inr [OF _ config_ok_new_openid])
qed simp


lemma loadAuth_Inr:
  "Server_loadAuthenticationProvider fs srv obj = Inr srv' \<Longrightarrow> auth_ok srv \<Longrightarrow>
   auth_ok srv' \<and> authentication srv' \<noteq> None \<and>
   portNumber srv' = portNumber srv \<and> serverCertificatePath srv' = serverCertificatePath srv \<and>
   lh_context srv' = lh_context srv"
  by (auto simp add: Server_loadAuthenticationProvider_def rbind_eq_Inr_iff split: if_splits
      dest!: loadAuth_members_Inr)


lemma loadConfig_members_Inr:
  "Server_loadConfig_members fs fb srv r ms = Inr (srv', r') \<Longrightarrow> auth_ok srv \<Longrightarrow> cert_ok fs srv \<Longrightarrow>
   (r \<longrightarrow> authentication srv \<noteq> None) \<Longrightarrow>
   auth_ok srv' \<and> cert_ok fs srv' \<and> (r' \<longrightarrow> authentication srv' \<noteq> None) \<and>
   lh_context srv' = lh_context srv"
proof (induction fs fb srv r ms rule: Server_loadConfig_members.induct)
  case (2 fs fb srv r key v ms)
  then show ?case
    by (auto simp add: rbind_eq_Inr_iff cert_ok_def auth_ok_def split: if_splits dest!: loadAuth_Inr)
qed simp


lemma Server_loadConfig_Inr:
  "Server_loadConfig fs fallbackHandler srv obj = Inr srv' \<Longrightarrow> auth_ok srv \<Longrightarrow> cert_ok fs srv \<Longrightarrow>
   server_configured fs srv' \<and> lh_context srv' = lh_context srv"
proof -
  assume ok: "Server_loadConfig fs fallbackHandler srv obj = Inr srv'" and inv: "auth_ok srv" "cert_ok fs srv"
  then obtain r where m: "Server_loadConfig_members fs fallbackHandler srv False obj = Inr (srv', r)" and
    c: "portNumber srv' \<noteq> 0" "r" "serverCertificatePath srv' \<noteq> []"
    by (auto simp add: Server_loadConfig_def rbind_eq_Inr_iff split: if_splits)
  from loadConfig_members_Inr [OF m inv] c show ?thesis
    by (auto simp add: server_configured_def auth_ok_def cert_ok_def split: option.splits)
qed


lemma new_server_ok [simp]: "auth_ok new_server" "cert_ok fs new_server"
  by (simp_all add: auth_ok_def cert_ok_def new_server_def)


text \<open>
  C16. A server that \<^verbatim>\<open>loadConfig\<close> accepts has a non-zero port, an absolute
  certificate path naming a readable file, and one well-formed OpenID provider.
\<close>

theorem Server_loadConfig_configured:
  "Server_loadConfig fs fallbackHandler new_server obj = Inr srv \<Longrightarrow> server_configured fs srv"
  using Server_loadConfig_Inr [of fs fallbackHandler new_server obj srv] by simp

lemma demo_server_load:
  "Server_loadConfig demo_fs (\<lambda>_ _. False) new_server demo_server_config =
     Inr \<lparr>portNumber = 8443, authentication = Some demo_provider, serverCertificatePath = ''/cert.pem'',
          lh_context = None\<rparr>"
  using demo_load
  by (simp add: Server_loadConfig_def demo_server_config_def new_server_def asPortNumber_def
      Server_loadAuthenticationProvider_def demo_provider_def is_absolute_def is_open_def demo_fs_def)


theorem Server_loadConfig_configured_witness:
  "Server_loadConfig demo_fs (\<lambda>_ _. False) new_server demo_server_config =
     Inr \<lparr>portNumber = 8443, authentication = Some demo_provider, serverCertificatePath = ''/cert.pem'',
          lh_context = None\<rparr> \<and>
   server_configured demo_fs
     \<lparr>portNumber = 8443, authentication = Some demo_provider, serverCertificatePath = ''/cert.pem'',
      lh_context = None\<rparr>"
  using Server_loadConfig_configured [OF demo_server_load] demo_server_load by simp

lemma loadAuth_members_one:
  "Server_loadAuthenticationProvider_members fs srv r ms = Inr (srv', r') \<Longrightarrow>
   (ms = [] \<and> srv' = srv \<and> r' = r) \<or>
   (authentication srv = None \<and> r' \<and> (\<exists>openId p. ms = [(''@OpenID'', JObj openId)] \<and>
      OpenId_loadConfig fs new_openid openId = Inr p \<and> srv' = srv\<lparr>authentication := Some p\<rparr>))"
proof (induction fs srv r ms arbitrary: srv' r' rule: Server_loadAuthenticationProvider_members.induct)
  case (2 fs srv r key v ms)
  then show ?case
    by (auto simp add: rbind_eq_Inr_iff split: if_splits)
qed simp

lemma loadAuth_one:
  "Server_loadAuthenticationProvider fs srv a = Inr srv' \<Longrightarrow>
   authentication srv = None \<and> (\<exists>openId p. a = [(''@OpenID'', JObj openId)] \<and>
      OpenId_loadConfig fs new_openid openId = Inr p \<and> srv' = srv\<lparr>authentication := Some p\<rparr>)"
  by (auto simp add: Server_loadAuthenticationProvider_def rbind_eq_Inr_iff split: if_splits
      dest!: loadAuth_members_one)

lemma loadConfig_members_one:
  "Server_loadConfig_members fs fb srv r obj = Inr (srv', r') \<Longrightarrow>
   (authentication_members obj = [] \<and> authentication srv' = authentication srv \<and> r' = r) \<or>
   (authentication srv = None \<and> r' \<and> (\<exists>openId p.
      authentication_members obj = [JObj [(''@OpenID'', JObj openId)]] \<and>
      OpenId_loadConfig fs new_openid openId = Inr p \<and> authentication srv' = Some p))"
proof (induction fs fb srv r obj arbitrary: srv' r' rule: Server_loadConfig_members.induct)
  case (1 fs fb srv r)
  then show ?case by simp
next
  case (2 fs fb srv r key v ms)
  show ?case
  proof (cases "key = ''portNumber''")
    case True
    with 2(5) obtain x where x: "asPortNumber v = Inr x" "x \<noteq> 0"
      and rest: "Server_loadConfig_members fs fb (srv\<lparr>portNumber := x\<rparr>) r ms = Inr (srv', r')"
      by (auto simp add: rbind_eq_Inr_iff split: if_splits)
    have "(authentication_members ms = [] \<and> authentication srv' = authentication srv \<and> r' = r) \<or>
      (authentication srv = None \<and> r' \<and> (\<exists>openId p.
         authentication_members ms = [JObj [(''@OpenID'', JObj openId)]] \<and>
         OpenId_loadConfig fs new_openid openId = Inr p \<and> authentication srv' = Some p))"
      using "2.IH"(1) [OF True] x rest by simp
    with True show ?thesis by simp
  next
    case np: False
    show ?thesis
    proof (cases "key = ''authentication''")
      case True
      with np 2(5) obtain a srv1 where a: "v = JObj a" and l: "Server_loadAuthenticationProvider fs srv a = Inr srv1"
        and rest: "Server_loadConfig_members fs fb srv1 True ms = Inr (srv', r')"
        by (auto simp add: rbind_eq_Inr_iff)
      from loadAuth_one [OF l] obtain openId p where
        s0: "authentication srv = None" and a1: "a = [(''@OpenID'', JObj openId)]" and
        p: "OpenId_loadConfig fs new_openid openId = Inr p" and s1: "srv1 = srv\<lparr>authentication := Some p\<rparr>"
        by blast
      have "authentication_members ms = [] \<and> authentication srv' = Some p \<and> r' = True"
        using "2.IH"(2) [OF np True rest] s1 by auto
      with True s0 a a1 p show ?thesis by simp
    next
      case na: False
      show ?thesis
      proof (cases "key = ''serverCertificate''")
        case True
        with np na 2(5) obtain c where c: "v = JStr c" "c \<noteq> []" "is_absolute c" "is_open fs c"
          and rest: "Server_loadConfig_members fs fb (srv\<lparr>serverCertificatePath := c\<rparr>) r ms = Inr (srv', r')"
          by (auto simp add: rbind_eq_Inr_iff split: if_splits)
        have "(authentication_members ms = [] \<and> authentication srv' = authentication srv \<and> r' = r) \<or>
          (authentication srv = None \<and> r' \<and> (\<exists>openId p.
             authentication_members ms = [JObj [(''@OpenID'', JObj openId)]] \<and>
             OpenId_loadConfig fs new_openid openId = Inr p \<and> authentication srv' = Some p))"
          using "2.IH"(3) [OF np na True] c rest by simp
        with True show ?thesis by simp
      next
        case False
        with np na 2 show ?thesis by (auto simp add: split: if_splits)
      qed
    qed
  qed
qed

text \<open>
  C17. A server configuration that loads has exactly one \<open>authentication\<close> member, holding
  exactly one \<open>@OpenID\<close> block, and the server's provider is what that block loads to:
  a second provider, in the same member or in another, and an empty member are errors.
\<close>

theorem Server_loadConfig_one_provider:
  assumes "Server_loadConfig fs fallbackHandler new_server obj = Inr srv"
  shows "\<exists>openId p. authentication_members obj = [JObj [(''@OpenID'', JObj openId)]] \<and>
     OpenId_loadConfig fs new_openid openId = Inr p \<and> authentication srv = Some p"
proof -
  obtain r where m: "Server_loadConfig_members fs fallbackHandler new_server False obj = Inr (srv, r)" and "r"
    using assms by (auto simp add: Server_loadConfig_def rbind_eq_Inr_iff split: if_splits)
  with loadConfig_members_one [OF m] show ?thesis by auto
qed

theorem Server_loadConfig_one_provider_witness:
  "authentication_members demo_server_config = [JObj [(''@OpenID'', JObj demo_openid_config)]] \<and>
   OpenId_loadConfig demo_fs new_openid demo_openid_config = Inr demo_provider"
  using Server_loadConfig_one_provider [OF demo_server_load] by (auto simp add: demo_server_config_def)

section \<open>The request path\<close>

text \<open>Every stage of \<^verbatim>\<open>checkJwt\<close> and the header loop throw only rejections of the
  form above.\<close>

lemma reject_eq_Inl_iff [simp]: "reject st c m = Inl r \<longleftrightarrow> r = Http (HttpError c m (wwwAuthernicateHeader st))"
  by (auto simp add: reject_def)


lemma checkDate_scan_Inl: "checkDate_scan cs nb ex = Inl r \<Longrightarrow> r = StdException ''std::bad_cast''"
proof (induction cs arbitrary: nb ex)
  case (Cons kv cs)
  obtain k v where "kv = (k, v)" by fastforce
  with Cons show ?case
    by (auto simp add: rbind_eq_Inl_iff claim_as_int_def split: option.splits if_splits)
qed simp


lemma decodeJwt_Inl: "decodeJwt lib st s = Inl r \<Longrightarrow> jwt_rejection st r"
  by (auto simp add: decodeJwt_def jwt_rejection_def challenge_codes_def split: option.splits)


lemma checkDate_Inl: "checkDate st now t = Inl r \<Longrightarrow> jwt_rejection st r"
  unfolding checkDate_def rbind_eq_Inl_iff
  by (auto simp add: jwt_rejection_def challenge_codes_def split: if_splits dest: checkDate_scan_Inl)


lemma checkAudience_Inl: "checkAudience st t = Inl r \<Longrightarrow> jwt_rejection st r"
  by (auto simp add: checkAudience_lookup jwt_rejection_def challenge_codes_def split: option.splits if_splits)


lemma checkIssuer_Inl: "checkIssuer st t = Inl r \<Longrightarrow> jwt_rejection st r"
  by (auto simp add: checkIssuer_lookup jwt_rejection_def challenge_codes_def split: option.splits if_splits)


lemma checkSignature_Inl: "checkSignature lib st t = Inl r \<Longrightarrow> jwt_rejection st r"
  by (auto simp add: checkSignature_def jwt_rejection_def challenge_codes_def split: option.splits sum.splits)


lemma checkClaims_Inl: "checkClaims st t = Inl r \<Longrightarrow> jwt_rejection st r"
  by (auto simp add: checkClaims_def jwt_rejection_def challenge_codes_def split: if_splits)


lemma checkJwt_Inl: "checkJwt lib now st s = Inl r \<Longrightarrow> jwt_rejection st r"
  unfolding checkJwt_def rbind_eq_Inl_iff
  by (elim disjE exE conjE; blast dest: decodeJwt_Inl checkDate_Inl checkAudience_Inl checkIssuer_Inl
      checkSignature_Inl checkClaims_Inl)


lemma find_authorization_Inl:
  \<open>find_authorization st hs acc = Inl r \<Longrightarrow> r = Http (HttpError ''400 Bad Request'' []
     (wwwAuthernicateHeader st @ '' error_code="invalid_request" error_message="Duplicate Authorization header"''))\<close>
  by (induction st hs acc rule: find_authorization.induct) (auto simp add: invalid_request_def split: if_splits)


lemma invalid_request_rejection: "invalid_request st msg = Inl r \<Longrightarrow> jwt_rejection st r"
  by (auto simp add: invalid_request_def jwt_rejection_def challenge_codes_def)


lemma checkAuthentication_Inl:
  assumes "checkAuthentication lib now st req = Inl r"
  shows "jwt_rejection st r"
proof (cases "find_authorization st (http_headers req) None")
  case (Inl e)
  with assms have "find_authorization st (http_headers req) None = Inl r"
    by (simp add: checkAuthentication_def)
  then show ?thesis
    by (auto simp add: jwt_rejection_def challenge_codes_def dest!: find_authorization_Inl)
next
  case (Inr au)
  show ?thesis
  proof (cases au)
    case None
    with assms Inr show ?thesis by (simp add: checkAuthentication_def jwt_rejection_def challenge_codes_def)
  next
    case (Some a)
    with assms Inr have
      "(if a = [] then invalid_request st ''Empty authentication field''
        else if \<not> starts_with a ''Bearer '' then invalid_request st ''Unsupported authentication method''
        else checkJwt lib now st (drop (length ''Bearer '') a)) = Inl r"
      by (simp add: checkAuthentication_def)
    then show ?thesis
      by (auto split: if_splits dest: invalid_request_rejection checkJwt_Inl)
  qed
qed


lemma handle_request_Http_code:
  "handle_request lib now a req = Inl (Http e) \<Longrightarrow> responseCode e \<in> insert ''405 Method Not Allowed'' challenge_codes"
  by (cases "checkAuthentication lib now a req")
     (auto simp add: handle_request_def jwt_rejection_def split: if_splits dest!: checkAuthentication_Inl)


lemma beginRequestHandler_sendResponse:
  "beginRequestHandler lib now srv req = Some resp \<Longrightarrow>
   \<exists>code data. code \<in> response_codes \<and> resp = sendResponse code data []"
  by (auto simp add: beginRequestHandler_def response_codes_def
      split: option.splits sum.splits request_error.splits dest: handle_request_Http_code)


lemma sendResponse_200:
  "code \<in> response_codes \<Longrightarrow> sendResponse code data [] = sendResponse ''200 OK'' d [] \<Longrightarrow> code = ''200 OK''"
  by (auto simp add: response_codes_def challenge_codes_def sendResponse_def)


lemma demo_prepare:
  "Server_prepare demo_lib demo_fs (\<lambda>_. True)
     \<lparr>portNumber = 8443, authentication = Some demo_provider, serverCertificatePath = ''/cert.pem'',
      lh_context = None\<rparr> = Inr demo_running"
  by (simp add: Server_prepare_def OpenId_initialize_def demo_provider_def tv_initialize_def Simple_initialize_def
      readFile_def create_def demo_lib_def demo_fs_def demo_running_def demo_provider_ready_def server_options_def
      show_nat.simps)

text \<open>
  C13. Every HTTP rejection of a request is either \<open>405\<close>, raised only after
  authentication passed for a method other than \<open>GET\<close>, or one of the challenge codes,
  and then its response data holds the stored \<open>WWW-Authenticate\<close> line after the
  message.
\<close>

theorem handle_request_rejections:
  "handle_request lib now a req = Inl (Http e) \<Longrightarrow>
   (responseCode e = ''405 Method Not Allowed'' \<and>
      checkAuthentication lib now a req = Inr () \<and> request_method req \<noteq> ''GET'') \<or>
   (responseCode e \<in> challenge_codes \<and>
      (\<exists>m x. responseData e = m @ '' '' @ crlf @ wwwAuthernicateHeader a @ x @ crlf))"
proof (cases "checkAuthentication lib now a req")
  case (Inl r)
  assume h: "handle_request lib now a req = Inl (Http e)"
  with Inl have "jwt_rejection a (Http e)"
    using checkAuthentication_Inl [OF Inl] by (simp add: handle_request_def)
  then obtain c m x where e: "e = HttpError c m (wwwAuthernicateHeader a @ x)" and c: "c \<in> challenge_codes"
    by (auto simp add: jwt_rejection_def)
  then have "responseData e = m @ '' '' @ crlf @ wwwAuthernicateHeader a @ x @ crlf" by simp
  with e c show ?thesis by auto
next
  case (Inr u)
  assume "handle_request lib now a req = Inl (Http e)"
  with Inr show ?thesis by (auto simp add: handle_request_def split: if_splits)
qed


theorem handle_request_rejections_witness:
  "handle_request demo_lib 1000 demo_provider_ready \<lparr>request_method = ''GET'', http_headers = []\<rparr>
     = Inl (Http (HttpError ''401 Unauthorized'' ''Authentication required'' (wwwAuthernicateHeader demo_provider_ready))) \<and>
   ''401 Unauthorized'' \<in> challenge_codes"
proof -
  have h: "handle_request demo_lib 1000 demo_provider_ready \<lparr>request_method = ''GET'', http_headers = []\<rparr>
     = Inl (Http (HttpError ''401 Unauthorized'' ''Authentication required'' (wwwAuthernicateHeader demo_provider_ready)))"
    by (simp add: handle_request_def checkAuthentication_def reject_def)
  from handle_request_rejections [OF h] h show ?thesis by simp
qed

text \<open>
  C12. Every response the handler writes is a status line with one of the known codes
  and exactly two header fields, \<open>Content-Length\<close> (the body's length) and
  \<open>Content-Type\<close>: the extra header fields are never sent, so the
  \<open>WWW-Authenticate\<close> challenge of a rejection travels in the body.
\<close>

theorem beginRequestHandler_framing:
  "beginRequestHandler lib now srv req = Some resp \<Longrightarrow>
   \<exists>code body. code \<in> response_codes \<and>
     resp = ''HTTP/1.1 '' @ code @ crlf @ ''Content-Length: '' @ show_nat (length body) @ crlf
            @ ''Content-Type: text/plain'' @ crlf @ crlf @ body"
  by (fastforce simp add: sendResponse_def dest: beginRequestHandler_sendResponse)


theorem beginRequestHandler_framing_witness:
  \<open>beginRequestHandler demo_lib 1000 demo_running \<lparr>request_method = ''GET'', http_headers = []\<rparr> =
     Some (''HTTP/1.1 401 Unauthorized'' @ crlf @ ''Content-Length: 97'' @ crlf @ ''Content-Type: text/plain'' @ crlf
           @ crlf @ ''Authentication required '' @ crlf
           @ ''WWW-Authenticate: Bearer realm="my realm" scope="openid" write read'' @ crlf @ crlf) \<and>
   ''401 Unauthorized'' \<in> response_codes\<close>
proof -
  have r: \<open>beginRequestHandler demo_lib 1000 demo_running \<lparr>request_method = ''GET'', http_headers = []\<rparr> =
     Some (''HTTP/1.1 401 Unauthorized'' @ crlf @ ''Content-Length: 97'' @ crlf @ ''Content-Type: text/plain'' @ crlf
           @ crlf @ ''Authentication required '' @ crlf
           @ ''WWW-Authenticate: Bearer realm="my realm" scope="openid" write read'' @ crlf @ crlf)\<close>
    by (simp add: beginRequestHandler_def demo_running_def handle_request_def checkAuthentication_def reject_def
        sendResponse_def demo_provider_ready_def demo_provider_def buildAuthenticationHeader_def dquote_def
        show_nat.simps crlf_def)
  from beginRequestHandler_framing [OF r] r show ?thesis
    by (simp add: response_codes_def challenge_codes_def)
qed

text \<open>
  C14. A request is answered \<open>200 OK\<close> exactly when it authenticates and its method is
  \<open>GET\<close>; no rejection can produce that response.
\<close>

theorem beginRequestHandler_ok:
  "authentication srv = Some a \<Longrightarrow>
   beginRequestHandler lib now srv req = Some (sendResponse ''200 OK'' ''Hello from Xentara!'' []) \<longleftrightarrow>
   checkAuthentication lib now a req = Inr () \<and> request_method req = ''GET''"
proof -
  assume a: "authentication srv = Some a"
  show ?thesis
  proof (cases "handle_request lib now a req")
    case (Inl r)
    then have "\<not> (checkAuthentication lib now a req = Inr () \<and> request_method req = ''GET'')"
      by (auto simp add: handle_request_def)
    moreover have "beginRequestHandler lib now srv req \<noteq> Some (sendResponse ''200 OK'' ''Hello from Xentara!'' [])"
    proof (cases r)
      case (Http e)
      with Inl have c: "responseCode e \<in> insert ''405 Method Not Allowed'' challenge_codes"
        by (intro handle_request_Http_code) simp
      then have "responseCode e \<in> response_codes" "responseCode e \<noteq> ''200 OK''"
        by (auto simp add: response_codes_def challenge_codes_def)
      with Inl Http a show ?thesis
        by (auto simp add: beginRequestHandler_def dest: sendResponse_200)
    next
      case (StdException w)
      with Inl a show ?thesis by (simp add: beginRequestHandler_def sendResponse_def)
    qed
    ultimately show ?thesis by blast
  next
    case (Inr u)
    with a show ?thesis
      by (auto simp add: beginRequestHandler_def handle_request_def rbind_eq_Inr_iff split: if_splits)
  qed
qed

text \<open>
  C23. The \<open>listening_ports\<close> option passed to libhttp is the port in decimal, one to
  five digits that read back as the configured 16-bit port, followed by \<open>s\<close> (TLS).
\<close>

theorem listening_ports_roundtrip:
  "\<exists>digits. server_options srv = [(''listening_ports'', digits @ ''s''), (''ssl_certificate'', serverCertificatePath srv)] \<and>
     list_all is_digit digits \<and> 1 \<le> length digits \<and> length digits \<le> 5 \<and>
     read_nat digits = unat (portNumber srv)"
proof -
  have "unat (portNumber srv) < 10 ^ 5"
    using unsigned_less [of "portNumber srv", where ?'a = nat] by simp
  with show_nat_props [of "unat (portNumber srv)" 5] show ?thesis
    by (auto simp add: server_options_def Suc_le_eq)
qed

end
