(* ===== verification/Lifecycle.thy ===== *)
theory Lifecycle
  imports Server
begin

text \<open>
  The life cycle of the \<^verbatim>\<open>Server\<close> microservice as the Xentara host drives it
  (\<^verbatim>\<open>process::Microservice\<close>): \<^verbatim>\<open>loadConfig\<close> once, then \<^verbatim>\<open>prepare\<close>, then
  any number of requests handled by libhttp's worker threads through
  \<^verbatim>\<open>beginRequestHandler\<close>, then \<^verbatim>\<open>cleanup\<close>. \<open>server_step\<close> is one call of the
  host with its effect on the phase and the server's members; a request does not change
  the server (the handler only reads it). \<open>server_reach\<close> is the set of states a run
  can reach, and \<open>server_inv\<close> its invariant, proved by rule induction.
\<close>

text \<open>The phases the host moves the microservice through, and the calls it makes.\<close>

datatype phase = Constructed | Configured | Running | Stopped

datatype event =
    LoadConfig "(string \<times> json) list"
  | Prepare
  | Request int64 request string
  | Cleanup

inductive server_step ::
  "jwt_lib \<Rightarrow> filesystem \<Rightarrow> (string \<Rightarrow> json \<Rightarrow> bool) \<Rightarrow> ((string \<times> string) list \<Rightarrow> bool)
     \<Rightarrow> phase \<times> server \<Rightarrow> event \<Rightarrow> phase \<times> server \<Rightarrow> bool"
  for lib fs fallbackHandler httplib_start where
  load: "Server_loadConfig fs fallbackHandler srv obj = Inr srv' \<Longrightarrow>
    server_step lib fs fallbackHandler httplib_start (Constructed, srv) (LoadConfig obj) (Configured, srv')"
| prepare: "Server_prepare lib fs httplib_start srv = Inr srv' \<Longrightarrow>
    server_step lib fs fallbackHandler httplib_start (Configured, srv) Prepare (Running, srv')"
| request: "beginRequestHandler lib now srv req = Some resp \<Longrightarrow>
    server_step lib fs fallbackHandler httplib_start (Running, srv) (Request now req resp) (Running, srv)"
| cleanup: "server_step lib fs fallbackHandler httplib_start (Running, srv) Cleanup (Stopped, Server_cleanup srv)"

inductive server_reach ::
  "jwt_lib \<Rightarrow> filesystem \<Rightarrow> (string \<Rightarrow> json \<Rightarrow> bool) \<Rightarrow> ((string \<times> string) list \<Rightarrow> bool)
     \<Rightarrow> phase \<times> server \<Rightarrow> bool"
  for lib fs fallbackHandler httplib_start where
  init: "server_reach lib fs fallbackHandler httplib_start (Constructed, new_server)"
| step: "server_reach lib fs fallbackHandler httplib_start s \<Longrightarrow>
    server_step lib fs fallbackHandler httplib_start s e s' \<Longrightarrow>
    server_reach lib fs fallbackHandler httplib_start s'"


definition server_ready :: "server \<Rightarrow> bool" where
  "server_ready srv \<longleftrightarrow>
     (case authentication srv of None \<Rightarrow> False
      | Some a \<Rightarrow> (case verification a of None \<Rightarrow> False | Some tv \<Rightarrow> tv_ready tv))"

fun server_inv :: "filesystem \<Rightarrow> phase \<times> server \<Rightarrow> bool" where
  "server_inv fs (Constructed, srv) \<longleftrightarrow> srv = new_server"
| "server_inv fs (Configured, srv) \<longleftrightarrow> server_configured fs srv \<and> lh_context srv = None"
| "server_inv fs (Running, srv) \<longleftrightarrow>
     server_configured fs srv \<and> server_ready srv \<and> lh_context srv = Some (server_options srv)"
| "server_inv fs (Stopped, srv) \<longleftrightarrow> server_configured fs srv \<and> server_ready srv \<and> lh_context srv = None"


inductive_cases server_step_RequestE: "server_step lib fs fb st s (Request now req resp) s'"

lemma Server_prepare_Inr:
  "Server_prepare lib fs start srv = Inr srv' \<Longrightarrow> server_configured fs srv \<Longrightarrow>
   server_configured fs srv' \<and> server_ready srv' \<and> lh_context srv' = Some (server_options srv')"
  by (auto simp add: Server_prepare_def rbind_eq_Inr_iff server_configured_def server_ready_def
      server_options_def buildAuthenticationHeader_def wf_openid_def config_ok_def
      split: option.splits if_splits dest!: OpenId_initialize_Inr)

theorem server_reach_inv:
  "server_reach lib fs fallbackHandler httplib_start s \<Longrightarrow> server_inv fs s"
proof (induction rule: server_reach.induct)
  case init
  then show ?case by simp
next
  case (step s e s')
  from step.hyps(2) step.IH show ?case
  proof (cases rule: server_step.cases)
    case (load srv obj srv')
    with step.IH have "Server_loadConfig fs fallbackHandler new_server obj = Inr srv'" by simp
    from Server_loadConfig_Inr [OF this new_server_ok] load show ?thesis by (simp add: new_server_def)
  next
    case (prepare srv srv')
    with step.IH show ?thesis by (auto dest: Server_prepare_Inr)
  next
    case (request now srv req resp)
    with step.IH show ?thesis by simp
  next
    case (cleanup srv)
    with step.IH show ?thesis
      by (simp add: Server_cleanup_def server_configured_def server_ready_def)
  qed
qed

text \<open>The history of a reachable state: a configured server is what
  \<^verbatim>\<open>loadConfig\<close> made of a fresh one, a running server is what \<^verbatim>\<open>prepare\<close> made
  of that; a load or a start that throws leads nowhere.\<close>

lemma server_reach_history:
  "server_reach lib fs fb hs s \<Longrightarrow>
   (case s of
      (Constructed, srv) \<Rightarrow> srv = new_server
    | (Configured, srv) \<Rightarrow> (\<exists>obj. Server_loadConfig fs fb new_server obj = Inr srv)
    | (Running, srv) \<Rightarrow> (\<exists>obj srv0. Server_loadConfig fs fb new_server obj = Inr srv0 \<and>
                           Server_prepare lib fs hs srv0 = Inr srv)
    | (Stopped, srv) \<Rightarrow> (\<exists>obj srv0 srv1. Server_loadConfig fs fb new_server obj = Inr srv0 \<and>
                           Server_prepare lib fs hs srv0 = Inr srv1 \<and> srv = Server_cleanup srv1))"
proof (induction rule: server_reach.induct)
  case init
  then show ?case by simp
next
  case (step s e s')
  from step.hyps(2) step.IH show ?case
    by (cases rule: server_step.cases) auto
qed

text \<open>
  In every state a run reaches after \<^verbatim>\<open>prepare\<close>, the server has a well-formed
  provider whose verification is ready, and every request is answered: the handler never
  dereferences a missing provider or uses an uninitialised verifier.
\<close>

theorem running_server_answers:
  "server_reach lib fs fallbackHandler httplib_start (Running, srv) \<Longrightarrow>
   (\<exists>resp. beginRequestHandler lib now srv req = Some resp) \<and>
   (\<exists>a tv. authentication srv = Some a \<and> wf_openid a \<and> verification a = Some tv \<and> tv_ready tv)"
  by (drule server_reach_inv)
     (auto simp add: server_configured_def server_ready_def beginRequestHandler_def split: option.splits)

lemma demo_reach_running:
  "server_reach demo_lib demo_fs (\<lambda>_ _. False) (\<lambda>_. True) (Running, demo_running)"
proof -
  have "server_reach demo_lib demo_fs (\<lambda>_ _. False) (\<lambda>_. True)
     (Configured, \<lparr>portNumber = 8443, authentication = Some demo_provider, serverCertificatePath = ''/cert.pem'',
                   lh_context = None\<rparr>)"
    by (rule server_reach.step [OF server_reach.init server_step.load [OF demo_server_load]])
  then show ?thesis
    by (rule server_reach.step [OF _ server_step.prepare [OF demo_prepare]])
qed

theorem running_server_answers_witness:
  "server_reach demo_lib demo_fs (\<lambda>_ _. False) (\<lambda>_. True) (Running, demo_running) \<and>
   (\<exists>resp. beginRequestHandler demo_lib 1000 demo_running \<lparr>request_method = ''GET'', http_headers = []\<rparr> = Some resp)"
  using running_server_answers [OF demo_reach_running, of 1000 "\<lparr>request_method = ''GET'', http_headers = []\<rparr>"]
    demo_reach_running by simp

text \<open>
  C22. Progress: when the configuration loads, the provider's key material initialises
  and libhttp starts with the server's options, the run reaches the running phase with
  the initialised provider and its challenge header built.
\<close>

theorem server_starts:
  assumes "Server_loadConfig fs fallbackHandler new_server obj = Inr srv"
    and "authentication srv = Some a" "verification a = Some tv" "tv_initialize lib fs tv = Inr tv'"
    and "httplib_start (server_options srv)"
  shows "server_reach lib fs fallbackHandler httplib_start
           (Running, srv\<lparr>authentication := Some (buildAuthenticationHeader (a\<lparr>verification := Some tv'\<rparr>)),
                         lh_context := Some (server_options srv)\<rparr>)"
proof -
  have "Server_prepare lib fs httplib_start srv =
          Inr (srv\<lparr>authentication := Some (buildAuthenticationHeader (a\<lparr>verification := Some tv'\<rparr>)),
                   lh_context := Some (server_options srv)\<rparr>)"
    using assms(2-5) by (simp add: Server_prepare_def OpenId_initialize_def)
  with assms(1) show ?thesis
    by (blast intro: server_reach.step [OF server_reach.step [OF server_reach.init]] server_step.load
        server_step.prepare)
qed

theorem server_starts_witness:
  "server_reach demo_lib demo_fs (\<lambda>_ _. False) (\<lambda>_. True) (Running, demo_running)"
proof -
  have "server_reach demo_lib demo_fs (\<lambda>_ _. False) (\<lambda>_. True)
     (Running, \<lparr>portNumber = 8443, authentication = Some demo_provider, serverCertificatePath = ''/cert.pem'',
                lh_context = None\<rparr>\<lparr>authentication := Some (buildAuthenticationHeader (demo_provider\<lparr>verification :=
                  Some (Simple \<lparr>keyFile = ''/k'', verifierFactory = hs256,
                    verifier = Some \<lparr>allowed_algorithm = hs256, verifier_key = ''k''\<rparr>\<rparr>)\<rparr>)),
                lh_context := Some (server_options \<lparr>portNumber = 8443, authentication = Some demo_provider,
                  serverCertificatePath = ''/cert.pem'', lh_context = None\<rparr>)\<rparr>)"
  proof (rule server_starts [OF demo_server_load])
    show "tv_initialize demo_lib demo_fs (Simple \<lparr>keyFile = ''/k'', verifierFactory = hs256, verifier = None\<rparr>) =
      Inr (Simple \<lparr>keyFile = ''/k'', verifierFactory = hs256,
                    verifier = Some \<lparr>allowed_algorithm = hs256, verifier_key = ''k''\<rparr>\<rparr>)"
      by (simp add: tv_initialize_def Simple_initialize_def readFile_def create_def demo_lib_def demo_fs_def)
  qed (simp_all add: demo_provider_def)
  then show ?thesis
    by (simp add: demo_running_def demo_provider_ready_def server_options_def show_nat.simps)
qed

end
