(* ===== verification/Registration.thy ===== *)
theory Registration
  imports Lifecycle
begin

text \<open>
  How the plugin makes the server known to the Xentara host (\<^verbatim>\<open>src/src/Plugin.hpp\<close>,
  \<^verbatim>\<open>src/src/ServiceProvider.hpp\<close>, \<^verbatim>\<open>src/src/ServiceProvider.cpp\<close>, and the class
  object \<^verbatim>\<open>Server::Class\<close> of \<^verbatim>\<open>src/src/Server.hpp\<close>). The plugin registers its
  service provider; the service provider registers the microservice classes it offers
  and creates the runtime environment, whose \<^verbatim>\<open>createMicroservice\<close> builds an element
  for a class of the model file. Classes are compared by identity in the source
  (\<^verbatim>\<open>&microserviceClass == &Server::Class::instance()\<close>): the singleton is the
  constructor \<open>ServerClass\<close>, any other class object is \<open>ForeignClass\<close> with its name
  and UUID.
\<close>

datatype microservice_class = ServerClass | ForeignClass string string

text \<open>\<^verbatim>\<open>MicroserviceClass::name()\<close> and \<^verbatim>\<open>uuid()\<close>; for \<^verbatim>\<open>Server::Class\<close> the
  name in the model file and its fixed UUID.\<close>

fun class_name :: "microservice_class \<Rightarrow> string" where
  "class_name ServerClass = ''Server''"
| "class_name (ForeignClass n u) = n"

fun class_uuid :: "microservice_class \<Rightarrow> string" where
  "class_uuid ServerClass = ''1990b329-a079-43bb-98d4-a28db23a5e2b''"
| "class_uuid (ForeignClass n u) = u"

text \<open>The service provider's name, UUID and the classes its \<^verbatim>\<open>registerObjects\<close>
  puts into the registry.\<close>

record service_provider =
  provider_name :: string
  provider_uuid :: string
  provider_classes :: "microservice_class list"

definition ServiceProvider :: service_provider where
  "ServiceProvider =
     \<lparr>provider_name = ''SimpleWebService'', provider_uuid = ''62f9e307-1e4b-4034-a17a-7986172c74b2'',
      provider_classes = [ServerClass]\<rparr>"

text \<open>\<^verbatim>\<open>Plugin::registerObjects\<close>: the one service provider.\<close>

definition Plugin_registerObjects :: "service_provider list" where
  "Plugin_registerObjects = [ServiceProvider]"

text \<open>\<^verbatim>\<open>ServiceProvider::Environment::createMicroservice\<close>: a fresh \<^verbatim>\<open>Server\<close> for
  the server class, otherwise \<^verbatim>\<open>std::runtime_error\<close> naming the class.\<close>

definition createMicroservice :: "microservice_class \<Rightarrow> (config_error, server) result" where
  \<open>createMicroservice microserviceClass =
     (if microserviceClass = ServerClass then Inr new_server
      else Inl (RuntimeError (''WebServer does not support microservices of type "''
                              @ class_name microserviceClass @ ''"'')))\<close>

section \<open>Registration and creation agree\<close>

text \<open>
  Every class that a service provider of the plugin registers can be created by the
  environment, and the element created is the start state of the server's life cycle;
  a class of another plugin is refused with an error naming it.
\<close>

theorem registered_classes_create:
  "list_all (\<lambda>p. list_all (\<lambda>cls. createMicroservice cls = Inr new_server) (provider_classes p))
     Plugin_registerObjects \<and>
   server_reach lib fs fallbackHandler httplib_start (Constructed, new_server) \<and>
   createMicroservice (ForeignClass n u) =
     Inl (RuntimeError (''WebServer does not support microservices of type '' @ [dquote] @ n @ [dquote]))"
  by (simp add: Plugin_registerObjects_def ServiceProvider_def createMicroservice_def dquote_def
      server_reach.init)

end
