(* ===== verification/Outcome.thy ===== *)
theory Outcome
  imports Server
begin

text \<open>
  The failure taxonomy of the specification (section 4.3 and 7 of \<^verbatim>\<open>spec.md\<close>) as an
  abstract model of a request, and the abstraction of the bytes the server writes onto
  it. \<open>spec_outcome\<close> is the specification's pipeline written as one function over
  the request: extract the one bearer token, decode it, the temporal check on signed
  integers, audience, issuer, signature, claims, then the method. The abstraction
  \<open>outcome_of_response\<close> reads the class of the status line that
  \<^verbatim>\<open>beginRequestHandler\<close> writes; the refinement theorem says the two agree.
\<close>

section \<open>Outcomes\<close>

datatype outcome = Accept | BadRequest | Unauthorized | Forbidden | MethodNotAllowed | InternalError

text \<open>The class of a three-digit status code; every code the specification does not name is
  the generic server error.\<close>

definition status_class :: "string \<Rightarrow> outcome" where
  "status_class c =
     (if c = ''200'' then Accept else if c = ''400'' then BadRequest else if c = ''401'' then Unauthorized
      else if c = ''403'' then Forbidden else if c = ''405'' then MethodNotAllowed else InternalError)"

definition outcome_of_response :: "string \<Rightarrow> outcome" where
  "outcome_of_response r = status_class (take 3 (drop (length ''HTTP/1.1 '') r))"

fun outcome_of_error :: "request_error \<Rightarrow> outcome" where
  "outcome_of_error (Http e) = status_class (take 3 (responseCode e))"
| "outcome_of_error (StdException w) = InternalError"

definition outcome_of_result :: "(request_error, unit) result \<Rightarrow> outcome" where
  "outcome_of_result r = (case r of Inl e \<Rightarrow> outcome_of_error e | Inr _ \<Rightarrow> Accept)"

section \<open>The specification's pipeline\<close>

text \<open>A date claim as the specification reads it: absent (\<open>None\<close>), not an integer
  (\<open>Some None\<close>), or a signed number of seconds.\<close>

definition date_claim :: "jwt_token \<Rightarrow> string \<Rightarrow> int option option" where
  "date_claim t c = map_option (\<lambda>v. map_option sint (as_int v)) (get_payload_claim t c)"

text \<open>Steps 3 to 7 on a decoded token. A date claim that is not an integer is an
  unclassified exception, the generic server error of section 7.\<close>

definition spec_temporal :: "int64 \<Rightarrow> jwt_token \<Rightarrow> outcome option" where
  "spec_temporal now t =
     (if date_claim t ''nbf'' = Some None \<or> date_claim t ''exp'' = Some None then Some InternalError
      else if (case date_claim t ''nbf'' of Some (Some nb) \<Rightarrow> sint now < nb | _ \<Rightarrow> False) then Some Unauthorized
      else if (case date_claim t ''exp'' of Some (Some ex) \<Rightarrow> ex < sint now | _ \<Rightarrow> False) then Some Unauthorized
      else None)"

definition spec_checks :: "jwt_lib \<Rightarrow> openid \<Rightarrow> jwt_token \<Rightarrow> outcome" where
  "spec_checks lib st t =
     (case get_payload_claim t ''aud'' of
        None \<Rightarrow> BadRequest
      | Some v \<Rightarrow>
          if to_str v \<noteq> audience st then Forbidden
          else if (case get_payload_claim t ''iss'' of None \<Rightarrow> True | Some w \<Rightarrow> to_str w \<noteq> issuer st) then Forbidden
          else if (case verification st of None \<Rightarrow> True | Some tv \<Rightarrow> isl (tv_verify lib tv t)) then Unauthorized
          else if \<not> claims_accept (claims st) t then Forbidden
          else Accept)"

definition spec_token_outcome :: "jwt_lib \<Rightarrow> int64 \<Rightarrow> openid \<Rightarrow> jwt_token \<Rightarrow> outcome" where
  "spec_token_outcome lib now st t = (case spec_temporal now t of Some r \<Rightarrow> r | None \<Rightarrow> spec_checks lib st t)"

text \<open>The whole pipeline: step 1 on the \<open>Authorization\<close> headers, step 2, the token
  steps; then the request as the resource handler sees it, whose method check follows an
  accepted token.\<close>

definition spec_authentication :: "jwt_lib \<Rightarrow> int64 \<Rightarrow> openid \<Rightarrow> request \<Rightarrow> outcome" where
  "spec_authentication lib now st req =
     (case authorization_values (http_headers req) of
        [] \<Rightarrow> Unauthorized
      | [a] \<Rightarrow>
          if a = [] then BadRequest
          else if \<not> starts_with a ''Bearer '' then BadRequest
          else (case decode lib (drop (length ''Bearer '') a) of
                  None \<Rightarrow> BadRequest
                | Some t \<Rightarrow> spec_token_outcome lib now st t)
      | _ \<Rightarrow> BadRequest)"

definition spec_outcome :: "jwt_lib \<Rightarrow> int64 \<Rightarrow> openid \<Rightarrow> request \<Rightarrow> outcome" where
  "spec_outcome lib now st req =
     (case spec_authentication lib now st req of
        Accept \<Rightarrow> if request_method req = ''GET'' then Accept else MethodNotAllowed
      | r \<Rightarrow> r)"

text \<open>The dates of a token are non-negative (after 1970), and a library that decodes only
  such tokens: the range on which the code's unsigned comparison is the specification's
  signed one.\<close>

definition dates_nonneg :: "jwt_token \<Rightarrow> bool" where
  "dates_nonneg t \<longleftrightarrow>
     (case date_claim t ''nbf'' of Some (Some n) \<Rightarrow> 0 \<le> n | _ \<Rightarrow> True) \<and>
     (case date_claim t ''exp'' of Some (Some n) \<Rightarrow> 0 \<le> n | _ \<Rightarrow> True)"

definition lib_dates_nonneg :: "jwt_lib \<Rightarrow> bool" where
  "lib_dates_nonneg lib \<longleftrightarrow> (\<forall>s t. decode lib s = Some t \<longrightarrow> dates_nonneg t)"

section \<open>The code's stages read as outcomes\<close>

lemma outcome_of_reject [simp]: "outcome_of_result (reject st c m) = status_class (take 3 c)"
  by (simp add: outcome_of_result_def reject_def)

lemma rbind_reject [simp]: "rbind (reject st c m) f = reject st c m"
  by (simp add: reject_def)

lemma rbind_invalid_request [simp]: "rbind (invalid_request st m) f = invalid_request st m"
  by (simp add: invalid_request_def)

lemma outcome_of_invalid_request [simp]: "outcome_of_result (invalid_request st m) = BadRequest"
  by (simp add: outcome_of_result_def invalid_request_def status_class_def)

lemma outcome_of_rbind:
  "outcome_of_result (rbind m f) = (case m of Inl e \<Rightarrow> outcome_of_error e | Inr x \<Rightarrow> outcome_of_result (f x))"
  by (cases m) (simp_all add: outcome_of_result_def)

lemma sendResponse_outcome:
  "3 \<le> length c \<Longrightarrow> outcome_of_response (sendResponse c d x) = status_class (take 3 c)"
  by (simp add: outcome_of_response_def sendResponse_def)

lemma checkDate_outcome:
  assumes "wf_token t" "dates_nonneg t" "0 \<le> sint now"
  shows "outcome_of_result (rbind (checkDate st now t) f) =
     (case spec_temporal now t of Some r \<Rightarrow> r | None \<Rightarrow> outcome_of_result (f ()))"
  using assms
  by (auto simp add: checkDate_lookup date_claim_def dates_nonneg_def lookup_int_def claim_as_int_def
      word64_less_nonneg spec_temporal_def outcome_of_rbind status_class_def reject_def split: option.splits)

lemma checkSignature_outcome:
  "checkSignature lib st t =
     (if (case verification st of None \<Rightarrow> True | Some tv \<Rightarrow> isl (tv_verify lib tv t)) then
        reject st ''401 invalid token'' ''Jwt verification failed''
      else Inr ())"
  by (auto simp add: checkSignature_def split: option.splits sum.splits)

lemma checkClaims_outcome:
  "checkClaims st t = (if claims_accept (claims st) t then Inr () else reject st ''403 invalid scope'' ''access denied'')"
  using checkClaims_eq_Inr_iff [of st t] by (auto simp add: checkClaims_def)

lemma checks_outcome:
  "outcome_of_result (rbind (checkAudience st t) (\<lambda>_. rbind (checkIssuer st t) (\<lambda>_.
     rbind (checkSignature lib st t) (\<lambda>_. checkClaims st t)))) = spec_checks lib st t"
proof (cases "get_payload_claim t ''aud''")
  case None
  then show ?thesis
    by (simp add: checkAudience_lookup outcome_of_rbind spec_checks_def reject_def status_class_def outcome_of_result_def)
next
  case (Some v)
  then show ?thesis
    by (simp add: checkAudience_lookup checkIssuer_lookup checkSignature_outcome checkClaims_outcome
        outcome_of_rbind spec_checks_def reject_def status_class_def outcome_of_result_def split: option.splits)
qed

lemma checkJwt_outcome:
  assumes "decode lib s = Some t" "wf_token t" "dates_nonneg t" "0 \<le> sint now"
  shows "outcome_of_result (checkJwt lib now st s) = spec_token_outcome lib now st t"
  using assms
  by (simp add: checkJwt_def decodeJwt_def checkDate_outcome checks_outcome spec_token_outcome_def
      split: option.split)

lemma jwt_rejection_not_Accept: "jwt_rejection st e \<Longrightarrow> outcome_of_error e \<noteq> Accept"
  by (auto simp add: jwt_rejection_def challenge_codes_def status_class_def)

lemma checkAuthentication_outcome:
  assumes "wf_lib lib" "lib_dates_nonneg lib" "0 \<le> sint now"
  shows "outcome_of_result (checkAuthentication lib now st req) = spec_authentication lib now st req"
proof (cases "authorization_values (http_headers req)" rule: remdups_adj.cases)
  case 1
  then show ?thesis
    by (simp add: checkAuthentication_def find_authorization_values spec_authentication_def status_class_def)
next
  case (2 a)
  show ?thesis
  proof (cases "decode lib (drop (length ''Bearer '') a)")
    case None
    with 2 show ?thesis
      by (simp add: checkAuthentication_def find_authorization_values spec_authentication_def checkJwt_def
          decodeJwt_def status_class_def)
  next
    case (Some t)
    have "outcome_of_result (checkJwt lib now st (drop (length ''Bearer '') a)) = spec_token_outcome lib now st t"
      using Some assms by (simp add: checkJwt_outcome wf_lib_decode lib_dates_nonneg_def)
    with 2 Some show ?thesis
      by (simp add: checkAuthentication_def find_authorization_values spec_authentication_def)
  qed
next
  case (3 a b xs)
  then show ?thesis
    by (simp add: checkAuthentication_def find_authorization_values spec_authentication_def)
qed

lemma handle_request_outcome:
  assumes "wf_lib lib" "lib_dates_nonneg lib" "0 \<le> sint now"
  shows "outcome_of_result (handle_request lib now st req) = spec_outcome lib now st req"
proof (cases "checkAuthentication lib now st req")
  case (Inl e)
  have "outcome_of_error e \<noteq> Accept"
    using checkAuthentication_Inl [OF Inl] by (rule jwt_rejection_not_Accept)
  moreover have "outcome_of_error e = spec_authentication lib now st req"
    using checkAuthentication_outcome [OF assms, of st req] Inl by (simp add: outcome_of_result_def)
  ultimately show ?thesis
    using Inl by (simp add: handle_request_def spec_outcome_def outcome_of_result_def split: outcome.split)
next
  case (Inr u)
  then have "spec_authentication lib now st req = Accept"
    using checkAuthentication_outcome [OF assms, of st req] by (simp add: outcome_of_result_def)
  with Inr show ?thesis
    by (simp add: handle_request_def spec_outcome_def outcome_of_result_def status_class_def)
qed

lemma beginRequestHandler_outcome:
  assumes "authentication srv = Some st"
  shows "map_option outcome_of_response (beginRequestHandler lib now srv req) =
     Some (outcome_of_result (handle_request lib now st req))"
proof (cases "handle_request lib now st req")
  case (Inl r)
  show ?thesis
  proof (cases r)
    case (Http e)
    have "3 \<le> length (responseCode e)"
      using handle_request_Http_code [of lib now st req e] Inl Http by (auto simp add: challenge_codes_def)
    with assms Inl Http show ?thesis
      by (simp add: beginRequestHandler_def sendResponse_outcome outcome_of_result_def)
  next
    case (StdException w)
    with assms Inl show ?thesis
      by (simp add: beginRequestHandler_def sendResponse_outcome outcome_of_result_def status_class_def)
  qed
next
  case (Inr u)
  with assms show ?thesis
    by (simp add: beginRequestHandler_def sendResponse_outcome outcome_of_result_def status_class_def)
qed

section \<open>Refinement\<close>

text \<open>
  C8. The request handler refines the specification's failure taxonomy: for a library whose
  decoder produces claim maps with dates after 1970 and a clock after 1970, the class of the
  status line that \<^verbatim>\<open>beginRequestHandler\<close> writes (accepted, 400, 401, 403, 405, or the
  generic server error) is the outcome of the specification's pipeline on the same request,
  with the checks in the specification's order and the method checked after an accepted
  token.
\<close>

theorem beginRequestHandler_refines_spec:
  assumes "wf_lib lib" "lib_dates_nonneg lib" "0 \<le> sint now" "authentication srv = Some st"
  shows "map_option outcome_of_response (beginRequestHandler lib now srv req) = Some (spec_outcome lib now st req)"
  using beginRequestHandler_outcome [OF assms(4), of lib now req] handle_request_outcome [OF assms(1-3), of st req]
  by simp

end
