(* ===== verification/AuthProvider.thy ===== *)
theory AuthProvider
  imports Server
begin

text \<open>
  The interface \<^verbatim>\<open>AbstractAuthenticationProvider\<close>
  (\<^verbatim>\<open>src/src/AbstractAuthenticationProvider.hpp\<close>) as a record of its three pure virtual
  methods over the provider's state type \<open>'s\<close>, the contract the server relies on when
  it calls them through the base-class pointer, and \<^verbatim>\<open>OpenIdAuthenticationProvider\<close>
  (\<^verbatim>\<open>src/src/OpenIdAuthenticationProvider.hpp\<close>) as an implementation of it. The server's
  request handler is stated once over the interface; the lemmas about it hold for every
  provider that meets the contract.
\<close>

section \<open>The interface\<close>

text \<open>\<^verbatim>\<open>loadConfig(jsonObject)\<close>, \<^verbatim>\<open>initialize()\<close> and
  \<^verbatim>\<open>checkAuthentication(request)\<close>; the last is given the clock reading, which the
  implementation reads inside.\<close>

record 's authentication_provider =
  ap_loadConfig :: "(string \<times> json) list \<Rightarrow> 's \<Rightarrow> (config_error, 's) result"
  ap_initialize :: "'s \<Rightarrow> (config_error, 's) result"
  ap_checkAuthentication :: "int64 \<Rightarrow> request \<Rightarrow> 's \<Rightarrow> (request_error, unit) result"

text \<open>
  The contract, for a freshly constructed state \<open>s0\<close>, a predicate \<open>loaded\<close> on
  configured states, a predicate \<open>ready\<close> on initialised ones and the challenge header a
  state answers with: loading a fresh provider gives a loaded one, initialising a loaded
  one gives a ready one, and every HTTP rejection of a ready provider carries one of the
  challenge codes and starts its extra header fields with the challenge.
\<close>

definition provider_contract ::
  "'s \<Rightarrow> ('s \<Rightarrow> bool) \<Rightarrow> ('s \<Rightarrow> bool) \<Rightarrow> ('s \<Rightarrow> string) \<Rightarrow> 's authentication_provider \<Rightarrow> bool" where
  "provider_contract s0 loaded ready challenge P \<longleftrightarrow>
     (\<forall>obj s. ap_loadConfig P obj s0 = Inr s \<longrightarrow> loaded s) \<and>
     (\<forall>s s'. loaded s \<longrightarrow> ap_initialize P s = Inr s' \<longrightarrow> ready s') \<and>
     (\<forall>now req s e. ready s \<longrightarrow> ap_checkAuthentication P now req s = Inl (Http e) \<longrightarrow>
        responseCode e \<in> challenge_codes \<and> starts_with (extraHeaderFiels e) (challenge s))"

text \<open>The server's side: \<^verbatim>\<open>loadConfig\<close> of a fresh provider followed by
  \<^verbatim>\<open>initialize\<close> in \<^verbatim>\<open>prepare\<close>, and the \<^verbatim>\<open>try\<close> block of
  \<^verbatim>\<open>beginRequestHandler\<close> through the base-class pointer.\<close>

definition ap_start :: "'s authentication_provider \<Rightarrow> 's \<Rightarrow> (string \<times> json) list \<Rightarrow> (config_error, 's) result" where
  "ap_start P s0 obj = rbind (ap_loadConfig P obj s0) (ap_initialize P)"

definition handle_request_ap ::
  "'s authentication_provider \<Rightarrow> int64 \<Rightarrow> 's \<Rightarrow> request \<Rightarrow> (request_error, unit) result" where
  \<open>handle_request_ap P now a request =
     rbind (ap_checkAuthentication P now request a) (\<lambda>_.
       if request_method request \<noteq> ''GET'' then
         Inl (Http (HttpError ''405 Method Not Allowed'' ''only "GET" method is accepted'' []))
       else Inr ())\<close>

section \<open>The OpenID implementation\<close>

text \<open>The overrides of \<^verbatim>\<open>OpenIdAuthenticationProvider\<close>, for a library and a file
  system.\<close>

definition OpenIdAuthenticationProvider :: "jwt_lib \<Rightarrow> filesystem \<Rightarrow> openid authentication_provider" where
  "OpenIdAuthenticationProvider lib fs =
     \<lparr>ap_loadConfig = (\<lambda>jsonObject st. OpenId_loadConfig fs st jsonObject),
      ap_initialize = OpenId_initialize lib fs,
      ap_checkAuthentication = (\<lambda>now request st. checkAuthentication lib now st request)\<rparr>"

text \<open>An initialised provider: loaded, its verification holding its key material, and its
  challenge header the one \<^verbatim>\<open>buildAuthenticationHeader\<close> makes of its realm and
  scopes.\<close>

definition openid_ready :: "openid \<Rightarrow> bool" where
  "openid_ready st \<longleftrightarrow>
     wf_openid st \<and> (case verification st of None \<Rightarrow> False | Some tv \<Rightarrow> tv_ready tv) \<and>
     buildAuthenticationHeader st = st"

section \<open>Clients of the interface\<close>

lemma ap_start_ready:
  assumes "provider_contract s0 loaded ready challenge P" "ap_start P s0 obj = Inr s"
  shows "ready s"
  using assms by (auto simp add: provider_contract_def ap_start_def rbind_eq_Inr_iff)

lemma handle_request_ap_Http:
  assumes "provider_contract s0 loaded ready challenge P" "ready s"
    and "handle_request_ap P now s req = Inl (Http e)"
  shows "responseCode e = ''405 Method Not Allowed'' \<or>
     (responseCode e \<in> challenge_codes \<and> starts_with (extraHeaderFiels e) (challenge s))"
  using assms
  by (auto simp add: provider_contract_def handle_request_ap_def rbind_eq_Inl_iff split: if_splits)

section \<open>The implementation discharges the contract\<close>

lemma OpenId_initialize_ready: "wf_openid st \<Longrightarrow> OpenId_initialize lib fs st = Inr st' \<Longrightarrow> openid_ready st'"
  by (auto simp add: openid_ready_def wf_openid_def config_ok_def buildAuthenticationHeader_def
      dest!: OpenId_initialize_Inr)

lemma checkAuthentication_Http:
  "checkAuthentication lib now st req = Inl (Http e) \<Longrightarrow>
   responseCode e \<in> challenge_codes \<and> starts_with (extraHeaderFiels e) (wwwAuthernicateHeader st)"
  by (auto simp add: jwt_rejection_def dest!: checkAuthentication_Inl)

lemma handle_request_dispatch:
  "handle_request lib now a req = handle_request_ap (OpenIdAuthenticationProvider lib fs) now a req"
  by (simp add: handle_request_def handle_request_ap_def OpenIdAuthenticationProvider_def)

text \<open>
  \<^verbatim>\<open>OpenIdAuthenticationProvider\<close> implements \<^verbatim>\<open>AbstractAuthenticationProvider\<close>
  with its contract, for every library and file system: a fresh provider loads into a
  well-formed one, initialising that gives a provider whose verification holds its key and
  whose challenge is built from its configuration, and every HTTP rejection carries a
  challenge code and starts its extra header fields with the stored challenge. The server's
  request handler is the interface's handler on this implementation.
\<close>

theorem OpenId_provider_contract:
  "provider_contract new_openid wf_openid openid_ready wwwAuthernicateHeader (OpenIdAuthenticationProvider lib fs) \<and>
   handle_request lib now a req = handle_request_ap (OpenIdAuthenticationProvider lib fs) now a req"
  using handle_request_dispatch [of lib now a req fs]
  by (auto simp add: provider_contract_def OpenIdAuthenticationProvider_def OpenId_loadConfig_Inr
      OpenId_initialize_ready dest: checkAuthentication_Http)

theorem OpenId_provider_contract_witness:
  "ap_start (OpenIdAuthenticationProvider demo_lib demo_fs) new_openid demo_openid_config = Inr demo_provider_ready \<and>
   openid_ready demo_provider_ready"
proof -
  have start: "ap_start (OpenIdAuthenticationProvider demo_lib demo_fs) new_openid demo_openid_config =
      Inr demo_provider_ready"
  proof -
    have "ap_start (OpenIdAuthenticationProvider demo_lib demo_fs) new_openid demo_openid_config =
        OpenId_initialize demo_lib demo_fs demo_provider"
      by (simp add: ap_start_def OpenIdAuthenticationProvider_def demo_load demo_provider_def)
    also have "\<dots> = Inr demo_provider_ready"
      by (simp add: OpenId_initialize_def demo_provider_def tv_initialize_def Simple_initialize_def readFile_def
          create_def demo_lib_def demo_fs_def demo_provider_ready_def)
    finally show ?thesis .
  qed
  then show ?thesis
    using ap_start_ready [OF conjunct1 [OF OpenId_provider_contract] start] by simp
qed

end
