(* ===== verification/ConfigValidation.thy ===== *)
theory ConfigValidation
  imports OpenIdConfig
begin

text \<open>
  A reference validator for the provider's configuration object, written from section 6
  of the specification (\<^verbatim>\<open>spec.md\<close>) as a predicate on the JSON object, and the
  theorem that \<^verbatim>\<open>OpenIdAuthenticationProvider::loadConfig\<close> (the loop
  \<open>OpenId_loadConfig_members\<close> and the checks after it) accepts exactly the valid
  objects: the error paths of loading, all at once.
\<close>

section \<open>The valid configurations\<close>

text \<open>A scope as the configuration must give it, and the values of a \<open>claims\<close> object.\<close>

definition scope_value_ok :: "json \<Rightarrow> bool" where
  "scope_value_ok v \<longleftrightarrow> (case v of JStr s \<Rightarrow> getScopeError s = None | _ \<Rightarrow> False)"

definition claim_value_ok :: "json \<Rightarrow> bool" where
  "claim_value_ok v \<longleftrightarrow> (case v of JArr ts \<Rightarrow> list_all (\<lambda>t. as_string t \<noteq> None) ts | _ \<Rightarrow> False)"

text \<open>One member of the \<open>@OpenID\<close> object as section 6 of the specification describes it:
  \<open>realm\<close> a string with no control character, \<open>scopes\<close> an array of valid scope
  strings, \<open>issuer\<close> and \<open>audience\<close> non-empty strings, \<open>claims\<close> an object of arrays
  of strings, \<open>verification\<close> a verification block that loads; no other member.\<close>

definition openid_member_ok :: "filesystem \<Rightarrow> string \<times> json \<Rightarrow> bool" where
  "openid_member_ok fs m \<longleftrightarrow>
     (case m of (k, v) \<Rightarrow>
        if k = ''realm'' then (case v of JStr r \<Rightarrow> getRealmError r = None | _ \<Rightarrow> False)
        else if k = ''scopes'' then (case v of JArr vs \<Rightarrow> list_all scope_value_ok vs | _ \<Rightarrow> False)
        else if k = ''issuer'' \<or> k = ''audience'' then (case v of JStr s \<Rightarrow> s \<noteq> [] | _ \<Rightarrow> False)
        else if k = ''claims'' then (case v of JObj cs \<Rightarrow> list_all (\<lambda>(c, t). claim_value_ok t) cs | _ \<Rightarrow> False)
        else if k = ''verification'' then
          (case v of JObj vo \<Rightarrow> (\<exists>tv. AbstractTokenVerification_load fs vo = Inr tv) | _ \<Rightarrow> False)
        else False)"

text \<open>The claim names of all \<open>claims\<close> members, in order.\<close>

fun claim_names :: "(string \<times> json) list \<Rightarrow> string list" where
  "claim_names [] = []"
| "claim_names ((k, v) # ms) =
     (if k = ''claims'' then (case v of JObj cs \<Rightarrow> map fst cs | _ \<Rightarrow> []) else []) @ claim_names ms"

text \<open>A valid provider configuration: every member valid, claim names unique across the
  whole object, and issuer, audience and verification present.\<close>

definition openid_config_valid :: "filesystem \<Rightarrow> (string \<times> json) list \<Rightarrow> bool" where
  "openid_config_valid fs obj \<longleftrightarrow>
     list_all (openid_member_ok fs) obj \<and> distinct (claim_names obj) \<and>
     ''issuer'' \<in> set (map fst obj) \<and> ''audience'' \<in> set (map fst obj) \<and> ''verification'' \<in> set (map fst obj)"

section \<open>The loader accepts exactly the valid configurations\<close>

lemma openid_member_ok_simps:
  "openid_member_ok fs (''realm'', v) = (case v of JStr r \<Rightarrow> getRealmError r = None | _ \<Rightarrow> False)"
  "openid_member_ok fs (''scopes'', v) = (case v of JArr vs \<Rightarrow> list_all scope_value_ok vs | _ \<Rightarrow> False)"
  "openid_member_ok fs (''issuer'', v) = (case v of JStr s \<Rightarrow> s \<noteq> [] | _ \<Rightarrow> False)"
  "openid_member_ok fs (''audience'', v) = (case v of JStr s \<Rightarrow> s \<noteq> [] | _ \<Rightarrow> False)"
  "openid_member_ok fs (''claims'', v) =
     (case v of JObj cs \<Rightarrow> list_all (\<lambda>(c, t). claim_value_ok t) cs | _ \<Rightarrow> False)"
  "openid_member_ok fs (''verification'', v) =
     (case v of JObj vo \<Rightarrow> (\<exists>tv. AbstractTokenVerification_load fs vo = Inr tv) | _ \<Rightarrow> False)"
  "k \<notin> {''realm'', ''scopes'', ''issuer'', ''audience'', ''claims'', ''verification''} \<Longrightarrow>
   openid_member_ok fs (k, v) = False"
  by (simp_all add: openid_member_ok_def)

lemma loadScopes_ex_Inr: "(\<exists>sc'. loadScopes vs sc = Inr sc') \<longleftrightarrow> list_all scope_value_ok vs"
proof (induction vs arbitrary: sc)
  case (Cons v vs)
  then show ?case
    by (cases v) (auto simp add: rbind_ex_Inr scope_value_ok_def split: option.splits)
qed simp

lemma loadClaims_titles_ex_Inr: "(\<exists>c'. loadClaims_titles ts c = Inr c') \<longleftrightarrow> list_all (\<lambda>t. as_string t \<noteq> None) ts"
proof (induction ts arbitrary: c)
  case (Cons t ts)
  then show ?case by (cases t) (auto simp add: rbind_ex_Inr)
qed simp

lemma loadClaims_ex_Inr:
  "(\<exists>cs'. loadClaims cs ms = Inr cs') \<longleftrightarrow>
   list_all (\<lambda>(c, t). claim_value_ok t) ms \<and> distinct (map fst ms) \<and> set (map fst ms) \<inter> set (map fst cs) = {}"
proof (induction cs ms rule: loadClaims.induct)
  case (2 cs key v ms)
  show ?case
  proof (cases "map_of cs key = None")
    case True
    have e: "emplace key c cs = (key, c) # cs" for c using True by (simp add: emplace_def)
    have ih: "(\<exists>cs'. loadClaims ((key, c) # cs) ms = Inr cs') \<longleftrightarrow>
      list_all (\<lambda>(c, t). claim_value_ok t) ms \<and> distinct (map fst ms) \<and> set (map fst ms) \<inter> set (map fst ((key, c) # cs)) = {}"
      for c using "2.IH" True e by (metis option.distinct(1))
    show ?thesis
      using ih True
      by (cases v) (auto simp add: rbind_ex_Inr e claim_value_ok_def loadClaims_titles_ex_Inr map_of_eq_None_iff)
  next
    case False
    then show ?thesis by (auto simp add: map_of_eq_None_iff)
  qed
qed simp

lemma loadClaims_keys: "loadClaims cs ms = Inr cs' \<Longrightarrow> set (map fst cs') = set (map fst ms) \<union> set (map fst cs)"
proof (induction cs ms arbitrary: cs' rule: loadClaims.induct)
  case (2 cs key v ms)
  from "2.prems" obtain ts claim where
    nk: "map_of cs key = None" and v: "v = JArr ts" and t: "loadClaims_titles ts [] = Inr claim" and
    r: "loadClaims ((key, claim) # cs) ms = Inr cs'"
    by (auto simp add: rbind_eq_Inr_iff emplace_def split: if_splits)
  have "loadClaims (emplace key claim cs) ms = Inr cs'" using r nk by (simp add: emplace_def)
  with "2.IH" nk v t have "set (map fst cs') = set (map fst ms) \<union> set (map fst ((key, claim) # cs))"
    by (simp add: emplace_def)
  then show ?case by auto
qed simp

text \<open>The loops of the loader, each read as its acceptance condition.\<close>

lemma loadConfig_members_ex_Inr:
  "(\<exists>st'. OpenId_loadConfig_members fs st obj = Inr st') \<longleftrightarrow>
   list_all (openid_member_ok fs) obj \<and> distinct (claim_names obj) \<and> set (claim_names obj) \<inter> set (map fst (claims st)) = {}"
proof (induction obj arbitrary: st)
  case (Cons m ms)
  obtain key v where m: "m = (key, v)" by fastforce
  have ih: "(\<exists>st'. OpenId_loadConfig_members fs st1 ms = Inr st') \<longleftrightarrow>
      list_all (openid_member_ok fs) ms \<and> distinct (claim_names ms) \<and> set (claim_names ms) \<inter> set (map fst (claims st1)) = {}"
    for st1 by (rule Cons.IH)
  consider (realm) "key = ''realm''" | (scopes) "key = ''scopes''" | (issuer) "key = ''issuer''"
    | (audience) "key = ''audience''" | (claims) "key = ''claims''" | (verification) "key = ''verification''"
    | (other) "key \<notin> {''realm'', ''scopes'', ''issuer'', ''audience'', ''claims'', ''verification''}"
    by auto
  then show ?case
  proof cases
    case realm
    then show ?thesis using ih by (cases v) (simp_all add: m rbind_ex_Inr openid_member_ok_simps split: option.split)
  next
    case scopes
    then show ?thesis using ih by (cases v) (simp_all add: m rbind_ex_Inr openid_member_ok_simps loadScopes_ex_Inr)
  next
    case issuer
    then show ?thesis using ih by (cases v) (simp_all add: m rbind_ex_Inr openid_member_ok_simps)
  next
    case audience
    then show ?thesis using ih by (cases v) (simp_all add: m rbind_ex_Inr openid_member_ok_simps)
  next
    case verification
    then show ?thesis using ih by (cases v) (simp_all add: m rbind_ex_Inr openid_member_ok_simps)
  next
    case other
    then show ?thesis by (simp add: m openid_member_ok_simps)
  next
    case claims
    show ?thesis
    proof (cases "\<exists>cs. v = JObj cs")
      case False
      with claims show ?thesis by (cases v) (simp_all add: m rbind_ex_Inr openid_member_ok_simps)
    next
      case True
      then obtain cs where v: "v = JObj cs" by blast
      have lhs: "(\<exists>st'. OpenId_loadConfig_members fs st (m # ms) = Inr st') \<longleftrightarrow>
          (\<exists>cs'. loadClaims (claims st) cs = Inr cs' \<and>
             list_all (openid_member_ok fs) ms \<and> distinct (claim_names ms) \<and>
             set (claim_names ms) \<inter> set (map fst cs') = {})"
        using ih claims by (simp add: m v rbind_ex_Inr)
      have keys: "loadClaims (claims st) cs = Inr cs' \<Longrightarrow>
          set (map fst cs') = set (map fst cs) \<union> set (map fst (claims st))" for cs'
        by (rule loadClaims_keys)
      have rhs: "list_all (openid_member_ok fs) (m # ms) \<and> distinct (claim_names (m # ms)) \<and>
          set (claim_names (m # ms)) \<inter> set (map fst (claims st)) = {} \<longleftrightarrow>
          list_all (\<lambda>(c, t). claim_value_ok t) cs \<and> list_all (openid_member_ok fs) ms \<and>
          distinct (map fst cs) \<and> distinct (claim_names ms) \<and>
          set (map fst cs) \<inter> set (claim_names ms) = {} \<and>
          (set (map fst cs) \<union> set (claim_names ms)) \<inter> set (map fst (claims st)) = {}"
        using claims by (simp only: m v list.pred_inject claim_names.simps openid_member_ok_simps json.case
            simp_thms if_True distinct_append set_append conj_assoc)
      show ?thesis
      proof (cases "\<exists>cs'. loadClaims (claims st) cs = Inr cs'")
        case False
        then have "\<not> (list_all (\<lambda>(c, t). claim_value_ok t) cs \<and> distinct (map fst cs) \<and>
            set (map fst cs) \<inter> set (map fst (claims st)) = {})"
          using loadClaims_ex_Inr [of "claims st" cs] by blast
        moreover have "\<not> (\<exists>st'. OpenId_loadConfig_members fs st (m # ms) = Inr st')"
          unfolding lhs using False by blast
        ultimately show ?thesis unfolding rhs by blast
      next
        case True
        then obtain cs' where l: "loadClaims (claims st) cs = Inr cs'" by blast
        have ok: "list_all (\<lambda>(c, t). claim_value_ok t) cs \<and> distinct (map fst cs) \<and>
            set (map fst cs) \<inter> set (map fst (claims st)) = {}"
          using loadClaims_ex_Inr [of "claims st" cs] l by blast
        have "(\<exists>st'. OpenId_loadConfig_members fs st (m # ms) = Inr st') \<longleftrightarrow>
            list_all (openid_member_ok fs) ms \<and> distinct (claim_names ms) \<and>
            set (claim_names ms) \<inter> (set (map fst cs) \<union> set (map fst (claims st))) = {}"
          unfolding lhs using l keys [OF l] by auto
        with ok show ?thesis unfolding rhs by blast
      qed
    qed
  qed
qed simp

lemma loadConfig_members_Cons_Inr:
  assumes "OpenId_loadConfig_members fs st ((key, v) # ms) = Inr st'"
  shows "\<exists>st1. OpenId_loadConfig_members fs st1 ms = Inr st' \<and>
     (if key = ''issuer'' then issuer st1 \<noteq> [] else issuer st1 = issuer st) \<and>
     (if key = ''audience'' then audience st1 \<noteq> [] else audience st1 = audience st) \<and>
     (if key = ''verification'' then verification st1 \<noteq> None else verification st1 = verification st)"
proof -
  consider "key = ''realm''" | "key = ''scopes''" | "key = ''issuer''" | "key = ''audience''" | "key = ''claims''"
    | "key = ''verification''"
    using assms by (auto split: if_splits)
  then show ?thesis
  proof cases
    case 1
    with assms show ?thesis by (auto simp add: rbind_eq_Inr_iff split: option.splits)
  next
    case 2
    with assms show ?thesis by (auto simp add: rbind_eq_Inr_iff)
  next
    case 3
    with assms show ?thesis by (auto simp add: rbind_eq_Inr_iff split: if_splits)
  next
    case 4
    with assms show ?thesis by (auto simp add: rbind_eq_Inr_iff split: if_splits)
  next
    case 5
    with assms show ?thesis by (auto simp add: rbind_eq_Inr_iff)
  next
    case 6
    with assms show ?thesis by (auto simp add: rbind_eq_Inr_iff)
  qed
qed

lemma loadConfig_members_required:
  "OpenId_loadConfig_members fs st obj = Inr st' \<Longrightarrow>
   (issuer st' = [] \<longleftrightarrow> issuer st = [] \<and> ''issuer'' \<notin> set (map fst obj)) \<and>
   (audience st' = [] \<longleftrightarrow> audience st = [] \<and> ''audience'' \<notin> set (map fst obj)) \<and>
   (verification st' = None \<longleftrightarrow> verification st = None \<and> ''verification'' \<notin> set (map fst obj))"
proof (induction obj arbitrary: st)
  case (Cons m ms)
  obtain key v where m: "m = (key, v)" by fastforce
  with Cons.prems obtain st1 where r: "OpenId_loadConfig_members fs st1 ms = Inr st'" and
    f: "if key = ''issuer'' then issuer st1 \<noteq> [] else issuer st1 = issuer st"
       "if key = ''audience'' then audience st1 \<noteq> [] else audience st1 = audience st"
       "if key = ''verification'' then verification st1 \<noteq> None else verification st1 = verification st"
    by (blast dest: loadConfig_members_Cons_Inr)
  from Cons.IH [OF r] f m show ?case by (auto split: if_splits)
qed simp

text \<open>
  C20. The member loop of \<^verbatim>\<open>OpenIdAuthenticationProvider::loadConfig\<close> with its checks
  after the loop is exactly the validator of the specification's configuration format: a
  fresh provider loads from an object if and only if the object is a valid provider
  configuration. Every invalid member, duplicate claim name and missing required member is
  rejected, and nothing valid is refused. Members other than \<open>claims\<close> may repeat: the
  last \<open>realm\<close>, \<open>issuer\<close>, \<open>audience\<close> or \<open>verification\<close> wins and scopes
  accumulate.
\<close>

theorem OpenId_loadConfig_accepts_iff:
  "(\<exists>st. OpenId_loadConfig fs new_openid obj = Inr st) \<longleftrightarrow> openid_config_valid fs obj"
proof (cases "\<exists>st'. OpenId_loadConfig_members fs new_openid obj = Inr st'")
  case True
  then obtain st' where m: "OpenId_loadConfig_members fs new_openid obj = Inr st'" by blast
  from loadConfig_members_ex_Inr [of fs new_openid obj] True
  have ok: "list_all (openid_member_ok fs) obj \<and> distinct (claim_names obj)"
    by (simp add: new_openid_def)
  from loadConfig_members_required [OF m] ok m show ?thesis
    by (auto simp add: OpenId_loadConfig_def openid_config_valid_def new_openid_def)
next
  case False
  then show ?thesis
    using loadConfig_members_ex_Inr [of fs new_openid obj]
    by (auto simp add: OpenId_loadConfig_def openid_config_valid_def rbind_ex_Inr new_openid_def)
qed

theorem OpenId_loadConfig_accepts_iff_witness:
  "(\<exists>st. OpenId_loadConfig demo_fs new_openid demo_openid_config = Inr st) \<and>
   \<not> (\<exists>st. OpenId_loadConfig demo_fs new_openid ((''scopes'', JArr [JStr []]) # demo_openid_config) = Inr st)"
proof -
  have "openid_config_valid demo_fs demo_openid_config"
    by (simp add: openid_config_valid_def openid_member_ok_simps scope_value_ok_def claim_value_ok_def
        load_demo_defs)
  moreover have "\<not> openid_config_valid demo_fs ((''scopes'', JArr [JStr []]) # demo_openid_config)"
    by (simp add: openid_config_valid_def openid_member_ok_simps scope_value_ok_def getScopeError_def)
  ultimately show ?thesis
    using OpenId_loadConfig_accepts_iff [of demo_fs demo_openid_config]
      OpenId_loadConfig_accepts_iff [of demo_fs "(''scopes'', JArr [JStr []]) # demo_openid_config"]
    by simp
qed

end
