(* ===== verification/Spec2Isabelle.thy ===== *)
theory Spec2Isabelle
  imports Registration Outcome AuthProvider ConfigValidation
begin

text \<open>
  \<^bold>\<open>A verification model of xentara-simple-sample-web-service.\<close>

  The repository is a Xentara plugin that runs an HTTPS server whose one resource is
  protected by bearer tokens (JWT / OpenID Connect). Its parts, and where each is
  modelled:

  \<^item> \<^bold>\<open>Prelude\<close>: the result type \<open>'e + 'a\<close> that stands for a C++ function that returns
    (\<open>Inr\<close>) or throws (\<open>Inl\<close>), its sequencing \<open>rbind\<close>; byte constants; decimal
    rendering and reading; \<^verbatim>\<open>starts_with\<close>; association-list lemmas (the model of
    \<^verbatim>\<open>std::unordered_map\<close>, whose iteration order is unspecified).
  \<^item> \<^bold>\<open>Json\<close>, \<^bold>\<open>Jwt\<close>, \<^bold>\<open>Config\<close>: the values and libraries the code calls but the
    repository does not contain. JSON values (picojson; integers are \<^verbatim>\<open>int64\<close>, a
    \<open>64 word\<close>); the jwt-cpp interface as a record \<open>jwt_lib\<close> of functions (decoder,
    key acceptance, signature check, JWKS parser, DER to PEM, and the values of the
    enumerators \<^verbatim>\<open>token_verification_error::ok\<close> and \<open>token_expired\<close>), so that
    every theorem holds for any library; the \<^verbatim>\<open>std::error_code\<close> the signature
    check sets as a record of its category, value and message; the Xentara decoder's typed accessors and the file system as a
    map from paths to contents.
  \<^item> \<^bold>\<open>HttpError\<close> (\<^verbatim>\<open>src/src/HttpError.hpp\<close>): the exception with response code
    and response data; \<open>request_error\<close> is an \<^verbatim>\<open>HttpError\<close> or another
    \<^verbatim>\<open>std::exception\<close>.
  \<^item> \<^bold>\<open>Registry\<close> (\<^verbatim>\<open>src/src/TokenVerifierFactory.*\<close>): the table \<open>kFactories\<close>,
    the lookup \<open>factory\<close> and \<open>create\<close>.
  \<^item> \<^bold>\<open>Verification\<close> (\<^verbatim>\<open>src/src/AbstractTokenVerification.*\<close>,
    \<^verbatim>\<open>SimpleTokenVerification.*\<close>, \<^verbatim>\<open>JwksTokenVerification.*\<close>): the two key
    verifiers as records with \<open>loadConfig\<close>, \<open>initialize\<close> and \<open>verify\<close> each, the
    tagged union \<open>token_verification\<close> for the abstract class, and
    \<open>AbstractTokenVerification_load\<close>. \<open>check_error_code\<close> is the test both
    \<open>verify\<close> methods make of the error code: its value alone, as in the source.
  \<^item> \<^bold>\<open>OpenId\<close>, \<^bold>\<open>Challenge\<close>, \<^bold>\<open>Claims\<close>, \<^bold>\<open>Provider\<close>
    (\<^verbatim>\<open>src/src/OpenIdAuthenticationProvider.*\<close>): the provider's members as the
    record \<open>openid\<close>; the realm and scope checks, the realm escaping \<open>makeRealm\<close> (an
    index loop over a growing string, a \<^theory_text>\<open>function\<close> with a measure) and the
    challenge header; the claims matcher; the request pipeline \<open>checkAuthentication\<close> /
    \<open>checkJwt\<close> with one definition per check, composed with \<open>rbind\<close> in the order of
    the source, so that the first exception ends the request.
  \<^item> \<^bold>\<open>OpenIdConfig\<close> (\<^verbatim>\<open>OpenIdAuthenticationProvider::loadConfig\<close>, \<^verbatim>\<open>loadClaims\<close>,
    \<^verbatim>\<open>initialize\<close>): the provider's configuration phase, member by member with every
    check and message, and the invariant \<open>wf_openid\<close> of a loaded provider.
  \<^item> \<^bold>\<open>Server\<close> (\<^verbatim>\<open>src/src/Server.*\<close>): the microservice's members as the record
    \<open>server\<close>; \<open>Server_loadConfig\<close> and \<open>Server_loadAuthenticationProvider\<close> (the host's
    fallback handler is a parameter), \<open>Server_prepare\<close> (libhttp's start is a parameter),
    \<open>handle_request\<close> and \<open>beginRequestHandler\<close> (the bytes the handler writes),
    \<open>sendResponse\<close>, \<open>Server_cleanup\<close>, \<open>logMessageHandler\<close> (the text written to
    \<^verbatim>\<open>std::cout\<close> and the value returned to libhttp).
  \<^item> \<^bold>\<open>Lifecycle\<close>: the order in which the host calls the microservice (load, prepare,
    requests, cleanup) as the inductive step relation \<open>server_step\<close>, its reachable
    states \<open>server_reach\<close> and their invariant \<open>server_inv\<close>, by rule induction.
  \<^item> \<^bold>\<open>Registration\<close> (\<^verbatim>\<open>Plugin.hpp\<close>, \<^verbatim>\<open>ServiceProvider.*\<close>,
    \<^verbatim>\<open>Server::Class\<close>): the objects registered with the host and
    \<open>createMicroservice\<close>.
  \<^item> \<^bold>\<open>AuthProvider\<close> (\<^verbatim>\<open>src/src/AbstractAuthenticationProvider.hpp\<close>): the
    interface as a record \<open>'s authentication_provider\<close> of its three methods over the
    provider's state type, the contract \<open>provider_contract\<close> the server relies on, the
    server's calls through the base pointer (\<open>ap_start\<close>, \<open>handle_request_ap\<close>) with
    lemmas for any provider meeting the contract, and \<open>OpenIdAuthenticationProvider\<close>
    as the implementation that discharges it (a lemma built from the claims on
    configuration and rejection, not a claim of its own).
  \<^item> \<^bold>\<open>Outcome\<close>: the failure taxonomy of the specification (accept, 400, 401, 403,
    405, generic server error) as a datatype, the specification's ordered pipeline
    \<open>spec_outcome\<close> written from \<^verbatim>\<open>spec.md\<close> section 4.3, and the abstraction
    \<open>outcome_of_response\<close> of the bytes the server writes.
  \<^item> \<^bold>\<open>ConfigValidation\<close>: the provider's configuration format of \<^verbatim>\<open>spec.md\<close>
    section 6 as an executable validator \<open>openid_config_valid\<close> on the JSON object, and the
    theorem that the loader accepts exactly the valid objects.

  \<^bold>\<open>What the theorems show.\<close> The root theory states the properties that span components:
  the contract of the whole pipeline (a token is accepted exactly when it decodes, its
  dates hold, its audience and issuer match, the configured verifier accepts it and the
  claim constraints hold), each stage's rejection on a concrete configuration, and the
  composition of the life cycle with the refinement. Each component theory proves its own properties: the registry's lookup,
  the verifiers' key handling, the realm escaping against the quoted-string reference and
  its round trip, the claims matcher against its contract, the stage lemmas that read the
  code's claim loops as lookups. The configuration theories prove that what loads
  satisfies the invariants (provider: issuer, audience, verification present, realm and
  scopes valid, no duplicate names; server: port, certificate, one well-formed provider)
  and that initialisation keeps them and readies the key material; a server configuration
  that loads has exactly one provider block, and its provider is what that block loads
  to. The server theory
  classifies every rejection (its status code, and the challenge it carries), proves the
  framing of every response (exactly two header fields: the challenge travels in the
  body), characterises the \<open>200 OK\<close> answer and shows that the \<open>listening_ports\<close>
  string reads back as the port; the life-cycle theory proves that every reachable
  running server answers every request and that a configuration that loads and
  initialises reaches the running phase. The refinement theorem of \<^bold>\<open>Outcome\<close> shows
  that the status class of every response equals the specification's outcome on the same
  request, for dates and clock after 1970 (before 1970 the code's unsigned comparison
  departs from it, as the Provider theory shows for a negative \<open>exp\<close>). Some lemmas
  are kept only as the evidence of a defect of the code: the table's missing
  \<open>RS384\<close> binding (Registry), the tilde compared where the comment says DEL
  (Challenge), the negative \<open>exp\<close> never expiring (Provider), the category-blind
  error-code test (Verification) and the challenge fragment after the header's final
  line break (this theory). The last section of this theory composes the
  life cycle with the refinement: every request that reaches a running server is a step
  that leaves it unchanged and is answered with the specification's outcome.

  \<^bold>\<open>Time, widths and order.\<close> The clock is a parameter \<open>now\<close> of type \<open>64 word\<close>
  (\<^verbatim>\<open>system_clock::now()\<close> in seconds, an \<^verbatim>\<open>int64\<close>). \<open>exp\<close> and \<open>nbf\<close> are
  stored by the code as \<^verbatim>\<open>uint64_t\<close> and compared unsigned; the model keeps that
  width, so the wrap-around of negative values is visible. Iteration over unordered
  containers is a list in some order, and no theorem depends on the order. There are no
  loops that may fail to end: every loop is structural recursion over a list, except
  \<open>makeRealm\<close>, whose termination is proved with the measure \<open>length s - i\<close>.

  \<^bold>\<open>Not modelled.\<close> The HTTP transport itself (libhttp parses requests and writes
  bytes; the model takes the parsed request and returns the bytes), TLS and the Xentara
  host are outside the model; the cryptography, the token parser and the JWKS parser of jwt-cpp are
  parameters. Fractional JSON numbers are not modelled. The lines of \<^verbatim>\<open>src/\<close> that no
  definition translates are include directives, compiler pragmas, comments, and member
  function declarations in the headers whose bodies are modelled where they are defined;
  they carry no behaviour of their own. The server's \<^verbatim>\<open>_portNumber\<close>
  has no initializer in the source; the model starts it at 0, the value its check
  expects.

  \<^bold>\<open>Plan.\<close> Done: every component of \<^verbatim>\<open>src/\<close>, with
  the life cycle's progress (a loading configuration reaches the running phase), the port
  string's round trip, the escaping loop's totality and length bound, the interface of
  the authentication provider with its contract, the refinement of the request handler
  against the specification's failure taxonomy, and the error paths of loading: the
  provider's loader rejects exactly the configurations the specification calls invalid,
  and a configuration or start that fails never leads to a serving state. Open: the exact
  message of each rejection is modelled (every \<open>ConfigError\<close> carries the source's
  text) but only the accept/reject partition is stated as a theorem.
\<close>

section \<open>The scenario of the specification\<close>

text \<open>
  The scenario of the specification: a provider configured with issuer \<open>acme\<close>, audience \<open>api\<close> and an HS256 key read
  from \<open>/k\<close>, and a library whose signature check accepts a token when its signature is
  \<open>sig-\<close> followed by the verifier's key.
\<close>

definition acme_token :: jwt_token where
  "acme_token =
     \<lparr>header_claims = [(''alg'', JStr ''HS256'')],
      payload_claims = [(''aud'', JStr ''api''), (''iss'', JStr ''acme'')],
      signature = ''sig-k''\<rparr>"

definition acme_lib :: jwt_lib where
  "acme_lib =
     \<lparr>decode = (\<lambda>s.
        if s = ''good'' then Some acme_token
        else if s = ''forged'' then Some (acme_token\<lparr>signature := ''sig-x''\<rparr>)
        else if s = ''early'' then Some (acme_token\<lparr>payload_claims := (''nbf'', JNum 5000) # payload_claims acme_token\<rparr>)
        else if s = ''late'' then Some (acme_token\<lparr>payload_claims := (''exp'', JNum 500) # payload_claims acme_token\<rparr>)
        else if s = ''web'' then Some (acme_token\<lparr>payload_claims := [(''aud'', JStr ''web''), (''iss'', JStr ''acme'')]\<rparr>)
        else if s = ''anon'' then Some (acme_token\<lparr>payload_claims := [(''iss'', JStr ''acme'')]\<rparr>)
        else if s = ''rogue'' then Some (acme_token\<lparr>payload_claims := [(''aud'', JStr ''api''), (''iss'', JStr ''evil'')]\<rparr>)
        else None),
      key_accepted = (\<lambda>a k. True),
      verify_token = (\<lambda>v t. if signature t = ''sig-'' @ verifier_key v then jwt_success
                           else signature_failure),
      parse_jwks = (\<lambda>_. None),
      der_to_pem = (\<lambda>_. None),
      tve_ok = 0, tve_token_expired = 14\<rparr>"

definition acme_provider :: openid where
  "acme_provider =
     buildAuthenticationHeader
       (new_openid\<lparr>issuer := ''acme'', audience := ''api'',
          verification := Some (Simple \<lparr>keyFile = ''/k'', verifierFactory = hs256,
            verifier = Some \<lparr>allowed_algorithm = hs256, verifier_key = ''k''\<rparr>\<rparr>)\<rparr>)"

text \<open>A server that serves the resource with that provider.\<close>

definition acme_server :: server where
  "acme_server =
     \<lparr>portNumber = 443, authentication = Some acme_provider, serverCertificatePath = ''/cert.pem'',
      lh_context = Some [(''listening_ports'', ''443s''), (''ssl_certificate'', ''/cert.pem'')]\<rparr>"

lemma wf_lib_acme_lib: "wf_lib acme_lib"
  by (simp add: wf_lib_def acme_lib_def acme_token_def wf_token_def)

lemmas acme_defs = acme_lib_def acme_token_def acme_provider_def new_openid_def buildAuthenticationHeader_def
  get_payload_claim_def tv_verify_def Simple_verify_def check_error_code_def jwt_success_def signature_failure_def

section \<open>The pipeline against its contract\<close>




section \<open>The order of the checks\<close>

text \<open>
  Each check ends the request when it fails, and the checks after it do not run. The
  theorems below fix the outcome of a request from the first failing check alone,
  whatever the token's remaining claims and signature.
\<close>

lemma decodeJwt_Some: "decode lib s = Some t \<Longrightarrow> decodeJwt lib st s = Inr t"
  by (simp add: decodeJwt_def)

text \<open>
  C2. A token whose \<open>nbf\<close> is after now is rejected with \<open>401\<close> / \<open>token not valid
  yet\<close>, before its expiry, audience, issuer, signature and claims are looked at.
\<close>

theorem checkJwt_not_yet_valid:
  assumes "wf_lib lib" "decode lib s = Some t"
    and "get_payload_claim t ''nbf'' = Some (JNum nb)" "now < nb"
    and "\<forall>v. get_payload_claim t ''exp'' = Some v \<longrightarrow> as_int v \<noteq> None"
  shows "checkJwt lib now st s = reject st ''401 invalid token'' ''token not valid yet''"
  using checkDate_not_yet_valid [OF wf_lib_decode [OF assms(1,2)] assms(3-5)]
  by (simp add: checkJwt_def decodeJwt_Some [OF assms(2)] reject_def)

theorem checkJwt_not_yet_valid_witness:
  "checkJwt acme_lib 1000 acme_provider ''early'' = reject acme_provider ''401 invalid token'' ''token not valid yet''"
  by (rule checkJwt_not_yet_valid [OF wf_lib_acme_lib, where nb = 5000])
     (simp add: acme_defs)+

text \<open>
  C3. A token whose \<open>exp\<close> is before now, and whose \<open>nbf\<close> (if any) is not after now,
  is rejected with \<open>401\<close> / \<open>token expired\<close>, whatever its other claims and its
  signature.
\<close>

theorem checkJwt_expired:
  assumes "wf_lib lib" "decode lib s = Some t"
    and "get_payload_claim t ''exp'' = Some (JNum ex)" "ex < now"
    and "\<forall>v. get_payload_claim t ''nbf'' = Some v \<longrightarrow> (\<exists>n. as_int v = Some n \<and> \<not> now < n)"
  shows "checkJwt lib now st s = reject st ''401 invalid token'' ''token expired''"
  using checkDate_expired [OF wf_lib_decode [OF assms(1,2)] assms(3-5)]
  by (simp add: checkJwt_def decodeJwt_Some [OF assms(2)] reject_def)

theorem checkJwt_expired_witness:
  "checkJwt acme_lib 1000 acme_provider ''late'' = reject acme_provider ''401 invalid token'' ''token expired''"
  by (rule checkJwt_expired [OF wf_lib_acme_lib, where ex = 500])
     (simp add: acme_defs)+

text \<open>
  C4. A token with valid dates whose \<open>aud\<close> does not match the configured audience is
  rejected with \<open>403\<close> / \<open>incorrect audience\<close>.
\<close>

theorem checkJwt_wrong_audience:
  assumes "decode lib s = Some t" "checkDate st now t = Inr ()"
    and "get_payload_claim t ''aud'' = Some v" "to_str v \<noteq> audience st"
  shows "checkJwt lib now st s = reject st ''403 invalid token'' ''incorrect audience''"
  using assms by (simp add: checkJwt_def decodeJwt_Some checkAudience_lookup reject_def)

theorem checkJwt_wrong_audience_witness:
  "checkJwt acme_lib 1000 acme_provider ''web'' = reject acme_provider ''403 invalid token'' ''incorrect audience''"
  by (rule checkJwt_wrong_audience [where v = "JStr ''web''"])
     (simp add: acme_defs checkDate_def)+

text \<open>
  C5. A token with valid dates and no \<open>aud\<close> claim is rejected with \<open>400\<close> (not
  \<open>403\<close>) / \<open>incorrect audience\<close>.
\<close>

theorem checkJwt_missing_audience:
  assumes "decode lib s = Some t" "checkDate st now t = Inr ()"
    and "get_payload_claim t ''aud'' = None"
  shows "checkJwt lib now st s = reject st ''400 invalid scope'' ''incorrect audience''"
  using assms by (simp add: checkJwt_def decodeJwt_Some checkAudience_lookup reject_def)

theorem checkJwt_missing_audience_witness:
  "checkJwt acme_lib 1000 acme_provider ''anon'' = reject acme_provider ''400 invalid scope'' ''incorrect audience''"
  by (rule checkJwt_missing_audience) (simp add: acme_defs checkDate_def)+

text \<open>
  C6. A token that passes the date and audience checks but whose \<open>iss\<close> is missing or
  different from the configured issuer is rejected with \<open>403\<close> / \<open>access denied\<close>
  (the same answer for both cases).
\<close>

theorem checkJwt_issuer_rejected:
  assumes "decode lib s = Some t" "checkDate st now t = Inr ()" "checkAudience st t = Inr ()"
    and "\<forall>v. get_payload_claim t ''iss'' = Some v \<longrightarrow> to_str v \<noteq> issuer st"
  shows "checkJwt lib now st s = reject st ''403 invalid scope'' ''access denied''"
  using assms
  by (cases "get_payload_claim t ''iss''") (simp_all add: checkJwt_def decodeJwt_Some checkIssuer_lookup reject_def)

theorem checkJwt_issuer_rejected_witness:
  "checkJwt acme_lib 1000 acme_provider ''rogue'' = reject acme_provider ''403 invalid scope'' ''access denied''"
  by (rule checkJwt_issuer_rejected) (simp add: acme_defs checkDate_def checkAudience_def)+

text \<open>
  C7. A token that passes the date, audience and issuer checks but that the configured
  verifier rejects, for whatever reason it throws, is rejected with \<open>401\<close> /
  \<open>Jwt verification failed\<close>.
\<close>

theorem checkJwt_signature_rejected:
  assumes "decode lib s = Some t" "checkDate st now t = Inr ()" "checkAudience st t = Inr ()"
    and "checkIssuer st t = Inr ()" "verification st = Some tv" "tv_verify lib tv t = Inl e"
  shows "checkJwt lib now st s = reject st ''401 invalid token'' ''Jwt verification failed''"
  using assms by (simp add: checkJwt_def decodeJwt_Some checkSignature_def reject_def)

theorem checkJwt_signature_rejected_witness:
  "checkJwt acme_lib 1000 acme_provider ''forged'' = reject acme_provider ''401 invalid token'' ''Jwt verification failed''"
  by (rule checkJwt_signature_rejected [where e = "''invalid signature''"])
     (simp add: acme_defs checkDate_def checkAudience_def checkIssuer_def)+

section \<open>The scenarios of the specification\<close>

text \<open>
  The request-level scenarios of the specification, evaluated on the configuration above: a
  missing \<open>Authorization\<close> header gives \<open>401 Unauthorized\<close> / \<open>Authentication
  required\<close> with the \<open>WWW-Authenticate: Bearer\<close> line; \<open>Basic abc\<close> gives
  \<open>400\<close> with \<open>error_code="invalid_request"\<close> and \<open>Unsupported authentication
  method\<close>; two \<open>Authorization\<close> headers give \<open>400\<close> / \<open>Duplicate Authorization
  header\<close>; the correctly signed token is accepted.
\<close>

theorem acme_request_scenarios:
  \<open>checkAuthentication acme_lib 1000 acme_provider \<lparr>request_method = ''GET'', http_headers = []\<rparr>
     = Inl (Http (HttpError ''401 Unauthorized'' ''Authentication required''
                   (''WWW-Authenticate: Bearer scope="openid"'' @ crlf))) \<and>
   checkAuthentication acme_lib 1000 acme_provider
       \<lparr>request_method = ''GET'', http_headers = [(''Authorization'', ''Basic abc'')]\<rparr>
     = Inl (Http (HttpError ''400 Bad Request'' []
                   (''WWW-Authenticate: Bearer scope="openid"'' @ crlf
                    @ '' error_code="invalid_request" error_message="Unsupported authentication method"''))) \<and>
   checkAuthentication acme_lib 1000 acme_provider
       \<lparr>request_method = ''GET'', http_headers = [(''Authorization'', ''Bearer good''), (''Authorization'', ''Bearer good'')]\<rparr>
     = Inl (Http (HttpError ''400 Bad Request'' []
                   (''WWW-Authenticate: Bearer scope="openid"'' @ crlf
                    @ '' error_code="invalid_request" error_message="Duplicate Authorization header"''))) \<and>
   checkAuthentication acme_lib 1000 acme_provider
       \<lparr>request_method = ''GET'', http_headers = [(''Host'', ''x''), (''Authorization'', ''Bearer good'')]\<rparr>
     = Inr ()\<close>
proof -
  have hdr: \<open>wwwAuthernicateHeader acme_provider = ''WWW-Authenticate: Bearer scope="openid"'' @ crlf\<close>
    by (simp add: acme_provider_def new_openid_def buildAuthenticationHeader_def dquote_def)
  have good: "checkJwt acme_lib 1000 acme_provider ''good'' = Inr ()"
    by (simp add: checkJwt_def decodeJwt_def acme_defs checkDate_def checkAudience_def checkIssuer_def
        checkSignature_def checkClaims_def)
  show ?thesis
    using good by (simp add: checkAuthentication_def invalid_request_def reject_def hdr starts_with_def)
qed

section \<open>The server end to end\<close>

text \<open>The correctly signed token, sent with \<open>GET\<close>, is answered \<open>200 OK\<close> by the server
  that holds the provider: the instance of \<open>Server.beginRequestHandler_ok\<close> on the scenario.\<close>

theorem beginRequestHandler_ok_witness:
  "authentication acme_server = Some acme_provider \<and>
   beginRequestHandler acme_lib 1000 acme_server
     \<lparr>request_method = ''GET'', http_headers = [(''Authorization'', ''Bearer good'')]\<rparr> =
   Some (sendResponse ''200 OK'' ''Hello from Xentara!'' [])"
proof -
  have good: "checkJwt acme_lib 1000 acme_provider ''good'' = Inr ()"
    by (simp add: checkJwt_def decodeJwt_def acme_defs checkDate_def checkAudience_def checkIssuer_def
        checkSignature_def checkClaims_def)
  then have "checkAuthentication acme_lib 1000 acme_provider
      \<lparr>request_method = ''GET'', http_headers = [(''Authorization'', ''Bearer good'')]\<rparr> = Inr ()"
    by (simp add: checkAuthentication_def starts_with_def)
  with beginRequestHandler_ok [of acme_server acme_provider acme_lib 1000
      "\<lparr>request_method = ''GET'', http_headers = [(''Authorization'', ''Bearer good'')]\<rparr>"]
  show ?thesis by (simp add: acme_server_def)
qed

text \<open>Three requests on the scenario, classified through \<open>Outcome.beginRequestHandler_refines_spec\<close>:
  an expired token is \<open>401\<close>, a good token sent with \<open>POST\<close> is \<open>405\<close>, a token without
  audience is \<open>400\<close>.\<close>

theorem beginRequestHandler_refines_spec_witness:
  "map_option outcome_of_response (beginRequestHandler acme_lib 1000 acme_server
      \<lparr>request_method = ''GET'', http_headers = [(''Authorization'', ''Bearer late'')]\<rparr>) = Some Unauthorized \<and>
   map_option outcome_of_response (beginRequestHandler acme_lib 1000 acme_server
      \<lparr>request_method = ''POST'', http_headers = [(''Authorization'', ''Bearer good'')]\<rparr>) = Some MethodNotAllowed \<and>
   map_option outcome_of_response (beginRequestHandler acme_lib 1000 acme_server
      \<lparr>request_method = ''GET'', http_headers = [(''Authorization'', ''Bearer anon'')]\<rparr>) = Some BadRequest"
proof -
  have dates: "lib_dates_nonneg acme_lib"
    by (simp add: lib_dates_nonneg_def dates_nonneg_def date_claim_def acme_lib_def acme_token_def get_payload_claim_def)
  have srv: "authentication acme_server = Some acme_provider"
    by (simp add: acme_server_def)
  have now: "0 \<le> sint (1000 :: int64)" by simp
  note refines = beginRequestHandler_refines_spec [OF wf_lib_acme_lib dates now srv]
  note spec_defs = spec_outcome_def spec_authentication_def authorization_values_def starts_with_def
    spec_token_outcome_def spec_temporal_def spec_checks_def date_claim_def acme_defs claims_accept_def
  have "spec_outcome acme_lib 1000 acme_provider
      \<lparr>request_method = ''GET'', http_headers = [(''Authorization'', ''Bearer late'')]\<rparr> = Unauthorized"
    by (simp add: spec_defs)
  moreover have "spec_outcome acme_lib 1000 acme_provider
      \<lparr>request_method = ''POST'', http_headers = [(''Authorization'', ''Bearer good'')]\<rparr> = MethodNotAllowed"
    by (simp add: spec_defs)
  moreover have "spec_outcome acme_lib 1000 acme_provider
      \<lparr>request_method = ''GET'', http_headers = [(''Authorization'', ''Bearer anon'')]\<rparr> = BadRequest"
    by (simp add: spec_defs)
  ultimately show ?thesis
    by (simp only: refines)
qed

section \<open>The life cycle meets the specification\<close>



end
